(* ===== verification/TryOn_Prelude.thy ===== *)
theory TryOn_Prelude
  imports Complex_Main "HOL-Library.Word"
begin

text \<open>
  Shared vocabulary of the try-on development: the numeric conventions used to read the
  TypeScript sources (JavaScript numbers as \<open>real\<close>, \<open>Math.round\<close> as HOL's
  \<open>round\<close>, the bytes of an \<open>ImageData\<close> buffer as \<open>8 word\<close>), the 2D point and
  product-category types several components share, and the generic lemmas on rounding,
  square roots, folds and bytes that the component proofs rely on.
\<close>

named_theorems model_defs
  "definitions of the model unfolded when a witness evaluates a concrete run"

type_synonym u8 = "8 word"

text \<open>
  \<open>Product.category\<close> of \<^verbatim>\<open>src/src/lib/products.ts\<close>: the union type
  \<^verbatim>\<open>"eyewear" | "watch" | "clothing"\<close>.
\<close>

datatype category = Eyewear | Watch | Clothing

text \<open>A 2D point of face-api.js (\<open>{x, y}\<close>), in pixel coordinates.\<close>

record point =
  pt_x :: real
  pt_y :: real

subsection \<open>Decimal strings\<close>

text \<open>
  Decimal printing of a non-negative integer, as a template literal or \<open>toFixed\<close> prints it,
  and the value a string of decimal digits denotes.
\<close>

fun string_of_nat :: "nat \<Rightarrow> string" where
  "string_of_nat n =
     (if n < 10 then [''0123456789'' ! n]
      else string_of_nat (n div 10) @ [''0123456789'' ! (n mod 10)])"

declare string_of_nat.simps [simp del]

definition digits_value :: "string \<Rightarrow> nat" where
  "digits_value ds = foldl (\<lambda>n c. 10 * n + (of_char c - 48)) 0 ds"

subsection \<open>Math.round\<close>

text \<open>
  \<open>Math.round\<close> rounds to the nearest integer and breaks ties towards
  \<open>+\<infinity>\<close>: it is \<open>\<lfloor>x + 1/2\<rfloor>\<close>, which is exactly HOL's \<open>round\<close>.
\<close>

lemma round_half_up: "round (x::real) = \<lfloor>x + 1/2\<rfloor>"
  by (simp add: round_def)

lemma round_int_div:
  assumes "0 < b"
  shows "round (real_of_int a / real_of_int b) = (2 * a + b) div (2 * b)"
proof -
  have "real_of_int a / real_of_int b + 1/2 = real_of_int (2 * a + b) / real_of_int (2 * b)"
    using assms by (simp add: field_simps)
  then have "round (real_of_int a / real_of_int b) = \<lfloor>real_of_int (2 * a + b) / real_of_int (2 * b)\<rfloor>"
    by (simp add: round_def)
  then show ?thesis
    by (simp only: floor_divide_of_int_eq)
qed

lemma round_mono_real: "(x::real) \<le> y \<Longrightarrow> round x \<le> round y"
  by (simp add: round_half_up floor_mono)

lemma round_nonneg: "0 \<le> (x::real) \<Longrightarrow> 0 \<le> round x"
  by (simp add: round_half_up)

lemma round_le_of_int: "(x::real) \<le> of_int k \<Longrightarrow> round x \<le> k"
proof -
  assume "x \<le> of_int k"
  then have "round x \<le> round (of_int k :: real)" by (rule round_mono_real)
  then show ?thesis by simp
qed

lemma round_error: "\<bar>real_of_int (round x) - x\<bar> \<le> 1 / 2"
  using of_int_round_abs_le [of x] by (simp add: abs_minus_commute)

subsection \<open>Square roots against integer thresholds\<close>

lemma sqrt_less_iff_sq:
  assumes "0 \<le> (d::real)" "0 \<le> t"
  shows "sqrt d < t \<longleftrightarrow> d < t\<^sup>2"
proof -
  have "sqrt d < t \<longleftrightarrow> sqrt d < sqrt (t\<^sup>2)" using assms(2) by simp
  also have "\<dots> \<longleftrightarrow> d < t\<^sup>2" by (rule real_sqrt_less_iff)
  finally show ?thesis .
qed

subsection \<open>Folds that sum a field\<close>

lemma foldl_add_shift:
  "foldl (\<lambda>s p. s + f p) (a::real) ps = a + foldl (\<lambda>s p. s + f p) 0 ps"
proof (induction ps arbitrary: a)
  case Nil then show ?case by simp
next
  case (Cons p ps)
  have "foldl (\<lambda>s p. s + f p) a (p # ps) = (a + f p) + foldl (\<lambda>s p. s + f p) 0 ps"
    using Cons.IH [of "a + f p"] by simp
  moreover have "foldl (\<lambda>s p. s + f p) 0 (p # ps) = f p + foldl (\<lambda>s p. s + f p) 0 ps"
    using Cons.IH [of "f p"] by simp
  ultimately show ?case by simp
qed

lemma foldl_add_sum_list:
  "foldl (\<lambda>s p. s + f p) (0::real) ps = sum_list (map f ps)"
proof (induction ps)
  case Nil then show ?case by simp
next
  case (Cons p ps)
  have "foldl (\<lambda>s p. s + f p) 0 (p # ps) = f p + foldl (\<lambda>s p. s + f p) 0 ps"
    by (simp only: foldl_Cons add_0_left foldl_add_shift [of f "f p"])
  with Cons.IH show ?case by simp
qed

subsection \<open>Lists searched by a key\<close>

lemma find_Some_mem: "find P xs = Some x \<Longrightarrow> x \<in> set xs \<and> P x"
  by (induction xs) (auto split: if_splits)

lemma find_distinct_key:
  "distinct (map k xs) \<Longrightarrow> find (\<lambda>p. k p = i) xs = Some p \<longleftrightarrow> p \<in> set xs \<and> k p = i"
proof (induction xs)
  case Nil then show ?case by simp
next
  case (Cons x xs)
  then show ?case by (auto simp: image_iff)
qed

lemma four_cons: "4 \<le> length xs \<Longrightarrow> \<exists>r g b a rest. xs = r # g # b # a # rest"
  by (cases xs; cases "tl xs"; cases "tl (tl xs)"; cases "tl (tl (tl xs))") auto

lemma length_filter_le_one:
  "distinct (map f xs) \<Longrightarrow> \<forall>x \<in> set xs. P x \<longrightarrow> f x = k \<Longrightarrow> length (filter P xs) \<le> 1"
proof (induction xs)
  case Nil then show ?case by simp
next
  case (Cons x xs)
  show ?case
  proof (cases "P x")
    case True
    then have "filter P xs = []" using Cons.prems by (auto simp: filter_empty_conv image_iff)
    then show ?thesis using True by simp
  qed (use Cons in simp)
qed

subsection \<open>Bytes\<close>

lemma uint_u8_bound: "0 \<le> uint (b::u8) \<and> uint b \<le> 255"
proof -
  have "uint b < 2 ^ LENGTH(8)" by (rule uint_bounded)
  then show ?thesis by simp
qed

lemma uint_word_of_int_u8:
  "0 \<le> v \<Longrightarrow> v \<le> 255 \<Longrightarrow> uint (word_of_int v :: u8) = v"
  by (simp add: uint_word_of_int_eq take_bit_int_eq_self)

subsection \<open>Decimal strings\<close>

lemma string_of_nat_0 [simp]: "string_of_nat 0 = ''0''"
  by (simp add: string_of_nat.simps)

lemma string_of_nat_1 [simp]: "string_of_nat 1 = ''1''"
  by (simp add: string_of_nat.simps)

lemma string_of_nat_numeral [simp]:
  "string_of_nat (numeral k) =
     (if numeral k < (10 :: nat) then [''0123456789'' ! numeral k]
      else string_of_nat (numeral k div 10) @ [''0123456789'' ! (numeral k mod 10)])"
  by (rule string_of_nat.simps)

lemma digits_value_append:
  "digits_value (xs @ ys) = digits_value xs * 10 ^ length ys + digits_value ys"
proof (induction ys rule: rev_induct)
  case Nil
  then show ?case by (simp add: digits_value_def)
next
  case (snoc y ys)
  then show ?case by (simp add: digits_value_def algebra_simps)
qed

lemma digits_value_zeros [simp]: "digits_value (replicate k CHR ''0'' @ ds) = digits_value ds"
  by (simp add: digits_value_append) (induction k, simp_all add: digits_value_def)

lemma digit_char_value: "d < 10 \<Longrightarrow> of_char (''0123456789'' ! d) - 48 = (d :: nat)"
  by (simp add: less_Suc_eq numeral_eq_Suc) (elim disjE, simp_all)

lemma digits_value_string_of_nat [simp]: "digits_value (string_of_nat n) = n"
proof (induction n rule: string_of_nat.induct)
  case (1 n)
  show ?case
  proof (cases "n < 10")
    case True
    then show ?thesis by (simp add: string_of_nat.simps digits_value_def digit_char_value)
  next
    case False
    then have "string_of_nat n = string_of_nat (n div 10) @ [''0123456789'' ! (n mod 10)]"
      by (subst string_of_nat.simps) simp
    then show ?thesis using "1.IH" False
      by (simp only: digits_value_append) (simp add: digits_value_def digit_char_value)
  qed
qed

lemma string_of_nat_digits: "set (string_of_nat n) \<subseteq> set ''0123456789''"
proof (induction n rule: string_of_nat.induct)
  case (1 n)
  have "''0123456789'' ! d \<in> set ''0123456789''" if "d < 10" for d
    using that by (intro nth_mem) simp
  with 1 show ?case by (cases "n < 10") (auto simp: string_of_nat.simps [of n])
qed

lemma string_of_nat_ne [simp]: "string_of_nat n \<noteq> []"
  by (simp add: string_of_nat.simps [of n])

end
