(* ===== verification/Placement.thy ===== *)
theory Placement
  imports TryOn_Prelude
begin

text \<open>
  Overlay placement, \<^verbatim>\<open>src/src/lib/tryOnEngine.ts\<close>: the \<open>OverlayPosition\<close>
  interface, \<open>detectEyewearPosition\<close> (eye centres, eye distance and head roll from the
  68-point face-api.js landmarks, then the eyewear rectangle) and
  \<open>getDefaultOverlayPosition\<close> (the watch and clothing heuristics). The face detector
  itself is external: its result, \<open>None\<close> for no face or the landmark positions, is
  the input of the model. JavaScript numbers are read as reals.
\<close>

record overlay_position =
  pos_x :: real
  pos_y :: real
  pos_width :: real
  pos_height :: real
  pos_angle :: real

subsection \<open>face-api.js and Math primitives\<close>

text \<open>
  \<open>FaceLandmarks68.getLeftEye\<close> and \<open>getRightEye\<close> of face-api.js return
  \<open>positions.slice(36, 42)\<close> and \<open>positions.slice(42, 48)\<close>.
\<close>

definition getLeftEye :: "point list \<Rightarrow> point list" where
  "getLeftEye positions = take 6 (drop 36 positions)"

definition getRightEye :: "point list \<Rightarrow> point list" where
  "getRightEye positions = take 6 (drop 42 positions)"

definition hypot :: "real \<Rightarrow> real \<Rightarrow> real" where
  "hypot a b = sqrt (a\<^sup>2 + b\<^sup>2)"

text \<open>\<open>Math.atan2(y, x)\<close>, on reals (no signed zeros).\<close>

definition atan2 :: "real \<Rightarrow> real \<Rightarrow> real" where
  "atan2 y x =
     (if 0 < x then arctan (y / x)
      else if x < 0 then (if 0 \<le> y then arctan (y / x) + pi else arctan (y / x) - pi)
      else if 0 < y then pi / 2
      else if y < 0 then - (pi / 2)
      else 0)"

subsection \<open>Eyewear placement\<close>

text \<open>
  The centre of an eye: \<open>eye.reduce((s, p) => s + p.x, 0) / eye.length\<close>, and the
  same for \<open>y\<close>.
\<close>

definition eye_center :: "point list \<Rightarrow> point" where
  "eye_center eye =
     \<lparr>pt_x = foldl (\<lambda>s p. s + pt_x p) 0 eye / real (length eye),
      pt_y = foldl (\<lambda>s p. s + pt_y p) 0 eye / real (length eye)\<rparr>"

definition detectEyewearPosition :: "point list option \<Rightarrow> overlay_position option" where
  "detectEyewearPosition detection =
     (case detection of
        None \<Rightarrow> None
      | Some landmarks \<Rightarrow>
          (let leftEye = getLeftEye landmarks;
               rightEye = getRightEye landmarks;
               leftCenter = eye_center leftEye;
               rightCenter = eye_center rightEye;
               eyeDistance = hypot (pt_x rightCenter - pt_x leftCenter)
                                   (pt_y rightCenter - pt_y leftCenter);
               angle = atan2 (pt_y rightCenter - pt_y leftCenter)
                             (pt_x rightCenter - pt_x leftCenter);
               width = eyeDistance * 2.4;
               height = width * 0.45;
               centerX = (pt_x leftCenter + pt_x rightCenter) / 2;
               centerY = (pt_y leftCenter + pt_y rightCenter) / 2
           in Some \<lparr>pos_x = centerX - width / 2, pos_y = centerY - height / 2,
                    pos_width = width, pos_height = height, pos_angle = angle\<rparr>))"

subsection \<open>Heuristic placement\<close>

definition getDefaultOverlayPosition :: "real \<Rightarrow> real \<Rightarrow> category \<Rightarrow> overlay_position" where
  "getDefaultOverlayPosition imageWidth imageHeight cat =
     (let size = min imageWidth imageHeight * 0.3
      in if cat = Watch
         then \<lparr>pos_x = imageWidth * 0.15, pos_y = imageHeight * 0.55,
               pos_width = size, pos_height = size, pos_angle = 0\<rparr>
         else \<lparr>pos_x = (imageWidth - size * 1.2) / 2, pos_y = imageHeight * 0.3,
               pos_width = size * 1.2, pos_height = size * 1.5, pos_angle = 0\<rparr>)"

declare getLeftEye_def [model_defs] getRightEye_def [model_defs] hypot_def [model_defs]
  atan2_def [model_defs] eye_center_def [model_defs] detectEyewearPosition_def [model_defs]
  getDefaultOverlayPosition_def [model_defs]

subsection \<open>Transformations of the input, for stating properties\<close>

definition shift_point :: "real \<Rightarrow> real \<Rightarrow> point \<Rightarrow> point" where
  "shift_point dx dy p = \<lparr>pt_x = pt_x p + dx, pt_y = pt_y p + dy\<rparr>"

definition shift_position :: "real \<Rightarrow> real \<Rightarrow> overlay_position \<Rightarrow> overlay_position" where
  "shift_position dx dy q = q\<lparr>pos_x := pos_x q + dx, pos_y := pos_y q + dy\<rparr>"

definition scale_point :: "real \<Rightarrow> point \<Rightarrow> point" where
  "scale_point k p = \<lparr>pt_x = k * pt_x p, pt_y = k * pt_y p\<rparr>"

definition scale_position :: "real \<Rightarrow> overlay_position \<Rightarrow> overlay_position" where
  "scale_position k q = q\<lparr>pos_x := k * pos_x q, pos_y := k * pos_y q,
     pos_width := k * pos_width q, pos_height := k * pos_height q\<rparr>"

text \<open>
  The landmark set of the spec's worked example: all six left-eye points at
  \<open>(100, 200)\<close>, all six right-eye points at \<open>(160, 200)\<close>.
\<close>

definition spec_landmarks :: "point list" where
  "spec_landmarks = replicate 36 \<lparr>pt_x = 0, pt_y = 0\<rparr> @ replicate 6 \<lparr>pt_x = 100, pt_y = 200\<rparr>
     @ replicate 6 \<lparr>pt_x = 160, pt_y = 200\<rparr> @ replicate 20 \<lparr>pt_x = 0, pt_y = 0\<rparr>"

subsection \<open>Helper lemmas\<close>

lemma eye_center_map:
  assumes "eye \<noteq> []"
    and "\<And>p. pt_x (f p) = a * pt_x p + b" and "\<And>p. pt_y (f p) = a * pt_y p + c"
  shows "eye_center (map f eye) = \<lparr>pt_x = a * pt_x (eye_center eye) + b, pt_y = a * pt_y (eye_center eye) + c\<rparr>"
proof -
  have n: "real (length eye) \<noteq> 0" using assms(1) by simp
  have sx: "sum_list (map (\<lambda>p. pt_x (f p)) eye) = a * sum_list (map pt_x eye) + real (length eye) * b"
    by (induction eye) (simp_all add: assms(2) algebra_simps)
  have sy: "sum_list (map (\<lambda>p. pt_y (f p)) eye) = a * sum_list (map pt_y eye) + real (length eye) * c"
    by (induction eye) (simp_all add: assms(3) algebra_simps)
  show ?thesis
    using n by (simp add: eye_center_def foldl_add_sum_list o_def sx sy field_simps)
qed

lemma length_eyes:
  "48 \<le> length lm \<Longrightarrow> length (getLeftEye lm) = 6 \<and> length (getRightEye lm) = 6"
  by (simp add: getLeftEye_def getRightEye_def)

lemma eyes_map:
  "getLeftEye (map f lm) = map f (getLeftEye lm) \<and> getRightEye (map f lm) = map f (getRightEye lm)"
  by (simp add: getLeftEye_def getRightEye_def take_map drop_map)

lemma atan2_scale: "0 < k \<Longrightarrow> atan2 (k * y) (k * x) = atan2 y x"
  by (simp add: atan2_def zero_less_mult_iff mult_less_0_iff zero_le_mult_iff)

lemma hypot_scale: "0 < k \<Longrightarrow> hypot (k * a) (k * b) = k * hypot a b"
proof -
  assume k: "0 < k"
  have "(k * a)\<^sup>2 + (k * b)\<^sup>2 = k\<^sup>2 * (a\<^sup>2 + b\<^sup>2)" by (simp add: power_mult_distrib algebra_simps)
  then show ?thesis using k by (simp add: hypot_def real_sqrt_mult)
qed

lemma hypot_pos: "(a, b) \<noteq> (0, 0) \<Longrightarrow> 0 < hypot a b"
  by (auto simp: hypot_def sum_power2_gt_zero_iff)

lemma atan2_range: "- pi < atan2 y x \<and> atan2 y x \<le> pi"
proof -
  have lb: "- (pi / 2) < arctan t" and ub: "arctan t < pi / 2" for t
    using arctan_bounded [of t] by auto
  show ?thesis
  proof (cases "0 < x")
    case True then show ?thesis using lb [of "y / x"] ub [of "y / x"] pi_gt_zero
      by (simp add: atan2_def)
  next
    case x: False
    show ?thesis
    proof (cases "x < 0")
      case True
      show ?thesis
      proof (cases "0 \<le> y")
        case y: True
        have "y / x \<le> 0" using True y by (simp add: divide_nonneg_neg)
        then have "arctan (y / x) \<le> 0" by (simp add: arctan_le_zero_iff)
        moreover have "atan2 y x = arctan (y / x) + pi" using True y by (simp add: atan2_def)
        ultimately show ?thesis using lb [of "y / x"] pi_gt_zero by linarith
      next
        case y: False
        have "0 < y / x" using True y by (simp add: divide_neg_neg)
        then have "0 < arctan (y / x)" by (simp add: zero_less_arctan_iff)
        moreover have "atan2 y x = arctan (y / x) - pi" using True y by (simp add: atan2_def)
        ultimately show ?thesis using ub [of "y / x"] pi_gt_zero by linarith
      qed
    next
      case False
      then have "x = 0" using x by simp
      moreover have "- pi < - (pi / 2) \<and> - (pi / 2) \<le> pi \<and> - pi < pi / 2 \<and> - pi < 0"
        using pi_gt_zero by linarith
      ultimately show ?thesis by (auto simp: atan2_def)
    qed
  qed
qed

lemma spec_centers: "eye_center (getLeftEye spec_landmarks) = \<lparr>pt_x = 100, pt_y = 200\<rparr>"
  "eye_center (getRightEye spec_landmarks) = \<lparr>pt_x = 160, pt_y = 200\<rparr>"
  by (simp_all add: spec_landmarks_def getLeftEye_def getRightEye_def eye_center_def numeral_eq_Suc)

lemma spec_position:
  "detectEyewearPosition (Some spec_landmarks)
     = Some \<lparr>pos_x = 58, pos_y = 167.6, pos_width = 144, pos_height = 64.8, pos_angle = 0\<rparr>"
  by (simp add: detectEyewearPosition_def Let_def spec_centers hypot_def atan2_def)

subsection \<open>Properties of the placement\<close>

text \<open>When a face is found, the eyewear rectangle is centred on the midpoint of the two eye
  centres, its width is 2.4 times the distance between the eye centres, its height 0.45 times
  its width, and its angle (the head roll, \<open>Math.atan2\<close>) lies in \<open>(-\<pi>, \<pi>]\<close>.\<close>

theorem eyewear_rect_centered_on_eyes:
  "\<exists>pos. detectEyewearPosition (Some lm) = Some pos
     \<and> pos_x pos + pos_width pos / 2 = (pt_x (eye_center (getLeftEye lm)) + pt_x (eye_center (getRightEye lm))) / 2
     \<and> pos_y pos + pos_height pos / 2 = (pt_y (eye_center (getLeftEye lm)) + pt_y (eye_center (getRightEye lm))) / 2
     \<and> pos_width pos = 2.4 * hypot (pt_x (eye_center (getRightEye lm)) - pt_x (eye_center (getLeftEye lm)))
                                   (pt_y (eye_center (getRightEye lm)) - pt_y (eye_center (getLeftEye lm)))
     \<and> pos_height pos = 0.45 * pos_width pos
     \<and> - pi < pos_angle pos \<and> pos_angle pos \<le> pi"
  by (simp add: detectEyewearPosition_def Let_def atan2_range)

text \<open>The placement follows the face: translating every landmark by \<open>(dx, dy)\<close>
  translates the rectangle by \<open>(dx, dy)\<close> and leaves its size and angle unchanged.\<close>

theorem eyewear_translation:
  assumes "48 \<le> length lm"
  shows "detectEyewearPosition (Some (map (shift_point dx dy) lm))
         = map_option (shift_position dx dy) (detectEyewearPosition (Some lm))"
proof -
  have ne: "getLeftEye lm \<noteq> []" "getRightEye lm \<noteq> []" using length_eyes [OF assms] by auto
  note cl = eye_center_map [OF ne(1), of "shift_point dx dy" 1 dx dy]
  note cr = eye_center_map [OF ne(2), of "shift_point dx dy" 1 dx dy]
  show ?thesis using cl cr
    by (simp add: detectEyewearPosition_def eyes_map shift_point_def shift_position_def Let_def algebra_simps)
qed

theorem eyewear_translation_witness:
  "48 \<le> length spec_landmarks
   \<and> detectEyewearPosition (Some (map (shift_point 10 (- 5)) spec_landmarks))
       = map_option (shift_position 10 (- 5)) (detectEyewearPosition (Some spec_landmarks))"
  using eyewear_translation [of spec_landmarks 10 "- 5"] by (simp add: spec_landmarks_def)

text \<open>The placement scales with the photo: scaling every landmark by \<open>k > 0\<close> scales
  the rectangle's corner, width and height by \<open>k\<close> and keeps its angle.\<close>

theorem eyewear_scaling:
  assumes "48 \<le> length lm" and "0 < k"
  shows "detectEyewearPosition (Some (map (scale_point k) lm))
         = map_option (scale_position k) (detectEyewearPosition (Some lm))"
proof -
  have ne: "getLeftEye lm \<noteq> []" "getRightEye lm \<noteq> []" using length_eyes [OF assms(1)] by auto
  note cl = eye_center_map [OF ne(1), of "scale_point k" k 0 0]
  note cr = eye_center_map [OF ne(2), of "scale_point k" k 0 0]
  let ?L = "eye_center (getLeftEye lm)" and ?R = "eye_center (getRightEye lm)"
  have h: "hypot (k * pt_x ?R - k * pt_x ?L) (k * pt_y ?R - k * pt_y ?L) = k * hypot (pt_x ?R - pt_x ?L) (pt_y ?R - pt_y ?L)"
    using hypot_scale [OF assms(2)] by (simp add: right_diff_distrib [symmetric])
  have a: "atan2 (k * pt_y ?R - k * pt_y ?L) (k * pt_x ?R - k * pt_x ?L) = atan2 (pt_y ?R - pt_y ?L) (pt_x ?R - pt_x ?L)"
    using atan2_scale [OF assms(2)] by (simp add: right_diff_distrib [symmetric])
  show ?thesis using cl cr h a
    by (simp add: detectEyewearPosition_def eyes_map scale_point_def scale_position_def Let_def algebra_simps)
qed

theorem eyewear_scaling_witness:
  "48 \<le> length spec_landmarks \<and> (0::real) < 2
   \<and> detectEyewearPosition (Some (map (scale_point 2) spec_landmarks))
       = map_option (scale_position 2) (detectEyewearPosition (Some spec_landmarks))"
  using eyewear_scaling [of spec_landmarks 2] by (simp add: spec_landmarks_def)

text \<open>When the two eye centres differ, the eyewear rectangle has positive width and height
  (the invariant the spec states for every overlay position).\<close>

theorem eyewear_dims_positive:
  assumes "eye_center (getLeftEye lm) \<noteq> eye_center (getRightEye lm)"
    and "detectEyewearPosition (Some lm) = Some pos"
  shows "0 < pos_width pos \<and> 0 < pos_height pos"
proof -
  let ?L = "eye_center (getLeftEye lm)" and ?R = "eye_center (getRightEye lm)"
  have "(pt_x ?R - pt_x ?L, pt_y ?R - pt_y ?L) \<noteq> (0, 0)"
    using assms(1) by (auto intro: point.equality)
  then have "0 < hypot (pt_x ?R - pt_x ?L) (pt_y ?R - pt_y ?L)" by (rule hypot_pos)
  then show ?thesis using assms(2) by (auto simp: detectEyewearPosition_def Let_def)
qed

theorem eyewear_dims_positive_witness:
  "eye_center (getLeftEye spec_landmarks) \<noteq> eye_center (getRightEye spec_landmarks)
   \<and> detectEyewearPosition (Some spec_landmarks)
       = Some \<lparr>pos_x = 58, pos_y = 167.6, pos_width = 144, pos_height = 64.8, pos_angle = 0\<rparr>
   \<and> 0 < pos_width (the (detectEyewearPosition (Some spec_landmarks)))"
  using eyewear_dims_positive [of spec_landmarks] by (simp add: spec_centers spec_position)

text \<open>C35: When the two eye centres coincide, the code returns a rectangle of width and height
  0, which the spec's invariant \<open>width, height > 0\<close> excludes.\<close>

theorem eyewear_degenerate_zero_size:
  assumes "eye_center (getLeftEye lm) = eye_center (getRightEye lm)"
    and "detectEyewearPosition (Some lm) = Some pos"
  shows "pos_width pos = 0 \<and> pos_height pos = 0"
  using assms by (auto simp: detectEyewearPosition_def Let_def hypot_def)

theorem eyewear_degenerate_zero_size_witness:
  "eye_center (getLeftEye (replicate 68 \<lparr>pt_x = 5, pt_y = 7\<rparr>))
     = eye_center (getRightEye (replicate 68 \<lparr>pt_x = 5, pt_y = 7\<rparr>))
   \<and> pos_width (the (detectEyewearPosition (Some (replicate 68 \<lparr>pt_x = 5, pt_y = 7\<rparr>)))) = 0"
  using eyewear_degenerate_zero_size [of "replicate 68 \<lparr>pt_x = 5, pt_y = 7\<rparr>"]
  by (simp add: getLeftEye_def getRightEye_def detectEyewearPosition_def Let_def)

text \<open>C36: For a photo of positive size, the watch and clothing heuristics place a rectangle of
  positive size, unrotated, that lies inside the photo.\<close>

theorem default_inside_image:
  assumes "0 < W" and "0 < H" and "p = getDefaultOverlayPosition W H c"
  shows "0 \<le> pos_x p \<and> 0 \<le> pos_y p \<and> pos_x p + pos_width p \<le> W \<and> pos_y p + pos_height p \<le> H
         \<and> 0 < pos_width p \<and> 0 < pos_height p \<and> pos_angle p = 0"
  using assms by (auto simp: getDefaultOverlayPosition_def Let_def min_def field_simps)

theorem default_watch_spec_example:
  "getDefaultOverlayPosition 1000 800 Watch = \<lparr>pos_x = 150, pos_y = 440, pos_width = 240, pos_height = 240, pos_angle = 0\<rparr>
   \<and> 0 \<le> pos_x (getDefaultOverlayPosition 1000 800 Watch)"
  using default_inside_image [of 1000 800 "getDefaultOverlayPosition 1000 800 Watch" Watch] by (simp add: getDefaultOverlayPosition_def)

text \<open>The clothing rectangle is horizontally centred in the photo.\<close>

theorem default_clothing_centered:
  "c \<noteq> Watch \<Longrightarrow> pos_x (getDefaultOverlayPosition W H c) + pos_width (getDefaultOverlayPosition W H c) / 2 = W / 2"
  by (simp add: getDefaultOverlayPosition_def Let_def field_simps)

theorem default_clothing_centered_witness:
  "Clothing \<noteq> Watch
   \<and> pos_x (getDefaultOverlayPosition 1000 800 Clothing)
       + pos_width (getDefaultOverlayPosition 1000 800 Clothing) / 2 = 500"
  using default_clothing_centered [of Clothing 1000 800] by simp

end
