(* ===== verification/RemoteClient.thy ===== *)
theory RemoteClient
  imports TryOn_Prelude
begin

text \<open>
  The remote generation client: the Supabase edge function
  \<^verbatim>\<open>src/supabase/functions/virtual-try-on/index.ts\<close>. One invocation of the handler is
  one function of its inputs: the HTTP method, the parsed JSON body (or the message of the
  exception \<open>req.json()\<close> raised), the \<open>GEMINI_API_KEY\<close> environment variable and the
  network, modelled as an oracle that answers the \<open>n\<close>-th \<open>fetch\<close> of a given request
  body with a response or a rejection. The result is the HTTP reply together with what the
  handler did on the network: how many requests it sent and which delays it slept.
  Every \<open>return\<close> and every \<open>throw\<close> of the source is a branch of the model; thrown
  errors reach the \<open>catch\<close> block, which maps their message to status 429 or 500.
\<close>

subsection \<open>JavaScript values and strings\<close>

text \<open>
  A field of the request body: \<open>None\<close> is \<open>undefined\<close> (absent). A string is falsy
  exactly when it is empty; template literals print an absent field as \<open>"undefined"\<close>.
\<close>

definition js_truthy :: "string option \<Rightarrow> bool" where
  "js_truthy v = (case v of None \<Rightarrow> False | Some s \<Rightarrow> s \<noteq> [])"

definition js_template :: "string option \<Rightarrow> string" where
  "js_template v = (case v of None \<Rightarrow> ''undefined'' | Some s \<Rightarrow> s)"

text \<open>\<open>String.prototype.includes\<close>.\<close>

fun str_includes :: "string \<Rightarrow> string \<Rightarrow> bool" where
  "str_includes [] p = (p = [])"
| "str_includes (c # cs) p = (take (length p) (c # cs) = p \<or> str_includes cs p)"

subsection \<open>Requests, responses, replies\<close>

record try_on_request =
  userImage :: "string option"
  productId :: "string option"
  productName :: "string option"
  productCategory :: "string option"

text \<open>
  The JSON body sent to Gemini: the instruction text part and the inline image part.
  \<open>gr_text\<close> is \<open>None\<close> when the instruction is not a string, in which case
  \<open>JSON.stringify\<close> leaves the \<open>text\<close> key out.
\<close>

record gemini_request =
  gr_text :: "string option"
  gr_mime :: string
  gr_data :: string

text \<open>The parsed Gemini reply: \<open>candidates[i].content.parts[j].inlineData\<close>.\<close>

record inline_data =
  mimeType :: string
  data :: string

record part =
  inlineData :: "inline_data option"

record candidate =
  content_parts :: "part list option option"
    \<comment> \<open>\<open>None\<close>: no \<open>content\<close>; \<open>Some None\<close>: \<open>content\<close> without \<open>parts\<close>\<close>

record gemini_reply =
  candidates :: "candidate list option"

text \<open>
  An HTTP response of \<open>fetch\<close>: its status, its body read by \<open>response.text()\<close>, and
  its body read by \<open>response.json()\<close> (the message of the parse error on the left).
\<close>

record http_response =
  status :: nat
  body_text :: string
  body_json :: "string + gemini_reply"

datatype fetch_outcome = Response http_response | NetworkError string

text \<open>The handler's reply: the body \<open>"ok"\<close> of a CORS preflight, or a JSON object.\<close>

datatype reply_body =
    PreflightOk
  | SuccessBody string
  | ErrorBody string "nat option"

record http_reply =
  reply_status :: nat
  reply_body :: reply_body

subsection \<open>The prompt\<close>

text \<open>
  \<open>categoryPrompts[productCategory] || fallback\<close>: the lookup in an object literal also
  finds the members every object inherits from \<open>Object.prototype\<close>; those values are
  functions, truthy, and not strings. The edge function runs on Deno, which deletes the
  \<open>Object.prototype.__proto__\<close> accessor: there \<open>__proto__\<close> is an ordinary missing key
  and gets the fallback prompt.
\<close>

definition object_prototype_keys :: "string list" where
  "object_prototype_keys =
     [''constructor'', ''__defineGetter__'', ''__defineSetter__'', ''hasOwnProperty'',
      ''__lookupGetter__'', ''__lookupSetter__'', ''isPrototypeOf'', ''propertyIsEnumerable'',
      ''toString'', ''valueOf'', ''toLocaleString'']"

datatype prompt_value = PromptText string | PromptInherited string

text \<open>The entries of \<open>categoryPrompts\<close> and the fallback template.\<close>

definition eyewear_prompt :: "string \<Rightarrow> string" where
  "eyewear_prompt product_name =
     ''Add stylish '' @ product_name @ '' sunglasses/glasses to this person's face. The glasses should be positioned naturally on their face, fitting properly on the nose bridge and ears. Make it look realistic as if they're actually wearing the glasses. Maintain the original photo quality and lighting.''"

definition watch_prompt :: "string \<Rightarrow> string" where
  "watch_prompt product_name =
     ''Add a '' @ product_name @ '' watch to this person's left wrist. The watch should be positioned naturally and sized appropriately for their wrist. Make it look realistic as if they're actually wearing the watch. Maintain the original photo quality and lighting.''"

definition clothing_prompt :: "string \<Rightarrow> string" where
  "clothing_prompt product_name =
     ''Show this person wearing a '' @ product_name @ ''. The clothing should fit naturally on their body with realistic folds and draping. Maintain the original photo quality, lighting, and the person's pose.''"

definition fallback_prompt :: "string \<Rightarrow> string" where
  "fallback_prompt product_name =
     ''Add '' @ product_name @ '' to this person in a natural, realistic way. Maintain the original photo quality and lighting.''"

definition categoryPrompts :: "string \<Rightarrow> string \<Rightarrow> string option" where
  "categoryPrompts product_name key =
     (if key = ''eyewear'' then Some (eyewear_prompt product_name)
      else if key = ''watch'' then Some (watch_prompt product_name)
      else if key = ''clothing'' then Some (clothing_prompt product_name)
      else None)"

definition buildTryOnPrompt :: "string \<Rightarrow> string \<Rightarrow> prompt_value" where
  "buildTryOnPrompt product_name product_category =
     (case categoryPrompts product_name product_category of
        Some t \<Rightarrow> PromptText t
      | None \<Rightarrow>
          (if product_category \<in> set object_prototype_keys then PromptInherited product_category
           else PromptText (fallback_prompt product_name)))"

definition prompt_text :: "prompt_value \<Rightarrow> string option" where
  "prompt_text p = (case p of PromptText s \<Rightarrow> Some s | PromptInherited _ \<Rightarrow> None)"

subsection \<open>The data URL\<close>

text \<open>
  \<open>/^data:(image\/\w+);base64,(.+)$/\<close>. Since \<open>;\<close> is no word character, the
  \<open>\w+\<close> group is the maximal run of word characters after \<open>data:image/\<close>; the
  second group is the rest of the string, which must be non-empty and free of line
  terminators (\<open>.\<close> does not match them; the model's characters are bytes, so the
  terminators it can represent are \<open>\n\<close> and \<open>\r\<close>).
\<close>

definition is_word_char :: "char \<Rightarrow> bool" where
  "is_word_char c \<longleftrightarrow>
     c \<in> set ''abcdefghijklmnopqrstuvwxyzABCDEFGHIJKLMNOPQRSTUVWXYZ0123456789_''"

definition is_line_terminator :: "char \<Rightarrow> bool" where
  "is_line_terminator c \<longleftrightarrow> c = CHR 0x0A \<or> c = CHR 0x0D"

text \<open>Matching a literal at the start of a string: the rest, if it matches.\<close>

fun chop_prefix :: "string \<Rightarrow> string \<Rightarrow> string option" where
  "chop_prefix [] s = Some s"
| "chop_prefix (c # cs) [] = None"
| "chop_prefix (c # cs) (d # ds) = (if c = d then chop_prefix cs ds else None)"

definition match_data_url :: "string \<Rightarrow> (string \<times> string) option" where
  "match_data_url s =
     (case chop_prefix ''data:image/'' s of
        None \<Rightarrow> None
      | Some rest \<Rightarrow>
          (let w = takeWhile is_word_char rest;
               after = dropWhile is_word_char rest
           in case chop_prefix '';base64,'' after of
                None \<Rightarrow> None
              | Some b64 \<Rightarrow>
                  (if w \<noteq> [] \<and> b64 \<noteq> [] \<and> \<not> list_ex is_line_terminator b64
                   then Some (''image/'' @ w, b64) else None)))"

subsection \<open>The retry loop\<close>

definition maxRetries :: nat where
  "maxRetries = 3"

text \<open>\<open>Math.pow(2, attempt + 1) * 1000\<close> milliseconds.\<close>

definition backoff_delay :: "nat \<Rightarrow> nat" where
  "backoff_delay attempt = 2 ^ (attempt + 1) * 1000"

text \<open>
  The state the loop leaves behind: the exception a \<open>fetch\<close> raised, or the variable
  \<open>response\<close> (\<open>None\<close> while still \<open>null\<close>); the number of requests sent; the
  delays slept, in order.
\<close>

record loop_result =
  lr_outcome :: "string + http_response option"
  lr_requests :: nat
  lr_delays :: "nat list"

function retry_loop ::
  "(nat \<Rightarrow> fetch_outcome) \<Rightarrow> nat \<Rightarrow> http_response option \<Rightarrow> nat list \<Rightarrow> loop_result" where
  "retry_loop fetch attempt response delays =
     (if attempt \<le> maxRetries then
        (case fetch attempt of
           NetworkError msg \<Rightarrow>
             \<lparr>lr_outcome = Inl msg, lr_requests = Suc attempt, lr_delays = delays\<rparr>
         | Response r \<Rightarrow>
             (if status r = 429 \<and> attempt < maxRetries
              then retry_loop fetch (Suc attempt) (Some r) (delays @ [backoff_delay attempt])
              else \<lparr>lr_outcome = Inr (Some r), lr_requests = Suc attempt, lr_delays = delays\<rparr>))
      else \<lparr>lr_outcome = Inr response, lr_requests = attempt, lr_delays = delays\<rparr>)"
  by pat_completeness auto
termination
  by (relation "measure (\<lambda>(fetch, attempt, response, delays). Suc maxRetries - attempt)")
     (auto simp: maxRetries_def)

declare retry_loop.simps [simp del]

subsection \<open>Reply extraction and error replies\<close>

definition response_ok :: "http_response \<Rightarrow> bool" where
  "response_ok r \<longleftrightarrow> 200 \<le> status r \<and> status r \<le> 299"

text \<open>
  \<open>candidates[0].content?.parts\<close>, then \<open>parts.find(p => p.inlineData)\<close>; the
  thrown messages on the left.
\<close>

definition extract_image :: "gemini_reply \<Rightarrow> string + string" where
  "extract_image reply =
     (case candidates reply of
        None \<Rightarrow> Inl ''No response from Gemini API''
      | Some [] \<Rightarrow> Inl ''No response from Gemini API''
      | Some (c # _) \<Rightarrow>
          (case content_parts c of
             None \<Rightarrow> Inl ''No content parts in Gemini response''
           | Some None \<Rightarrow> Inl ''No content parts in Gemini response''
           | Some (Some parts) \<Rightarrow>
               (case find (\<lambda>p. inlineData p \<noteq> None) parts of
                  None \<Rightarrow> Inl ''No image was generated by Gemini''
                | Some p \<Rightarrow>
                    (case inlineData p of
                       None \<Rightarrow> Inl ''No image was generated by Gemini''
                     | Some d \<Rightarrow> Inr (''data:'' @ mimeType d @ '';base64,'' @ data d)))))"

text \<open>The \<open>catch\<close> block: status 429 when the message mentions 429 or a quota.\<close>

definition caught_reply :: "string \<Rightarrow> http_reply" where
  "caught_reply msg =
     \<lparr>reply_status = (if str_includes msg ''429'' \<or> str_includes msg ''quota'' then 429 else 500),
      reply_body = ErrorBody msg None\<rparr>"

definition error_reply :: "nat \<Rightarrow> string \<Rightarrow> http_reply" where
  "error_reply st msg = \<lparr>reply_status = st, reply_body = ErrorBody msg None\<rparr>"

text \<open>What happens once the loop has left a response behind (lines 91-136).\<close>

definition handle_response :: "http_response \<Rightarrow> http_reply" where
  "handle_response r =
     (if \<not> response_ok r then
        (if status r = 429 then
           \<lparr>reply_status = 429,
            reply_body = ErrorBody ''Rate limited after retries. Please try again shortly.'' (Some 30)\<rparr>
         else if status r = 402 \<or> status r = 403 then
           error_reply 402 ''API access denied. Please check your Gemini API key and billing.''
         else caught_reply (''Gemini API error ('' @ string_of_nat (status r) @ ''): '' @ body_text r))
      else
        (case body_json r of
           Inl msg \<Rightarrow> caught_reply msg
         | Inr reply \<Rightarrow>
             (case extract_image reply of
                Inl msg \<Rightarrow> caught_reply msg
              | Inr img \<Rightarrow> \<lparr>reply_status = 200, reply_body = SuccessBody img\<rparr>)))"

subsection \<open>The handler\<close>

text \<open>
  The body of the Gemini request (lines 45 and 55-79): the instruction for the product and
  the two groups of the data URL.
\<close>

definition gemini_request_for :: "try_on_request \<Rightarrow> string \<times> string \<Rightarrow> gemini_request" where
  "gemini_request_for req mb =
     \<lparr>gr_text = prompt_text (buildTryOnPrompt (js_template (productName req))
                                             (js_template (productCategory req))),
      gr_mime = fst mb, gr_data = snd mb\<rparr>"

text \<open>
  What the loop leaves behind becomes the reply: a rejected \<open>fetch\<close> is caught; a
  \<open>null\<close> response would make \<open>response!.ok\<close> throw a \<open>TypeError\<close>.
\<close>

definition finish :: "loop_result \<Rightarrow> http_reply" where
  "finish lr =
     (case lr_outcome lr of
        Inl msg \<Rightarrow> caught_reply msg
      | Inr None \<Rightarrow> caught_reply ''Cannot read properties of null (reading 'ok')''
      | Inr (Some r) \<Rightarrow> handle_response r)"

record handler_run =
  run_reply :: http_reply
  run_requests :: nat
  run_delays :: "nat list"

definition no_network :: "http_reply \<Rightarrow> handler_run" where
  "no_network rep = \<lparr>run_reply = rep, run_requests = 0, run_delays = []\<rparr>"

definition virtual_try_on ::
  "string \<Rightarrow> string + try_on_request \<Rightarrow> string option
   \<Rightarrow> (gemini_request \<Rightarrow> nat \<Rightarrow> fetch_outcome) \<Rightarrow> handler_run" where
  "virtual_try_on method body apiKey fetch =
     (if method = ''OPTIONS'' then no_network \<lparr>reply_status = 200, reply_body = PreflightOk\<rparr>
      else
        (case body of
           Inl msg \<Rightarrow> no_network (caught_reply msg)
         | Inr req \<Rightarrow>
             (if \<not> js_truthy (userImage req) \<or> \<not> js_truthy (productId req) then
                no_network (error_reply 400 ''Missing required fields: userImage and productId'')
              else if \<not> js_truthy apiKey then
                no_network (error_reply 500 ''Gemini API key not configured'')
              else
                (case match_data_url (the (userImage req)) of
                   None \<Rightarrow> no_network (error_reply 400
                             ''Invalid image format. Please provide a base64 encoded image.'')
                 | Some mb \<Rightarrow>
                     (let lr = retry_loop (fetch (gemini_request_for req mb)) 0 None []
                      in \<lparr>run_reply = finish lr, run_requests = lr_requests lr,
                          run_delays = lr_delays lr\<rparr>)))))"

text \<open>A request that passes every check before the network call.\<close>

definition request_valid :: "try_on_request \<Rightarrow> string option \<Rightarrow> bool" where
  "request_valid req apiKey \<longleftrightarrow>
     js_truthy (userImage req) \<and> js_truthy (productId req) \<and> js_truthy apiKey
     \<and> match_data_url (the (userImage req)) \<noteq> None"

subsection \<open>Inputs for the witnesses\<close>

definition example_request :: try_on_request where
  "example_request =
     \<lparr>userImage = Some ''data:image/png;base64,QUJD'', productId = Some ''classic-aviator'',
      productName = Some ''Classic Aviator'', productCategory = Some ''eyewear''\<rparr>"

definition rate_limited_response :: http_response where
  "rate_limited_response = \<lparr>status = 429, body_text = ''Resource exhausted'', body_json = Inl ''unread''\<rparr>"

definition image_reply :: gemini_reply where
  "image_reply =
     \<lparr>candidates = Some [\<lparr>content_parts = Some (Some
        [\<lparr>inlineData = None\<rparr>, \<lparr>inlineData = Some \<lparr>mimeType = ''image/png'', data = ''R0lG''\<rparr>\<rparr>])\<rparr>]\<rparr>"

definition image_response :: http_response where
  "image_response = \<lparr>status = 200, body_text = ''{}'', body_json = Inr image_reply\<rparr>"

text \<open>The network of the spec's example: three rate-limit answers, then the image.\<close>

definition three_429_then_image :: "gemini_request \<Rightarrow> nat \<Rightarrow> fetch_outcome" where
  "three_429_then_image g i = (if i < 3 then Response rate_limited_response else Response image_response)"

subsection \<open>Helper lemmas\<close>

lemma retry_loop_from:
  "attempt \<le> maxRetries \<Longrightarrow>
   \<exists>n. attempt \<le> n \<and> n \<le> maxRetries
     \<and> lr_requests (retry_loop f attempt resp ds) = Suc n
     \<and> lr_delays (retry_loop f attempt resp ds) = ds @ map backoff_delay [attempt..<n]
     \<and> (\<forall>i. attempt \<le> i \<and> i < n \<longrightarrow> (\<exists>r. f i = Response r \<and> status r = 429))
     \<and> (case f n of
          NetworkError m \<Rightarrow> lr_outcome (retry_loop f attempt resp ds) = Inl m
        | Response r \<Rightarrow> lr_outcome (retry_loop f attempt resp ds) = Inr (Some r)
                       \<and> (status r \<noteq> 429 \<or> n = maxRetries))"
proof (induction f attempt resp ds rule: retry_loop.induct)
  case (1 f attempt resp ds)
  show ?case
  proof (cases "f attempt")
    case (NetworkError m)
    then show ?thesis using "1.prems"
      by (intro exI [of _ attempt]) (auto simp: retry_loop.simps)
  next
    case (Response r)
    show ?thesis
    proof (cases "status r = 429 \<and> attempt < maxRetries")
      case True
      then have le: "Suc attempt \<le> maxRetries" by simp
      from "1.IH" [OF "1.prems" Response True le]
      obtain n where n: "Suc attempt \<le> n \<and> n \<le> maxRetries
        \<and> lr_requests (retry_loop f (Suc attempt) (Some r) (ds @ [backoff_delay attempt])) = Suc n
        \<and> lr_delays (retry_loop f (Suc attempt) (Some r) (ds @ [backoff_delay attempt]))
            = (ds @ [backoff_delay attempt]) @ map backoff_delay [Suc attempt..<n]
        \<and> (\<forall>i. Suc attempt \<le> i \<and> i < n \<longrightarrow> (\<exists>r. f i = Response r \<and> status r = 429))
        \<and> (case f n of
             NetworkError m \<Rightarrow> lr_outcome (retry_loop f (Suc attempt) (Some r) (ds @ [backoff_delay attempt])) = Inl m
           | Response r' \<Rightarrow> lr_outcome (retry_loop f (Suc attempt) (Some r) (ds @ [backoff_delay attempt])) = Inr (Some r')
                          \<and> (status r' \<noteq> 429 \<or> n = maxRetries))"
        by (rule exE)
      have unf: "retry_loop f attempt resp ds = retry_loop f (Suc attempt) (Some r) (ds @ [backoff_delay attempt])"
        using "1.prems" Response True by (simp add: retry_loop.simps)
      have upt: "[attempt..<n] = attempt # [Suc attempt..<n]" using n by (simp add: upt_rec)
      have all: "\<forall>i. attempt \<le> i \<and> i < n \<longrightarrow> (\<exists>r. f i = Response r \<and> status r = 429)"
      proof (intro allI impI)
        fix i assume i: "attempt \<le> i \<and> i < n"
        show "\<exists>r. f i = Response r \<and> status r = 429"
        proof (cases "i = attempt")
          case True with Response \<open>status r = 429 \<and> attempt < maxRetries\<close> show ?thesis by simp
        next
          case False with i n show ?thesis by simp
        qed
      qed
      show ?thesis
      proof (rule exI [of _ n], intro conjI)
        show "attempt \<le> n" "n \<le> maxRetries" using n by simp_all
        show "lr_requests (retry_loop f attempt resp ds) = Suc n" using n unf by simp
        show "lr_delays (retry_loop f attempt resp ds) = ds @ map backoff_delay [attempt..<n]"
          using n unf upt by simp
        show "\<forall>i. attempt \<le> i \<and> i < n \<longrightarrow> (\<exists>r. f i = Response r \<and> status r = 429)"
          by (rule all)
        show "case f n of NetworkError m \<Rightarrow> lr_outcome (retry_loop f attempt resp ds) = Inl m
          | Response r \<Rightarrow> lr_outcome (retry_loop f attempt resp ds) = Inr (Some r)
                         \<and> (status r \<noteq> 429 \<or> n = maxRetries)"
          using n unfolding unf by blast
      qed
    next
      case False
      then show ?thesis using "1.prems" Response
        by (intro exI [of _ attempt]) (auto simp: retry_loop.simps)
    qed
  qed
qed

lemma retry_loop_start:
  "\<exists>n \<le> maxRetries.
     lr_requests (retry_loop f 0 None []) = Suc n
   \<and> lr_delays (retry_loop f 0 None []) = map backoff_delay [0..<n]
   \<and> (\<forall>i<n. \<exists>r. f i = Response r \<and> status r = 429)
   \<and> (case f n of
        NetworkError m \<Rightarrow> lr_outcome (retry_loop f 0 None []) = Inl m
      | Response r \<Rightarrow> lr_outcome (retry_loop f 0 None []) = Inr (Some r)
                     \<and> (status r \<noteq> 429 \<or> n = maxRetries))"
  using retry_loop_from [of 0 f None "[]"] by (simp add: maxRetries_def)

lemma map_backoff_take: "n \<le> 3 \<Longrightarrow> map backoff_delay [0..<n] = take n [2000, 4000, 8000]"
  by (cases n; cases "n - 1"; cases "n - 2") (auto simp: backoff_delay_def upt_rec)

lemma retry_loop_unfold_429:
  "attempt < maxRetries \<Longrightarrow> f attempt = Response r \<Longrightarrow> status r = 429 \<Longrightarrow>
   retry_loop f attempt resp ds = retry_loop f (Suc attempt) (Some r) (ds @ [backoff_delay attempt])"
  by (simp add: retry_loop.simps)

lemma retry_loop_unfold_stop:
  "attempt \<le> maxRetries \<Longrightarrow> f attempt = Response r \<Longrightarrow> \<not> (status r = 429 \<and> attempt < maxRetries) \<Longrightarrow>
   retry_loop f attempt resp ds = \<lparr>lr_outcome = Inr (Some r), lr_requests = Suc attempt, lr_delays = ds\<rparr>"
  by (simp add: retry_loop.simps)

lemma virtual_try_on_valid:
  assumes "method \<noteq> ''OPTIONS''" and "request_valid req apiKey"
    and "match_data_url (the (userImage req)) = Some mb"
  shows "virtual_try_on method (Inr req) apiKey fetch =
    \<lparr>run_reply = finish (retry_loop (fetch (gemini_request_for req mb)) 0 None []),
     run_requests = lr_requests (retry_loop (fetch (gemini_request_for req mb)) 0 None []),
     run_delays = lr_delays (retry_loop (fetch (gemini_request_for req mb)) 0 None [])\<rparr>"
  using assms by (simp add: virtual_try_on_def request_valid_def Let_def)

lemma map_backoff_3: "map backoff_delay [0..<3] = [2000, 4000, 8000]"
  by (simp add: backoff_delay_def upt_rec)

lemma str_includes_append_left: "str_includes s p \<Longrightarrow> str_includes (a @ s) p"
  by (induction a) simp_all

lemma str_includes_Nil: "str_includes s []"
  by (cases s) simp_all

lemma str_includes_prefix: "str_includes (p @ b) p"
  by (cases p) (simp_all add: str_includes_Nil)

lemma str_includes_infix: "str_includes (a @ p @ b) p"
  by (rule str_includes_append_left) (rule str_includes_prefix)

lemma chop_prefix_Some: "chop_prefix p s = Some r \<longleftrightarrow> s = p @ r"
  by (induction p s rule: chop_prefix.induct) auto

lemma chop_prefix_append: "chop_prefix p (p @ r) = Some r"
  by (simp add: chop_prefix_Some)

lemma takeWhile_word_run:
  "list_all is_word_char w \<Longrightarrow> \<not> is_word_char c \<Longrightarrow> takeWhile is_word_char (w @ c # t) = w"
  by (induction w) simp_all

lemma dropWhile_word_run:
  "list_all is_word_char w \<Longrightarrow> \<not> is_word_char c \<Longrightarrow> dropWhile is_word_char (w @ c # t) = c # t"
  by (induction w) simp_all

lemma semicolon_not_word: "\<not> is_word_char (CHR '';'')"
  by (simp add: is_word_char_def)

lemma caught_reply_quota:
  "str_includes msg ''quota'' \<Longrightarrow> caught_reply msg = \<lparr>reply_status = 429, reply_body = ErrorBody msg None\<rparr>"
  by (simp add: caught_reply_def)

lemma category_prompt_names_product:
  "categoryPrompts n c = Some t \<Longrightarrow> str_includes t n"
proof -
  assume h: "categoryPrompts n c = Some t"
  have "str_includes (eyewear_prompt n) n" unfolding eyewear_prompt_def by (rule str_includes_infix)
  moreover have "str_includes (watch_prompt n) n" unfolding watch_prompt_def by (rule str_includes_infix)
  moreover have "str_includes (clothing_prompt n) n" unfolding clothing_prompt_def by (rule str_includes_infix)
  ultimately show ?thesis using h by (auto simp: categoryPrompts_def split: if_splits)
qed

lemma fallback_prompt_names_product: "str_includes (fallback_prompt n) n"
  unfolding fallback_prompt_def by (rule str_includes_infix)

lemma prototype_keys_not_categories:
  "c \<in> set object_prototype_keys \<Longrightarrow> categoryPrompts n c = None"
  by (auto simp: object_prototype_keys_def categoryPrompts_def)

lemma all_rate_limited_reply:
  assumes "method \<noteq> ''OPTIONS''" and "request_valid req apiKey"
    and "match_data_url (the (userImage req)) = Some mb"
    and "\<forall>i. \<exists>r. fetch (gemini_request_for req mb) i = Response r \<and> status r = 429"
  shows "virtual_try_on method (Inr req) apiKey fetch =
    \<lparr>run_reply = \<lparr>reply_status = 429,
       reply_body = ErrorBody ''Rate limited after retries. Please try again shortly.'' (Some 30)\<rparr>,
     run_requests = 4, run_delays = [2000, 4000, 8000]\<rparr>"
proof -
  let ?f = "fetch (gemini_request_for req mb)"
  obtain n where n: "n \<le> maxRetries" "lr_requests (retry_loop ?f 0 None []) = Suc n"
    "lr_delays (retry_loop ?f 0 None []) = map backoff_delay [0..<n]"
    "case ?f n of NetworkError m \<Rightarrow> lr_outcome (retry_loop ?f 0 None []) = Inl m
      | Response r \<Rightarrow> lr_outcome (retry_loop ?f 0 None []) = Inr (Some r) \<and> (status r \<noteq> 429 \<or> n = maxRetries)"
    using retry_loop_start [of ?f] by blast
  obtain r where r: "?f n = Response r" "status r = 429" using assms(4) by blast
  have n3: "n = 3" using n(1,4) r by (simp add: maxRetries_def)
  have out: "lr_outcome (retry_loop ?f 0 None []) = Inr (Some r)" using n(4) r by simp
  have "finish (retry_loop ?f 0 None []) = handle_response r" using out by (simp add: finish_def)
  then show ?thesis
    using virtual_try_on_valid [OF assms(1-3)] n(2,3) n3 r
    by (simp add: handle_response_def response_ok_def map_backoff_3)
qed

lemma retry_loop_stops_at:
  assumes "k \<le> maxRetries" and "\<forall>i<k. \<exists>r. f i = Response r \<and> status r = 429"
    and "\<forall>r. f k = Response r \<longrightarrow> status r \<noteq> 429 \<or> k = maxRetries"
  shows "lr_requests (retry_loop f 0 None []) = Suc k
       \<and> lr_delays (retry_loop f 0 None []) = map backoff_delay [0..<k]
       \<and> lr_outcome (retry_loop f 0 None []) =
           (case f k of NetworkError m \<Rightarrow> Inl m | Response r \<Rightarrow> Inr (Some r))"
proof -
  obtain n where n: "n \<le> maxRetries" "lr_requests (retry_loop f 0 None []) = Suc n"
    "lr_delays (retry_loop f 0 None []) = map backoff_delay [0..<n]"
    "\<forall>i<n. \<exists>r. f i = Response r \<and> status r = 429"
    "case f n of NetworkError m \<Rightarrow> lr_outcome (retry_loop f 0 None []) = Inl m
      | Response r \<Rightarrow> lr_outcome (retry_loop f 0 None []) = Inr (Some r) \<and> (status r \<noteq> 429 \<or> n = maxRetries)"
    using retry_loop_start [of f] by blast
  have "n = k"
  proof (rule ccontr)
    assume "n \<noteq> k"
    then consider "n < k" | "k < n" by linarith
    then show False
    proof cases
      case 1
      then obtain r where "f n = Response r" "status r = 429" using assms(2) by blast
      with n(5) 1 assms(1) show False by simp
    next
      case 2
      then obtain r where "f k = Response r" "status r = 429" using n(4) by blast
      with assms(3) 2 n(1) show False by simp
    qed
  qed
  with n show ?thesis by (cases "f k") simp_all
qed

subsection \<open>Properties of the edge function\<close>

text \<open>C1: The retry policy of the edge function, whatever the network answers: at most four
  requests; the delays slept are a prefix of 2 s, 4 s, 8 s, one per retry; every request but
  the last was answered with status 429; a final 429 happens only after four requests; and
  the \<open>response\<close> the loop leaves is never \<open>null\<close> (the assertion
  \<open>response!\<close> is safe).\<close>

theorem retry_policy:
  "lr_requests (retry_loop f 0 None []) \<le> 4
   \<and> lr_delays (retry_loop f 0 None []) = take (lr_requests (retry_loop f 0 None []) - 1) [2000, 4000, 8000]
   \<and> (\<forall>i. Suc i < lr_requests (retry_loop f 0 None []) \<longrightarrow> (\<exists>r. f i = Response r \<and> status r = 429))
   \<and> (\<forall>r. lr_outcome (retry_loop f 0 None []) = Inr (Some r) \<longrightarrow> status r = 429
          \<longrightarrow> lr_requests (retry_loop f 0 None []) = 4)
   \<and> lr_outcome (retry_loop f 0 None []) \<noteq> Inr None"
proof -
  obtain n where n: "n \<le> maxRetries" "lr_requests (retry_loop f 0 None []) = Suc n"
    "lr_delays (retry_loop f 0 None []) = map backoff_delay [0..<n]"
    "\<forall>i<n. \<exists>r. f i = Response r \<and> status r = 429"
    "case f n of NetworkError m \<Rightarrow> lr_outcome (retry_loop f 0 None []) = Inl m
      | Response r \<Rightarrow> lr_outcome (retry_loop f 0 None []) = Inr (Some r) \<and> (status r \<noteq> 429 \<or> n = maxRetries)"
    using retry_loop_start [of f] by blast
  have n3: "n \<le> 3" using n(1) by (simp add: maxRetries_def)
  show ?thesis
  proof (cases "f n")
    case (Response r)
    then show ?thesis using n n3 map_backoff_take [OF n3] by (auto simp: maxRetries_def)
  next
    case (NetworkError m)
    then show ?thesis using n n3 map_backoff_take [OF n3] by auto
  qed
qed

theorem retry_policy_witness:
  "lr_requests (retry_loop (three_429_then_image (gemini_request_for example_request (''image/png'', ''QUJD''))) 0 None []) = 4
   \<and> lr_delays (retry_loop (three_429_then_image (gemini_request_for example_request (''image/png'', ''QUJD''))) 0 None [])
       = take 3 [2000, 4000, 8000]
   \<and> lr_outcome (retry_loop (three_429_then_image (gemini_request_for example_request (''image/png'', ''QUJD''))) 0 None [])
       \<noteq> Inr None"
  using retry_policy [of "three_429_then_image (gemini_request_for example_request (''image/png'', ''QUJD''))"]
  by (simp add: retry_loop.simps maxRetries_def three_429_then_image_def rate_limited_response_def
      image_response_def backoff_delay_def)

text \<open>C2: A valid request whose every attempt is rate-limited makes four requests, sleeps
  2 s, 4 s and 8 s, and is answered with status 429, the rate-limit message and
  \<open>retryAfterSeconds = 30\<close>.\<close>

theorem rate_limited_after_retries:
  assumes "method \<noteq> ''OPTIONS''" and "request_valid req apiKey"
    and "match_data_url (the (userImage req)) = Some mb"
    and "\<forall>i. \<exists>r. fetch (gemini_request_for req mb) i = Response r \<and> status r = 429"
  shows "virtual_try_on method (Inr req) apiKey fetch =
    \<lparr>run_reply = \<lparr>reply_status = 429,
       reply_body = ErrorBody ''Rate limited after retries. Please try again shortly.'' (Some 30)\<rparr>,
     run_requests = 4, run_delays = [2000, 4000, 8000]\<rparr>"
  using assms by (rule all_rate_limited_reply)

theorem rate_limited_after_retries_witness:
  "''POST'' \<noteq> ''OPTIONS'' \<and> request_valid example_request (Some ''key'')
   \<and> match_data_url (the (userImage example_request)) = Some (''image/png'', ''QUJD'')
   \<and> run_requests (virtual_try_on ''POST'' (Inr example_request) (Some ''key'') (\<lambda>g i. Response rate_limited_response)) = 4"
  using rate_limited_after_retries [of "''POST''" example_request "Some ''key''" "(''image/png'', ''QUJD'')"
      "\<lambda>g i. Response rate_limited_response"]
  by (simp add: example_request_def request_valid_def js_truthy_def match_data_url_def
      is_word_char_def is_line_terminator_def rate_limited_response_def)

text \<open>C3: The spec's retry example: three 429 answers and then an image make the handler
  answer 200 with that image, after four requests and 2 + 4 + 8 = 14 s of back-off.\<close>

theorem spec_retry_then_success:
  assumes "method \<noteq> ''OPTIONS''" and "request_valid req apiKey"
    and "match_data_url (the (userImage req)) = Some mb"
    and "\<forall>i<3. \<exists>r. fetch (gemini_request_for req mb) i = Response r \<and> status r = 429"
    and "fetch (gemini_request_for req mb) 3 = Response r3" and "response_ok r3"
    and "body_json r3 = Inr reply" and "extract_image reply = Inr img"
  shows "virtual_try_on method (Inr req) apiKey fetch =
    \<lparr>run_reply = \<lparr>reply_status = 200, reply_body = SuccessBody img\<rparr>,
     run_requests = 4, run_delays = [2000, 4000, 8000]\<rparr>
   \<and> sum_list (run_delays (virtual_try_on method (Inr req) apiKey fetch)) = 14000"
proof -
  let ?f = "fetch (gemini_request_for req mb)"
  have lr: "lr_requests (retry_loop ?f 0 None []) = 4 \<and> lr_delays (retry_loop ?f 0 None []) = [2000, 4000, 8000]
     \<and> lr_outcome (retry_loop ?f 0 None []) = Inr (Some r3)"
    using retry_loop_stops_at [of 3 ?f] assms(4,5) by (simp add: maxRetries_def map_backoff_3)
  then have "finish (retry_loop ?f 0 None []) = \<lparr>reply_status = 200, reply_body = SuccessBody img\<rparr>"
    using assms(6-8) by (simp add: finish_def handle_response_def)
  then show ?thesis using virtual_try_on_valid [OF assms(1-3)] lr by simp
qed

theorem spec_retry_then_success_witness:
  "''POST'' \<noteq> ''OPTIONS'' \<and> request_valid example_request (Some ''key'')
   \<and> match_data_url (the (userImage example_request)) = Some (''image/png'', ''QUJD'')
   \<and> response_ok image_response \<and> extract_image image_reply = Inr ''data:image/png;base64,R0lG''
   \<and> sum_list (run_delays (virtual_try_on ''POST'' (Inr example_request) (Some ''key'') three_429_then_image)) = 14000"
  using spec_retry_then_success [of "''POST''" example_request "Some ''key''" "(''image/png'', ''QUJD'')"
      three_429_then_image image_response image_reply "''data:image/png;base64,R0lG''"]
  by (simp add: example_request_def request_valid_def js_truthy_def match_data_url_def
      is_word_char_def is_line_terminator_def three_429_then_image_def rate_limited_response_def
      image_response_def image_reply_def response_ok_def extract_image_def)

text \<open>C9: No retry on anything but a rate limit: when the first attempt is a network
  rejection or a response other than 429, the handler sends exactly one request, sleeps
  never, and its reply is the classification of that one outcome.\<close>

theorem no_retry_without_rate_limit:
  assumes "method \<noteq> ''OPTIONS''" and "request_valid req apiKey"
    and "match_data_url (the (userImage req)) = Some mb"
    and "\<forall>r. fetch (gemini_request_for req mb) 0 = Response r \<longrightarrow> status r \<noteq> 429"
  shows "run_requests (virtual_try_on method (Inr req) apiKey fetch) = 1
       \<and> run_delays (virtual_try_on method (Inr req) apiKey fetch) = []
       \<and> run_reply (virtual_try_on method (Inr req) apiKey fetch) =
           (case fetch (gemini_request_for req mb) 0 of
              NetworkError m \<Rightarrow> caught_reply m
            | Response r \<Rightarrow> handle_response r)"
proof -
  let ?f = "fetch (gemini_request_for req mb)"
  have lr: "lr_requests (retry_loop ?f 0 None []) = 1 \<and> lr_delays (retry_loop ?f 0 None []) = []
     \<and> lr_outcome (retry_loop ?f 0 None []) = (case ?f 0 of NetworkError m \<Rightarrow> Inl m | Response r \<Rightarrow> Inr (Some r))"
    using retry_loop_stops_at [of 0 ?f] assms(4) by (simp add: maxRetries_def)
  show ?thesis using virtual_try_on_valid [OF assms(1-3)] lr
    by (cases "?f 0") (simp_all add: finish_def)
qed

theorem no_retry_without_rate_limit_witness:
  "''POST'' \<noteq> ''OPTIONS'' \<and> request_valid example_request (Some ''key'')
   \<and> match_data_url (the (userImage example_request)) = Some (''image/png'', ''QUJD'')
   \<and> run_requests (virtual_try_on ''POST'' (Inr example_request) (Some ''key'') (\<lambda>g i. Response image_response)) = 1"
  using no_retry_without_rate_limit [of "''POST''" example_request "Some ''key''" "(''image/png'', ''QUJD'')"
      "\<lambda>g i. Response image_response"]
  by (simp add: example_request_def request_valid_def js_truthy_def match_data_url_def
      is_word_char_def is_line_terminator_def image_response_def)

text \<open>C10: The handler touches the network exactly when the request passes every check: it is
  not a preflight, its JSON body parsed, \<open>userImage\<close> and \<open>productId\<close> are
  present, the API key is configured and the image is a base64 image data URL. Invalid input
  is rejected before any network call.\<close>

theorem no_network_iff_rejected:
  "run_requests (virtual_try_on method body apiKey fetch) = 0
   \<longleftrightarrow> method = ''OPTIONS'' \<or> (case body of Inl _ \<Rightarrow> True | Inr req \<Rightarrow> \<not> request_valid req apiKey)"
proof (cases "method = ''OPTIONS''")
  case True then show ?thesis by (simp add: virtual_try_on_def no_network_def)
next
  case m: False
  show ?thesis
  proof (cases body)
    case (Inl msg) then show ?thesis using m by (simp add: virtual_try_on_def no_network_def)
  next
    case (Inr req)
    show ?thesis
    proof (cases "request_valid req apiKey")
      case True
      then obtain mb where mb: "match_data_url (the (userImage req)) = Some mb"
        by (auto simp: request_valid_def)
      obtain n where "lr_requests (retry_loop (fetch (gemini_request_for req mb)) 0 None []) = Suc n"
        using retry_loop_start by blast
      then show ?thesis using virtual_try_on_valid [OF m True mb] Inr m True by simp
    next
      case False
      then show ?thesis using Inr m
        by (auto simp: virtual_try_on_def request_valid_def no_network_def split: option.splits)
    qed
  qed
qed

theorem no_network_iff_rejected_witness:
  "run_requests (virtual_try_on ''POST'' (Inr (example_request\<lparr>userImage := Some ''data:text/plain;base64,QUJD''\<rparr>))
      (Some ''key'') (\<lambda>g i. Response image_response)) = 0"
  using no_network_iff_rejected [of "''POST''" "Inr (example_request\<lparr>userImage := Some ''data:text/plain;base64,QUJD''\<rparr>)"
      "Some ''key''" "\<lambda>g i. Response image_response"]
  by (simp add: example_request_def request_valid_def js_truthy_def match_data_url_def)

text \<open>C30: The data-URL pattern accepts exactly the strings \<open>data:image/W;base64,D\<close>
  with \<open>W\<close> a non-empty run of word characters and \<open>D\<close> non-empty without line
  terminators, and returns \<open>(image/W, D)\<close>: parsing and printing are inverse.\<close>

theorem data_url_roundtrip:
  "match_data_url s = Some (m, d) \<longleftrightarrow>
   (\<exists>w. w \<noteq> [] \<and> list_all is_word_char w \<and> d \<noteq> [] \<and> \<not> list_ex is_line_terminator d
        \<and> m = ''image/'' @ w \<and> s = ''data:'' @ m @ '';base64,'' @ d)"
proof
  assume h: "match_data_url s = Some (m, d)"
  then obtain rest where rest: "chop_prefix ''data:image/'' s = Some rest"
    by (auto simp: match_data_url_def split: option.splits)
  let ?w = "takeWhile is_word_char rest" and ?after = "dropWhile is_word_char rest"
  obtain b64 where b64: "chop_prefix '';base64,'' ?after = Some b64"
    using h rest by (auto simp: match_data_url_def Let_def split: option.splits)
  have c: "?w \<noteq> [] \<and> b64 \<noteq> [] \<and> \<not> list_ex is_line_terminator b64 \<and> m = ''image/'' @ ?w \<and> d = b64"
    using h rest b64 by (simp add: match_data_url_def Let_def split: if_splits)
  have s: "s = ''data:image/'' @ rest" and a: "?after = '';base64,'' @ b64"
    using rest b64 by (simp_all only: chop_prefix_Some)
  have "rest = ?w @ ?after" by simp
  then have "s = ''data:'' @ m @ '';base64,'' @ d" using s a c by simp
  moreover have "list_all is_word_char ?w" by (auto simp: list_all_iff dest: set_takeWhileD)
  ultimately show "\<exists>w. w \<noteq> [] \<and> list_all is_word_char w \<and> d \<noteq> [] \<and> \<not> list_ex is_line_terminator d
        \<and> m = ''image/'' @ w \<and> s = ''data:'' @ m @ '';base64,'' @ d" using c by blast
next
  assume "\<exists>w. w \<noteq> [] \<and> list_all is_word_char w \<and> d \<noteq> [] \<and> \<not> list_ex is_line_terminator d
        \<and> m = ''image/'' @ w \<and> s = ''data:'' @ m @ '';base64,'' @ d"
  then obtain w where w: "w \<noteq> []" "list_all is_word_char w" "d \<noteq> []" "\<not> list_ex is_line_terminator d"
    "m = ''image/'' @ w" "s = ''data:'' @ m @ '';base64,'' @ d" by blast
  have s: "s = ''data:image/'' @ (w @ CHR '';'' # ''base64,'' @ d)" using w(5,6) by simp
  show "match_data_url s = Some (m, d)"
    unfolding match_data_url_def s chop_prefix_append Let_def using w(1,3,4,5)
    by (simp add: takeWhile_word_run [OF w(2)] dropWhile_word_run [OF w(2)] semicolon_not_word)
qed

theorem data_url_roundtrip_witness:
  "match_data_url ''data:image/jpeg;base64,/9j/4AAQ'' = Some (''image/jpeg'', ''/9j/4AAQ'')"
  using data_url_roundtrip [of "''data:image/jpeg;base64,/9j/4AAQ''" "''image/jpeg''" "''/9j/4AAQ''"]
  by (simp add: is_word_char_def is_line_terminator_def exI [of _ "''jpeg''"])

text \<open>A successful reply carries the first part with inline data of the first candidate,
  printed as the data URL \<open>data:MIME;base64,DATA\<close>.\<close>

theorem extract_image_first_inline_part:
  assumes "extract_image reply = Inr img"
  shows "\<exists>c cs parts p d. candidates reply = Some (c # cs) \<and> content_parts c = Some (Some parts)
     \<and> find (\<lambda>p. inlineData p \<noteq> None) parts = Some p \<and> inlineData p = Some d
     \<and> img = ''data:'' @ mimeType d @ '';base64,'' @ data d"
  using assms
  by (auto simp: extract_image_def split: option.splits list.splits)

theorem extract_image_first_inline_part_witness:
  "extract_image image_reply = Inr ''data:image/png;base64,R0lG''
   \<and> (\<exists>c cs parts p d. candidates image_reply = Some (c # cs) \<and> content_parts c = Some (Some parts)
        \<and> find (\<lambda>p. inlineData p \<noteq> None) parts = Some p \<and> inlineData p = Some d
        \<and> ''data:image/png;base64,R0lG'' = ''data:'' @ mimeType d @ '';base64,'' @ data d)"
  using extract_image_first_inline_part [of image_reply "''data:image/png;base64,R0lG''"]
  by (simp add: image_reply_def extract_image_def)

text \<open>C31: A non-rate-limit upstream error whose text mentions a quota is reported with status
  429 and no \<open>retryAfterSeconds\<close>, where the spec classifies it as a service error.\<close>

theorem quota_error_reported_as_rate_limit:
  assumes "\<not> response_ok r" and "status r \<noteq> 429" and "status r \<noteq> 402" and "status r \<noteq> 403"
    and "str_includes (body_text r) ''quota''"
  shows "handle_response r =
    \<lparr>reply_status = 429,
     reply_body = ErrorBody (''Gemini API error ('' @ string_of_nat (status r) @ ''): '' @ body_text r) None\<rparr>"
proof -
  have eq: "handle_response r = caught_reply (''Gemini API error ('' @ string_of_nat (status r) @ ''): '' @ body_text r)"
    using assms(1-4) by (simp add: handle_response_def)
  have "str_includes (''Gemini API error ('' @ string_of_nat (status r) @ ''): '' @ body_text r) ''quota''"
    by (intro str_includes_append_left) (rule assms(5))
  then show ?thesis unfolding eq by (rule caught_reply_quota)
qed

theorem quota_error_reported_as_rate_limit_witness:
  "reply_status (handle_response \<lparr>status = 500, body_text = ''quota exceeded'', body_json = Inl ''x''\<rparr>) = 429"
  using quota_error_reported_as_rate_limit [of "\<lparr>status = 500, body_text = ''quota exceeded'', body_json = Inl ''x''\<rparr>"]
  by (simp add: response_ok_def)

text \<open>The instruction sent to the model is a string naming the product for every category
  except the names of \<open>Object.prototype\<close> members.\<close>

theorem prompt_names_product:
  "(\<exists>t. buildTryOnPrompt n c = PromptText t \<and> str_includes t n) \<longleftrightarrow> c \<notin> set object_prototype_keys"
proof
  assume "\<exists>t. buildTryOnPrompt n c = PromptText t \<and> str_includes t n"
  then show "c \<notin> set object_prototype_keys"
    by (auto simp: buildTryOnPrompt_def prototype_keys_not_categories)
next
  assume c: "c \<notin> set object_prototype_keys"
  show "\<exists>t. buildTryOnPrompt n c = PromptText t \<and> str_includes t n"
  proof (cases "categoryPrompts n c")
    case None
    then show ?thesis using c fallback_prompt_names_product by (simp add: buildTryOnPrompt_def)
  next
    case (Some t)
    then show ?thesis using category_prompt_names_product by (simp add: buildTryOnPrompt_def)
  qed
qed

theorem prompt_names_product_witness:
  "(\<exists>t. buildTryOnPrompt ''Classic Aviator'' ''eyewear'' = PromptText t \<and> str_includes t ''Classic Aviator'')
   \<and> \<not> (\<exists>t. buildTryOnPrompt ''Classic Aviator'' ''toString'' = PromptText t
          \<and> str_includes t ''Classic Aviator'')"
  using prompt_names_product [of "''Classic Aviator''" "''eyewear''"]
    prompt_names_product [of "''Classic Aviator''" "''toString''"]
  by (simp add: object_prototype_keys_def)

text \<open>For a product category that names an \<open>Object.prototype\<close> member (such as
  \<open>constructor\<close>), the lookup \<open>categoryPrompts[productCategory]\<close> yields an inherited
  function, and the request sent to Gemini carries no instruction text.\<close>

theorem inherited_category_sends_no_instruction:
  "productCategory req = Some c \<Longrightarrow> c \<in> set object_prototype_keys
   \<Longrightarrow> gr_text (gemini_request_for req mb) = None"
  by (simp add: gemini_request_for_def buildTryOnPrompt_def prototype_keys_not_categories
      prompt_text_def js_template_def)

theorem inherited_category_sends_no_instruction_witness:
  "productCategory (example_request\<lparr>productCategory := Some ''constructor''\<rparr>) = Some ''constructor''
   \<and> ''constructor'' \<in> set object_prototype_keys
   \<and> gr_text (gemini_request_for (example_request\<lparr>productCategory := Some ''constructor''\<rparr>)
        (''image/png'', ''QUJD'')) = None"
  using inherited_category_sends_no_instruction [of "example_request\<lparr>productCategory := Some ''constructor''\<rparr>"
      "''constructor''" "(''image/png'', ''QUJD'')"]
  by (simp add: object_prototype_keys_def)

end
