(* ===== verification/Catalog.thy ===== *)
theory Catalog
  imports TryOn_Prelude "HOL-Library.Multiset"
begin

text \<open>
  The product catalogue, \<^verbatim>\<open>src/src/lib/products.ts\<close>: the \<open>Product\<close>
  interface as a record, the fourteen products of the \<open>products\<close> array (an imported image
  module is its import path), \<open>getProductById\<close> and \<open>getProductsByCategory\<close>; and
  the three other views of the array in the pages: the category filter of
  \<^verbatim>\<open>pages/Products.tsx\<close>, the related products of \<^verbatim>\<open>pages/ProductDetail.tsx\<close> and the
  featured products of \<^verbatim>\<open>components/sections/FeaturedProducts.tsx\<close>. Prices are whole
  numbers in the source and are modelled as \<open>nat\<close>.
\<close>

record product =
  prod_id :: string
  prod_name :: string
  prod_category :: category
  subcategory :: string
  price :: nat
  originalPrice :: "nat option"
  image :: string
  description :: string
  tryOnAvailable :: bool
  colors :: "string list option"
  sizes :: "string list option"
  features :: "string list option"

text \<open>The string a category has in the source.\<close>

definition category_name :: "category \<Rightarrow> string" where
  "category_name c = (case c of Eyewear \<Rightarrow> ''eyewear'' | Watch \<Rightarrow> ''watch'' | Clothing \<Rightarrow> ''clothing'')"

definition products :: "product list" where
  "products = [
    \<lparr>prod_id = ''classic-aviator'', prod_name = ''Classic Aviator'', prod_category = Eyewear, subcategory = ''Sunglasses'',
      price = 149, originalPrice = Some 199, image = ''@/assets/products/aviator-sunglasses.jpg'',
      description = ''Timeless aviator sunglasses with gradient lenses and a lightweight gold frame. Perfect for any occasion.'',
      tryOnAvailable = True, colors = Some [''Gold'', ''Silver'', ''Black''], sizes = None, features = Some [''UV400 Protection'', ''Polarized Lenses'', ''Lightweight Frame'']\<rparr>,
    \<lparr>prod_id = ''chronograph-elite'', prod_name = ''Chronograph Elite'', prod_category = Watch, subcategory = ''Luxury Watch'',
      price = 299, originalPrice = None, image = ''@/assets/products/chronograph-watch.jpg'',
      description = ''Elegant chronograph watch with a stunning blue dial and premium leather strap. Swiss-inspired precision.'',
      tryOnAvailable = True, colors = Some [''Blue/Silver'', ''Black/Gold'', ''White/Rose Gold''], sizes = None, features = Some [''Water Resistant'', ''Sapphire Crystal'', ''Chronograph Function'']\<rparr>,
    \<lparr>prod_id = ''urban-blazer'', prod_name = ''Urban Blazer'', prod_category = Clothing, subcategory = ''Blazer'',
      price = 189, originalPrice = None, image = ''@/assets/products/urban-blazer.jpg'',
      description = ''Modern slim-fit blazer in navy blue. Perfect for business meetings or evening events.'',
      tryOnAvailable = True, colors = Some [''Navy'', ''Charcoal'', ''Black''], sizes = Some [''S'', ''M'', ''L'', ''XL'', ''XXL''], features = Some [''Slim Fit'', ''Two-Button Closure'', ''Breathable Fabric'']\<rparr>,
    \<lparr>prod_id = ''round-vintage'', prod_name = ''Round Vintage'', prod_category = Eyewear, subcategory = ''Eyeglasses'',
      price = 129, originalPrice = None, image = ''@/assets/products/round-vintage.jpg'',
      description = ''Retro-inspired round frames with a classic tortoise shell pattern. Pairs perfectly with any style.'',
      tryOnAvailable = True, colors = Some [''Tortoise'', ''Black'', ''Crystal''], sizes = None, features = Some [''Blue Light Filter'', ''Spring Hinges'', ''Lightweight'']\<rparr>,
    \<lparr>prod_id = ''smart-watch-pro'', prod_name = ''Smart Watch Pro'', prod_category = Watch, subcategory = ''Smart Watch'',
      price = 449, originalPrice = Some 499, image = ''@/assets/products/smart-watch.jpg'',
      description = ''Advanced smart watch with health tracking, notifications, and a sleek minimalist design.'',
      tryOnAvailable = True, colors = Some [''Black'', ''White'', ''Rose Gold''], sizes = None, features = Some [''Heart Rate Monitor'', ''GPS'', ''5-Day Battery Life'']\<rparr>,
    \<lparr>prod_id = ''casual-denim-jacket'', prod_name = ''Casual Denim Jacket'', prod_category = Clothing, subcategory = ''Jacket'',
      price = 159, originalPrice = None, image = ''@/assets/products/denim-jacket.jpg'',
      description = ''Classic blue denim jacket with a relaxed fit. A wardrobe essential for layering.'',
      tryOnAvailable = True, colors = Some [''Light Blue'', ''Dark Blue'', ''Black''], sizes = Some [''XS'', ''S'', ''M'', ''L'', ''XL''], features = Some [''100% Cotton'', ''Button Front'', ''Chest Pockets'']\<rparr>,
    \<lparr>prod_id = ''cat-eye-classic'', prod_name = ''Cat Eye Classic'', prod_category = Eyewear, subcategory = ''Eyeglasses'',
      price = 139, originalPrice = None, image = ''@/assets/products/cat-eye-glasses.jpg'',
      description = ''Elegant cat eye frames in tortoise shell. A bold, feminine silhouette that commands attention.'',
      tryOnAvailable = True, colors = Some [''Tortoise'', ''Black'', ''Burgundy''], sizes = None, features = Some [''Blue Light Filter'', ''Acetate Frame'', ''Adjustable Nose Pads'']\<rparr>,
    \<lparr>prod_id = ''wayfarer-modern'', prod_name = ''Wayfarer Modern'', prod_category = Eyewear, subcategory = ''Eyeglasses'',
      price = 119, originalPrice = None, image = ''@/assets/products/wayfarer-glasses.jpg'',
      description = ''Iconic wayfarer-style frames in matte black. A timeless design that suits every face shape.'',
      tryOnAvailable = True, colors = Some [''Matte Black'', ''Havana'', ''Crystal Clear''], sizes = None, features = Some [''Scratch Resistant'', ''Flexible Hinges'', ''Lightweight'']\<rparr>,
    \<lparr>prod_id = ''classic-dress-watch'', prod_name = ''Classic Dress Watch'', prod_category = Watch, subcategory = ''Dress Watch'',
      price = 259, originalPrice = None, image = ''@/assets/products/classic-dress-watch.jpg'',
      description = ''Refined dress watch with Roman numeral dial and premium leather strap. Understated elegance.'',
      tryOnAvailable = True, colors = Some [''Brown/Silver'', ''Black/Gold'', ''Tan/Rose Gold''], sizes = None, features = Some [''Genuine Leather'', ''Mineral Crystal'', ''Japanese Movement'']\<rparr>,
    \<lparr>prod_id = ''sports-watch-x'', prod_name = ''Sports Watch X'', prod_category = Watch, subcategory = ''Sports Watch'',
      price = 349, originalPrice = Some 399, image = ''@/assets/products/sports-watch.jpg'',
      description = ''Rugged sports watch with digital display and shock-resistant design. Built for adventure.'',
      tryOnAvailable = True, colors = Some [''Black/Orange'', ''Black/Green'', ''All Black''], sizes = None, features = Some [''Shock Resistant'', ''100m Water Resistant'', ''Stopwatch'']\<rparr>,
    \<lparr>prod_id = ''mesh-minimalist'', prod_name = ''Mesh Minimalist'', prod_category = Watch, subcategory = ''Minimalist Watch'',
      price = 199, originalPrice = None, image = ''@/assets/products/mesh-watch.jpg'',
      description = ''Ultra-slim minimalist watch with silver mesh strap. Clean lines for the modern professional.'',
      tryOnAvailable = True, colors = Some [''Silver'', ''Gold'', ''Rose Gold''], sizes = None, features = Some [''Ultra Slim 6mm'', ''Mesh Strap'', ''Hardened Glass'']\<rparr>,
    \<lparr>prod_id = ''polo-classic'', prod_name = ''Classic Polo'', prod_category = Clothing, subcategory = ''Polo Shirt'',
      price = 79, originalPrice = None, image = ''@/assets/products/polo-shirt.jpg'',
      description = ''Premium cotton polo shirt in rich burgundy. Smart-casual style for everyday versatility.'',
      tryOnAvailable = True, colors = Some [''Burgundy'', ''Navy'', ''White'', ''Forest Green''], sizes = Some [''XS'', ''S'', ''M'', ''L'', ''XL'', ''XXL''], features = Some [''100% Pima Cotton'', ''Ribbed Collar'', ''Regular Fit'']\<rparr>,
    \<lparr>prod_id = ''wool-overcoat'', prod_name = ''Wool Overcoat'', prod_category = Clothing, subcategory = ''Coat'',
      price = 349, originalPrice = Some 429, image = ''@/assets/products/wool-overcoat.jpg'',
      description = ''Luxurious double-breasted overcoat in camel. Premium wool blend for warmth and sophistication.'',
      tryOnAvailable = True, colors = Some [''Camel'', ''Charcoal'', ''Navy''], sizes = Some [''S'', ''M'', ''L'', ''XL''], features = Some [''Wool Blend'', ''Double-Breasted'', ''Notch Lapel'']\<rparr>,
    \<lparr>prod_id = ''leather-bomber'', prod_name = ''Leather Bomber'', prod_category = Clothing, subcategory = ''Jacket'',
      price = 279, originalPrice = None, image = ''@/assets/products/bomber-jacket.jpg'',
      description = ''Classic leather bomber jacket in jet black. Timeless style meets rugged durability.'',
      tryOnAvailable = True, colors = Some [''Black'', ''Brown'', ''Dark Green''], sizes = Some [''S'', ''M'', ''L'', ''XL'', ''XXL''], features = Some [''Genuine Leather'', ''Zip Front'', ''Ribbed Cuffs'']\<rparr>]"

definition getProductById :: "string \<Rightarrow> product option" where
  "getProductById i = find (\<lambda>p. prod_id p = i) products"

definition getProductsByCategory :: "string \<Rightarrow> product list" where
  "getProductsByCategory c =
     (if c = ''all'' then products else filter (\<lambda>p. category_name (prod_category p) = c) products)"

text \<open>\<open>filteredProducts\<close> of the products page, for its \<open>activeCategory\<close>.\<close>

definition filteredProducts :: "string \<Rightarrow> product list" where
  "filteredProducts activeCategory =
     (if activeCategory = ''all'' then products
      else filter (\<lambda>p. category_name (prod_category p) = activeCategory) products)"

text \<open>\<open>relatedProducts\<close> of the product detail page.\<close>

definition relatedProducts :: "product \<Rightarrow> product list" where
  "relatedProducts product =
     take 3 (filter (\<lambda>p. prod_category p = prod_category product \<and> prod_id p \<noteq> prod_id product) products)"

definition featuredIds :: "string list" where
  "featuredIds = [''classic-aviator'', ''chronograph-elite'', ''urban-blazer'', ''round-vintage'',
                  ''smart-watch-pro'', ''casual-denim-jacket'']"

definition featuredProducts :: "product list" where
  "featuredProducts = filter (\<lambda>p. prod_id p \<in> set featuredIds) products"

subsection \<open>Lemmas\<close>

lemma products_ids_distinct: "distinct (map prod_id products)"
  by (simp add: products_def)

lemma mset_filter_category:
  "mset xs = mset (filter (\<lambda>p. category_name (prod_category p) = ''eyewear'') xs)
           + mset (filter (\<lambda>p. category_name (prod_category p) = ''watch'') xs)
           + mset (filter (\<lambda>p. category_name (prod_category p) = ''clothing'') xs)"
proof (induction xs)
  case Nil then show ?case by simp
next
  case (Cons x xs)
  then show ?case by (cases "prod_category x") (simp_all add: category_name_def)
qed

subsection \<open>Properties of the catalogue\<close>

text \<open>\<open>getProductById\<close> finds a product exactly when it is in the catalogue with that id:
  the ids of the catalogue are distinct, so lookup by id and the id of a product are inverse.\<close>

theorem getProductById_roundtrip:
  "getProductById i = Some p \<longleftrightarrow> p \<in> set products \<and> prod_id p = i"
  unfolding getProductById_def by (rule find_distinct_key [OF products_ids_distinct])

theorem getProductById_roundtrip_witness:
  "getProductById ''urban-blazer'' = Some (products ! 2) \<and> products ! 2 \<in> set products"
  using getProductById_roundtrip [of "''urban-blazer''" "products ! 2"]
  by (simp add: products_def)

text \<open>The three category views of the catalogue partition it: every product is in exactly
  one of \<open>getProductsByCategory "eyewear"\<close>, \<open>"watch"\<close> and \<open>"clothing"\<close>.\<close>

theorem categories_partition:
  "mset products = mset (getProductsByCategory ''eyewear'') + mset (getProductsByCategory ''watch'')
                 + mset (getProductsByCategory ''clothing'')"
  using mset_filter_category [of products] by (simp add: getProductsByCategory_def)

text \<open>The related products of a product page are at most three catalogue products of the
  same category, never the product itself.\<close>

theorem related_products_bounds:
  "length (relatedProducts p) \<le> 3
   \<and> (\<forall>q \<in> set (relatedProducts p). q \<in> set products \<and> prod_category q = prod_category p \<and> prod_id q \<noteq> prod_id p)"
  by (auto simp: relatedProducts_def dest: in_set_takeD)

theorem related_products_bounds_witness:
  "map prod_id (relatedProducts (products ! 0)) = [''round-vintage'', ''cat-eye-classic'', ''wayfarer-modern'']
   \<and> length (relatedProducts (products ! 0)) \<le> 3"
  using related_products_bounds [of "products ! 0"]
  by (simp add: relatedProducts_def products_def)

text \<open>Every id of \<open>featuredIds\<close> names a catalogue product, so the featured section shows
  the six products listed, in the catalogue's order.\<close>

theorem featured_products_found:
  "map prod_id featuredProducts = featuredIds"
  by (simp add: featuredProducts_def featuredIds_def products_def)

end
