(* ===== verification/TryOnSession.thy ===== *)
theory TryOnSession
  imports Catalog RemoteClient
begin

text \<open>
  The try-on session in the browser: the page \<^verbatim>\<open>src/src/pages/TryOn.tsx\<close> and the
  component \<^verbatim>\<open>src/src/components/TryOnCanvas.tsx\<close> it mounts. The page's React state is a
  record; the mounted \<open>TryOnCanvas\<close> instance (its props and its own state) is a field of
  it; every started run of the effect's \<open>processTryOn\<close> is an in-flight record with its
  own \<open>cancelled\<close> flag, the variable its cleanup closure sets. A user action or the
  resolution of an asynchronous call is an event; after each event the page re-renders,
  which \<open>reconcile\<close> models: it unmounts, mounts or re-runs the effect of the canvas as
  React does for the render branch and the effect dependencies \<open>[userImage, product,
  onResult]\<close> (\<open>onResult\<close> is a stable \<open>useCallback\<close>). The call
  \<open>supabase.functions.invoke\<close> is modelled by its documented contract: a 2xx reply gives
  its JSON body as \<open>data\<close>, any other status gives an error with the message
  \<open>"Edge Function returned a non-2xx status code"\<close>. The field \<open>result_source\<close> is
  ghost state: the inputs of the run that last called \<open>onResult\<close>.
\<close>

subsection \<open>The invoke contract and the settling of a run\<close>

datatype invoke_outcome = InvokeFailed string | InvokeData reply_body

definition supabase_invoke :: "http_reply \<Rightarrow> invoke_outcome" where
  "supabase_invoke rep =
     (if 200 \<le> reply_status rep \<and> reply_status rep \<le> 299 then InvokeData (reply_body rep)
      else InvokeFailed ''Edge Function returned a non-2xx status code'')"

text \<open>The body \<open>processTryOn\<close> sends (lines 26-33).\<close>

definition invoke_body :: "string \<Rightarrow> product \<Rightarrow> try_on_request" where
  "invoke_body img p =
     \<lparr>userImage = Some img, productId = Some (prod_id p), productName = Some (prod_name p),
      productCategory = Some (category_name (prod_category p))\<rparr>"

text \<open>
  What an uncancelled run does with the outcome (lines 37-53): \<open>Inr\<close> the image it
  commits, \<open>Inl\<close> the message of the error it throws; and the rate-limit toast raised
  before throwing, if any.
\<close>

definition settle :: "invoke_outcome \<Rightarrow> (string + string) \<times> string option" where
  "settle out =
     (case out of
        InvokeFailed m \<Rightarrow> (Inl (if m = [] then ''Failed to process try-on'' else m), None)
      | InvokeData (ErrorBody e retry) \<Rightarrow>
          (if e \<noteq> [] then
             (Inl e, (case retry of
                        Some n \<Rightarrow> (if n \<noteq> 0
                                   then Some (''Rate limited. Please try again in '' @ string_of_nat n @ ''s'')
                                   else None)
                      | None \<Rightarrow> None))
           else (Inl ''No image was generated'', None))
      | InvokeData (SuccessBody img) \<Rightarrow>
          (if img \<noteq> [] then (Inr img, None) else (Inl ''No image was generated'', None))
      | InvokeData PreflightOk \<Rightarrow> (Inl ''No image was generated'', None))"

subsection \<open>State\<close>

datatype facing = FacingUser | FacingEnvironment

record canvas_state =
  loading :: bool
  canvas_error :: "string option"
  resultImage :: "string option"

text \<open>A mounted \<open>TryOnCanvas\<close>: its props, its state, the run its current effect started.\<close>

record mounted_canvas =
  props_image :: string
  props_product :: product
  cstate :: canvas_state
  current_run :: nat

record effect_run =
  run_id :: nat
  run_image :: string
  run_product :: product
  cancelled :: bool

record page_state =
  activeProduct :: product
  userImage_st :: "string option"
  tryOnResult :: "string option"
  showTryOn :: bool
  isCameraActive :: bool
  facingMode :: facing
  canvas :: "mounted_canvas option"
  runs :: "effect_run list"
  next_run :: nat
  pending_reads :: "string list"
  toasts :: "string list"
  result_source :: "(string \<times> product) option"

subsection \<open>Rendering: which canvas the page shows, and the effect lifecycle\<close>

text \<open>The render branch of lines 267-293: the canvas is shown with these props.\<close>

definition canvas_wanted :: "page_state \<Rightarrow> (string \<times> product) option" where
  "canvas_wanted s =
     (if isCameraActive s then None
      else if showTryOn s then (case userImage_st s of None \<Rightarrow> None | Some img \<Rightarrow> Some (img, activeProduct s))
      else None)"

text \<open>The cleanup closure \<open>() => { cancelled = true; }\<close> of one effect run.\<close>

definition cancel_run :: "nat \<Rightarrow> page_state \<Rightarrow> page_state" where
  "cancel_run i s = s\<lparr>runs := map (\<lambda>r. if run_id r = i then r\<lparr>cancelled := True\<rparr> else r) (runs s)\<rparr>"

text \<open>
  Running the effect: a fresh \<open>cancelled = false\<close>, the synchronous start of
  \<open>processTryOn\<close> (\<open>setLoading(true); setError(null)\<close>) and the invoke in flight.
\<close>

definition start_run :: "string \<Rightarrow> product \<Rightarrow> canvas_state \<Rightarrow> page_state \<Rightarrow> page_state" where
  "start_run img p cs s =
     s\<lparr>canvas := Some \<lparr>props_image = img, props_product = p,
                       cstate = cs\<lparr>loading := True, canvas_error := None\<rparr>, current_run = next_run s\<rparr>,
       runs := runs s @ [\<lparr>run_id = next_run s, run_image = img, run_product = p, cancelled = False\<rparr>],
       next_run := Suc (next_run s)\<rparr>"

definition initial_canvas_state :: canvas_state where
  "initial_canvas_state = \<lparr>loading = True, canvas_error = None, resultImage = None\<rparr>"

definition reconcile :: "page_state \<Rightarrow> page_state" where
  "reconcile s =
     (case (canvas s, canvas_wanted s) of
        (None, None) \<Rightarrow> s
      | (Some c, None) \<Rightarrow> (cancel_run (current_run c) s)\<lparr>canvas := None\<rparr>
      | (None, Some (img, p)) \<Rightarrow> start_run img p initial_canvas_state s
      | (Some c, Some (img, p)) \<Rightarrow>
          (if props_image c = img \<and> props_product c = p then s
           else start_run img p (cstate c) (cancel_run (current_run c) s)))"

subsection \<open>The resolution of a run\<close>

definition map_cstate :: "(canvas_state \<Rightarrow> canvas_state) \<Rightarrow> page_state \<Rightarrow> page_state" where
  "map_cstate f s = s\<lparr>canvas := map_option (\<lambda>c. c\<lparr>cstate := f (cstate c)\<rparr>) (canvas s)\<rparr>"

text \<open>
  The invoke of run \<open>i\<close> resolves: a cancelled run returns at once (its \<open>catch\<close> and
  \<open>finally\<close> do nothing either); an uncancelled one commits the image to its canvas and calls
  \<open>onResult\<close>, or shows and toasts the error; in both cases \<open>finally\<close> clears
  \<open>loading\<close>.
\<close>

definition resolve_run :: "nat \<Rightarrow> invoke_outcome \<Rightarrow> page_state \<Rightarrow> page_state" where
  "resolve_run i out s =
     (case find (\<lambda>r. run_id r = i) (runs s) of
        None \<Rightarrow> s
      | Some r \<Rightarrow>
          (let s' = s\<lparr>runs := filter (\<lambda>r. run_id r \<noteq> i) (runs s)\<rparr>
           in if cancelled r then s'
              else
                (case settle out of
                   (Inr img, _) \<Rightarrow>
                     map_cstate (\<lambda>cs. cs\<lparr>resultImage := Some img, loading := False\<rparr>)
                       (s'\<lparr>tryOnResult := Some img, result_source := Some (run_image r, run_product r)\<rparr>)
                 | (Inl m, toast) \<Rightarrow>
                     (let msg = (if m = [] then ''Failed to generate try-on image'' else m)
                      in map_cstate (\<lambda>cs. cs\<lparr>canvas_error := Some msg, loading := False\<rparr>)
                           (s'\<lparr>toasts := toasts s' @ (case toast of None \<Rightarrow> [] | Some t \<Rightarrow> [t]) @ [msg]\<rparr>)))))"

subsection \<open>Events\<close>

datatype page_event =
    SelectProduct product
  | FileSelected nat string
  | ReaderLoaded nat
  | CameraStarted facing
  | CameraFailed string
  | StopCamera
  | CapturePhoto string
  | TryOnClicked
  | ResetTryOn
  | Resolve nat invoke_outcome

text \<open>The handlers of the page (lines 40-135), before the re-render.\<close>

definition handle_event :: "page_state \<Rightarrow> page_event \<Rightarrow> page_state" where
  "handle_event s e =
     (case e of
        SelectProduct p \<Rightarrow>
          (if p \<in> set products \<and> prod_id p \<noteq> prod_id (activeProduct s)
           then s\<lparr>activeProduct := p, tryOnResult := None, showTryOn := False\<rparr> else s)
      | FileSelected fileSize dataUrl \<Rightarrow>
          (if 5 * 1024 * 1024 < fileSize then s\<lparr>toasts := toasts s @ [''Image size should be less than 5MB'']\<rparr>
           else s\<lparr>pending_reads := pending_reads s @ [dataUrl]\<rparr>)
      | ReaderLoaded i \<Rightarrow>
          (if i < length (pending_reads s)
           then s\<lparr>userImage_st := Some (pending_reads s ! i), tryOnResult := None, showTryOn := False,
                  pending_reads := take i (pending_reads s) @ drop (Suc i) (pending_reads s)\<rparr>
           else s)
      | CameraStarted mode \<Rightarrow>
          s\<lparr>isCameraActive := True, facingMode := mode, tryOnResult := None, showTryOn := False,
            toasts := toasts s @ [''Camera is live! Position yourself and capture when ready.'']\<rparr>
      | CameraFailed error_name \<Rightarrow>
          s\<lparr>toasts := toasts s @
               [if error_name = ''NotAllowedError'' then ''Camera access denied. Please allow camera permissions.''
                else if error_name = ''NotFoundError'' then ''No camera found.''
                else ''Could not access camera.'']\<rparr>
      | StopCamera \<Rightarrow> s\<lparr>isCameraActive := False\<rparr>
      | CapturePhoto frame \<Rightarrow>
          (if isCameraActive s
           then s\<lparr>userImage_st := Some frame, isCameraActive := False, tryOnResult := None,
                  showTryOn := False\<rparr>
           else s)
      | TryOnClicked \<Rightarrow>
          (case userImage_st s of
             None \<Rightarrow> s\<lparr>toasts := toasts s @ [''Please upload or capture a photo first'']\<rparr>
           | Some _ \<Rightarrow> s\<lparr>showTryOn := True\<rparr>)
      | ResetTryOn \<Rightarrow>
          s\<lparr>userImage_st := None, tryOnResult := None, showTryOn := False, isCameraActive := False\<rparr>
      | Resolve i out \<Rightarrow> resolve_run i out s)"

text \<open>One step of the session: the handler, then the re-render.\<close>

definition page_step :: "page_state \<Rightarrow> page_event \<Rightarrow> page_state" where
  "page_step s e = reconcile (handle_event s e)"

fun run_events :: "page_state \<Rightarrow> page_event list \<Rightarrow> page_state" where
  "run_events s [] = s"
| "run_events s (e # es) = run_events (page_step s e) es"

text \<open>
  The first render: \<open>activeProduct\<close> is the product of the \<open>?product=\<close> parameter
  when it names one, else the first product.
\<close>

definition initial_page :: "string option \<Rightarrow> page_state" where
  "initial_page param =
     \<lparr>activeProduct =
        (case param of
           None \<Rightarrow> hd products
         | Some pid \<Rightarrow> (if pid = [] then hd products
                        else (case getProductById pid of None \<Rightarrow> hd products | Some p \<Rightarrow> p))),
      userImage_st = None, tryOnResult = None, showTryOn = False, isCameraActive = False,
      facingMode = FacingUser, canvas = None, runs = [], next_run = 0, pending_reads = [],
      toasts = [], result_source = None\<rparr>"

text \<open>The sessions that can happen: any sequence of events from a first render.\<close>

inductive reachable :: "page_state \<Rightarrow> bool" where
  init: "reachable (initial_page param)"
| step: "reachable s \<Longrightarrow> reachable (page_step s e)"


subsection \<open>Invariants of the session\<close>

text \<open>
  The in-flight runs have distinct ids below the counter; with no canvas mounted every run is
  cancelled, and with one mounted every uncancelled run is the canvas's current run, for its
  props.
\<close>

definition runs_inv :: "page_state \<Rightarrow> bool" where
  "runs_inv s \<longleftrightarrow>
     (\<forall>i \<in> set (map run_id (runs s)). i < next_run s) \<and> distinct (map run_id (runs s))
     \<and> (case canvas s of
          None \<Rightarrow> (\<forall>r \<in> set (runs s). cancelled r)
        | Some c \<Rightarrow> current_run c < next_run s
            \<and> (\<forall>r \<in> set (runs s). \<not> cancelled r \<longrightarrow>
                  run_id r = current_run c \<and> run_image r = props_image c \<and> run_product r = props_product c))"

text \<open>After a render the mounted canvas is the one the render branch asks for.\<close>

definition render_inv :: "page_state \<Rightarrow> bool" where
  "render_inv s \<longleftrightarrow> map_option (\<lambda>c. (props_image c, props_product c)) (canvas s) = canvas_wanted s"

text \<open>A result on the page was computed from the photo and the product now selected.\<close>

definition provenance_inv :: "page_state \<Rightarrow> bool" where
  "provenance_inv s \<longleftrightarrow>
     (\<forall>img. tryOnResult s = Some img \<longrightarrow>
        (\<exists>u. userImage_st s = Some u \<and> result_source s = Some (u, activeProduct s)))"

definition session_inv :: "page_state \<Rightarrow> bool" where
  "session_inv s \<longleftrightarrow> runs_inv s \<and> render_inv s \<and> provenance_inv s"

subsection \<open>A concrete session\<close>

text \<open>
  A photo is chosen and read, Try On is clicked; then either the product is switched while the
  call is in flight, or the call returns an image.
\<close>

definition demo_photo :: string where "demo_photo = ''data:image/png;base64,QUJD''"

definition demo_result :: string where "demo_result = ''data:image/png;base64,R0lG''"

abbreviation demo_events :: "page_event list" where
  "demo_events \<equiv> [FileSelected 1000 demo_photo, ReaderLoaded 0, TryOnClicked]"

abbreviation demo_run :: "bool \<Rightarrow> effect_run" where
  "demo_run b \<equiv> \<lparr>run_id = 0, run_image = demo_photo, run_product = hd products, cancelled = b\<rparr>"

definition demo_running :: page_state where
  "demo_running = run_events (initial_page None) demo_events"

definition demo_switched :: page_state where
  "demo_switched = run_events (initial_page None) (demo_events @ [SelectProduct (products ! 1)])"

definition demo_committed :: page_state where
  "demo_committed =
     run_events (initial_page None) (demo_events @ [Resolve 0 (InvokeData (SuccessBody demo_result))])"

subsection \<open>Lemmas on the operations\<close>

lemma cancel_run_ids [simp]: "map run_id (runs (cancel_run i s)) = map run_id (runs s)"
  by (simp add: cancel_run_def)

lemma cancel_run_fields [simp]:
  "canvas_wanted (cancel_run i s) = canvas_wanted s"
  "canvas (cancel_run i s) = canvas s"
  "next_run (cancel_run i s) = next_run s"
  by (simp_all add: cancel_run_def canvas_wanted_def split: option.split)

lemma cancel_current_all:
  assumes "runs_inv s" and "canvas s = Some c"
  shows "\<forall>r \<in> set (runs (cancel_run (current_run c) s)). cancelled r"
  using assms by (auto simp: cancel_run_def runs_inv_def)

lemma start_run_runs_inv:
  assumes "\<forall>i \<in> set (map run_id (runs s)). i < next_run s" and "distinct (map run_id (runs s))"
    and "\<forall>r \<in> set (runs s). cancelled r"
  shows "runs_inv (start_run img p cs s)"
  using assms by (auto simp: start_run_def runs_inv_def)

lemma start_run_fields [simp]:
  "canvas_wanted (start_run img p cs s) = canvas_wanted s"
  "canvas (start_run img p cs s) = Some \<lparr>props_image = img, props_product = p,
      cstate = cs\<lparr>loading := True, canvas_error := None\<rparr>, current_run = next_run s\<rparr>"
  by (simp_all add: start_run_def canvas_wanted_def split: option.split)

lemma canvas_wanted_canvas_update [simp]:
  "canvas_wanted (s\<lparr>canvas := x\<rparr>) = canvas_wanted s"
  by (simp add: canvas_wanted_def split: option.split)

lemma reconcile_inv:
  assumes "runs_inv s"
  shows "runs_inv (reconcile s) \<and> render_inv (reconcile s)"
proof (cases "canvas s")
  case None
  show ?thesis
  proof (cases "canvas_wanted s")
    case None2: None
    then show ?thesis using assms None by (simp add: reconcile_def render_inv_def)
  next
    case (Some d)
    obtain img p where d: "d = (img, p)" by (cases d)
    have "runs_inv (start_run img p initial_canvas_state s)"
      using assms None by (intro start_run_runs_inv) (auto simp: runs_inv_def)
    then show ?thesis using None Some d by (simp add: reconcile_def render_inv_def)
  qed
next
  case (Some c)
  have ids: "\<forall>i \<in> set (map run_id (runs (cancel_run (current_run c) s))). i < next_run (cancel_run (current_run c) s)"
    "distinct (map run_id (runs (cancel_run (current_run c) s)))"
    using assms by (simp_all add: runs_inv_def)
  note all = cancel_current_all [OF assms Some]
  show ?thesis
  proof (cases "canvas_wanted s")
    case None
    have "runs_inv ((cancel_run (current_run c) s)\<lparr>canvas := None\<rparr>)"
      using ids all by (simp add: runs_inv_def)
    then show ?thesis using Some None by (simp add: reconcile_def render_inv_def)
  next
    case S2: (Some d)
    obtain img p where d: "d = (img, p)" by (cases d)
    show ?thesis
    proof (cases "props_image c = img \<and> props_product c = p")
      case True
      then show ?thesis using assms Some S2 d by (simp add: reconcile_def render_inv_def)
    next
      case False
      have "runs_inv (start_run img p (cstate c) (cancel_run (current_run c) s))"
        using ids all by (rule start_run_runs_inv)
      then show ?thesis using Some S2 d False by (auto simp: reconcile_def render_inv_def)
    qed
  qed
qed



lemma handle_event_frame:
  assumes "\<forall>i out. e \<noteq> Resolve i out"
  shows "runs (handle_event s e) = runs s \<and> canvas (handle_event s e) = canvas s
       \<and> next_run (handle_event s e) = next_run s"
  using assms by (cases e) (auto simp: handle_event_def split: option.split)

lemma handle_event_runs_inv:
  assumes "\<forall>i out. e \<noteq> Resolve i out" and "runs_inv s"
  shows "runs_inv (handle_event s e)"
proof -
  from handle_event_frame [OF assms(1)]
  have r: "runs (handle_event s e) = runs s" and c: "canvas (handle_event s e) = canvas s"
    and n: "next_run (handle_event s e) = next_run s" by simp_all
  show ?thesis using assms(2) unfolding runs_inv_def r c n .
qed

lemma handle_event_provenance:
  "\<forall>i out. e \<noteq> Resolve i out \<Longrightarrow> provenance_inv s \<Longrightarrow> provenance_inv (handle_event s e)"
  by (cases e) (auto simp: handle_event_def provenance_inv_def split: option.split)

lemma reconcile_keeps [simp]:
  "tryOnResult (reconcile s) = tryOnResult s"
  "userImage_st (reconcile s) = userImage_st s"
  "activeProduct (reconcile s) = activeProduct s"
  "result_source (reconcile s) = result_source s"
  "toasts (reconcile s) = toasts s"
  by (simp_all add: reconcile_def start_run_def cancel_run_def split: option.split prod.split)

lemma reconcile_provenance: "provenance_inv s \<Longrightarrow> provenance_inv (reconcile s)"
  by (simp add: provenance_inv_def)

lemma map_cstate_keeps [simp]:
  "runs (map_cstate f s) = runs s" "next_run (map_cstate f s) = next_run s"
  "canvas_wanted (map_cstate f s) = canvas_wanted s"
  "tryOnResult (map_cstate f s) = tryOnResult s" "result_source (map_cstate f s) = result_source s"
  "userImage_st (map_cstate f s) = userImage_st s" "activeProduct (map_cstate f s) = activeProduct s"
  "map_option (\<lambda>c. (props_image c, props_product c, current_run c)) (canvas (map_cstate f s))
     = map_option (\<lambda>c. (props_image c, props_product c, current_run c)) (canvas s)"
  by (simp_all add: map_cstate_def canvas_wanted_def option.map_comp o_def split: option.split)

lemma runs_inv_filter: "runs_inv s \<Longrightarrow> runs_inv (s\<lparr>runs := filter Q (runs s)\<rparr>)"
  by (auto simp: runs_inv_def distinct_map_filter split: option.splits)

lemma render_inv_runs_update [simp]: "render_inv (s\<lparr>runs := x\<rparr>) = render_inv s"
  by (simp add: render_inv_def canvas_wanted_def split: option.split)



lemma runs_inv_map_cstate [simp]: "runs_inv (map_cstate f s) = runs_inv s"
  by (cases "canvas s") (simp_all add: runs_inv_def map_cstate_def)

lemma render_inv_map_cstate [simp]: "render_inv (map_cstate f s) = render_inv s"
  by (cases "canvas s") (simp_all add: render_inv_def map_cstate_def canvas_wanted_def cong: option.case_cong)

lemma provenance_inv_map_cstate [simp]: "provenance_inv (map_cstate f s) = provenance_inv s"
  by (simp add: provenance_inv_def)

lemma invs_result_update [simp]:
  "runs_inv (s\<lparr>tryOnResult := a, result_source := b\<rparr>) = runs_inv s"
  "render_inv (s\<lparr>tryOnResult := a, result_source := b\<rparr>) = render_inv s"
  "runs_inv (s\<lparr>toasts := t\<rparr>) = runs_inv s" "render_inv (s\<lparr>toasts := t\<rparr>) = render_inv s"
  by (simp_all add: runs_inv_def render_inv_def canvas_wanted_def cong: option.case_cong)

lemma canvas_wanted_eq_Some:
  "canvas_wanted s = Some (u, p) \<longleftrightarrow>
     userImage_st s = Some u \<and> activeProduct s = p \<and> showTryOn s \<and> \<not> isCameraActive s"
  unfolding canvas_wanted_def by (cases "userImage_st s") auto



lemma live_run_wanted:
  assumes "runs_inv s" and "render_inv s" and "r \<in> set (runs s)" and "\<not> cancelled r"
  shows "\<exists>c. canvas s = Some c \<and> run_id r = current_run c \<and> canvas_wanted s = Some (run_image r, run_product r)"
proof (cases "canvas s")
  case None then show ?thesis using assms(1,3,4) by (simp add: runs_inv_def)
next
  case (Some c)
  then have "run_id r = current_run c \<and> run_image r = props_image c \<and> run_product r = props_product c"
    using assms(1,3,4) by (simp add: runs_inv_def)
  then show ?thesis using Some assms(2) by (simp add: render_inv_def)
qed

lemma resolve_run_inv:
  assumes "runs_inv s" and "render_inv s" and "provenance_inv s"
  shows "runs_inv (resolve_run i out s) \<and> render_inv (resolve_run i out s) \<and> provenance_inv (resolve_run i out s)"
proof (cases "find (\<lambda>r. run_id r = i) (runs s)")
  case None then show ?thesis using assms by (simp add: resolve_run_def)
next
  case (Some r)
  have r: "r \<in> set (runs s)" using find_Some_mem [OF Some] by simp
  let ?s' = "s\<lparr>runs := filter (\<lambda>r. run_id r \<noteq> i) (runs s)\<rparr>"
  have base: "runs_inv ?s'" "render_inv ?s'" using assms(1,2) runs_inv_filter by simp_all
  have prov': "provenance_inv ?s'" using assms(3) by (simp add: provenance_inv_def)
  show ?thesis
  proof (cases "cancelled r")
    case True then show ?thesis using Some base prov' by (simp add: resolve_run_def)
  next
    case False
    obtain c where c: "canvas s = Some c" "canvas_wanted s = Some (run_image r, run_product r)"
      using live_run_wanted [OF assms(1,2) r False] by blast
    have sel: "userImage_st s = Some (run_image r) \<and> activeProduct s = run_product r"
      using canvas_wanted_eq_Some [THEN iffD1, OF c(2)] by blast
    obtain v t where st: "settle out = (v, t)" by (cases "settle out")
    show ?thesis
    proof (cases v)
      case (Inr img)
      have "provenance_inv (map_cstate (\<lambda>cs. cs\<lparr>resultImage := Some img, loading := False\<rparr>)
              (?s'\<lparr>tryOnResult := Some img, result_source := Some (run_image r, run_product r)\<rparr>))"
        using sel by (simp add: provenance_inv_def map_cstate_def)
      then show ?thesis using Some False st Inr base by (simp add: resolve_run_def)
    next
      case (Inl m)
      have "provenance_inv (map_cstate g (?s'\<lparr>toasts := ts\<rparr>))" for g ts
        using prov' by (simp add: provenance_inv_def map_cstate_def)
      then show ?thesis using Some False st Inl base by (simp add: resolve_run_def Let_def)
    qed
  qed
qed


subsection \<open>The invariant of the reachable sessions\<close>

lemma reconcile_stable: "render_inv s \<Longrightarrow> reconcile s = s"
  by (cases "canvas s"; cases "canvas_wanted s") (auto simp: reconcile_def render_inv_def)

lemma initial_page_inv: "session_inv (initial_page param)"
  by (simp add: session_inv_def runs_inv_def render_inv_def provenance_inv_def canvas_wanted_def initial_page_def)

lemma page_step_inv:
  assumes "session_inv s" shows "session_inv (page_step s e)"
proof -
  have "runs_inv (handle_event s e) \<and> provenance_inv (handle_event s e)"
  proof (cases "\<exists>i out. e = Resolve i out")
    case True
    then obtain i out where "e = Resolve i out" by blast
    then show ?thesis using resolve_run_inv [of s i out] assms by (simp add: handle_event_def session_inv_def)
  next
    case False
    then show ?thesis using handle_event_runs_inv handle_event_provenance assms
      by (simp add: session_inv_def)
  qed
  then show ?thesis using reconcile_inv reconcile_provenance unfolding session_inv_def page_step_def by blast
qed

lemma reachable_inv: "reachable s \<Longrightarrow> session_inv s"
  by (induction rule: reachable.induct) (simp_all add: initial_page_inv page_step_inv)

lemma reachable_run_events: "reachable s \<Longrightarrow> reachable (run_events s es)"
  by (induction es arbitrary: s) (simp_all add: reachable.step)

lemma runs_invD:
  assumes "runs_inv s"
  shows "distinct (map run_id (runs s))"
    and "canvas s = None \<Longrightarrow> r \<in> set (runs s) \<Longrightarrow> cancelled r"
    and "canvas s = Some c \<Longrightarrow> r \<in> set (runs s) \<Longrightarrow> \<not> cancelled r \<Longrightarrow>
           run_id r = current_run c \<and> run_image r = props_image c \<and> run_product r = props_product c"
  using assms by (simp_all add: runs_inv_def)

lemma live_run_selection:
  assumes "session_inv s" and "r \<in> set (runs s)" and "\<not> cancelled r"
  shows "\<exists>c. canvas s = Some c \<and> run_id r = current_run c \<and> userImage_st s = Some (run_image r)
           \<and> activeProduct s = run_product r \<and> showTryOn s \<and> \<not> isCameraActive s"
proof -
  have "runs_inv s" "render_inv s" using assms(1) by (simp_all add: session_inv_def)
  from live_run_wanted [OF this assms(2,3)] obtain c where c: "canvas s = Some c" "run_id r = current_run c"
    "canvas_wanted s = Some (run_image r, run_product r)" by blast
  show ?thesis using c(1,2) canvas_wanted_eq_Some [THEN iffD1, OF c(3)] by blast
qed



subsection \<open>Resolution of a run, and the concrete session\<close>

lemma resolve_run_found:
  assumes "session_inv s" and "r \<in> set (runs s)"
  shows "find (\<lambda>r'. run_id r' = run_id r) (runs s) = Some r"
proof -
  have "distinct (map run_id (runs s))" using assms(1) runs_invD(1) by (simp add: session_inv_def)
  then show ?thesis using find_distinct_key [of run_id "runs s" "run_id r" r] assms(2) by simp
qed

lemma page_step_resolve:
  assumes "session_inv s" shows "page_step s (Resolve i out) = resolve_run i out s"
proof -
  have "render_inv (resolve_run i out s)" using resolve_run_inv [of s i out] assms by (simp add: session_inv_def)
  then show ?thesis by (simp add: page_step_def handle_event_def reconcile_stable)
qed

lemma resolve_live_run:
  assumes "session_inv s" and "r \<in> set (runs s)" and "\<not> cancelled r"
  shows "resolve_run (run_id r) out s =
    (let s' = s\<lparr>runs := filter (\<lambda>r'. run_id r' \<noteq> run_id r) (runs s)\<rparr>
     in case settle out of
          (Inr img, _) \<Rightarrow>
            map_cstate (\<lambda>cs. cs\<lparr>resultImage := Some img, loading := False\<rparr>)
              (s'\<lparr>tryOnResult := Some img, result_source := Some (run_image r, run_product r)\<rparr>)
        | (Inl m, toast) \<Rightarrow>
            (let msg = (if m = [] then ''Failed to generate try-on image'' else m)
             in map_cstate (\<lambda>cs. cs\<lparr>canvas_error := Some msg, loading := False\<rparr>)
                  (s'\<lparr>toasts := toasts s' @ (case toast of None \<Rightarrow> [] | Some t \<Rightarrow> [t]) @ [msg]\<rparr>)))"
  using resolve_run_found [OF assms(1,2)] assms(3) by (simp add: resolve_run_def Let_def)

lemma live_run_error_step:
  assumes "session_inv s" and "r \<in> set (runs s)" and "\<not> cancelled r" and "settle out = (Inl m, toast)"
  shows "tryOnResult (page_step s (Resolve (run_id r) out)) = tryOnResult s
       \<and> map_option (\<lambda>c. (canvas_error (cstate c), loading (cstate c)))
           (canvas (page_step s (Resolve (run_id r) out)))
         = Some (Some (if m = [] then ''Failed to generate try-on image'' else m), False)
       \<and> toasts (page_step s (Resolve (run_id r) out))
         = toasts s @ (case toast of None \<Rightarrow> [] | Some t \<Rightarrow> [t])
             @ [if m = [] then ''Failed to generate try-on image'' else m]"
proof -
  note inv = assms(1)
  have c: "canvas s \<noteq> None" using live_run_selection [OF inv assms(2,3)] by auto
  show ?thesis using c page_step_resolve [OF inv] resolve_live_run [OF inv assms(2,3)] assms(4)
    by (cases "canvas s") (simp_all add: map_cstate_def Let_def)
qed

lemma demo_session:
  "run_events (initial_page None) [FileSelected 1000 demo_photo, ReaderLoaded 0, TryOnClicked]
   = (initial_page None)\<lparr>userImage_st := Some demo_photo, showTryOn := True,
       canvas := Some \<lparr>props_image = demo_photo, props_product = hd products,
                 cstate = \<lparr>loading = True, canvas_error = None, resultImage = None\<rparr>, current_run = 0\<rparr>,
       runs := [\<lparr>run_id = 0, run_image = demo_photo, run_product = hd products, cancelled = False\<rparr>],
       next_run := 1\<rparr>"
  by (simp add: page_step_def handle_event_def reconcile_def canvas_wanted_def initial_page_def
      start_run_def initial_canvas_state_def)

lemma demo_reachable: "reachable (run_events (initial_page None) es)"
  by (rule reachable_run_events [OF reachable.init])

lemma demo_product_1: "products ! 1 \<in> set products" "prod_id (products ! 1) \<noteq> prod_id (hd products)"
  by (simp_all add: products_def)

lemma demo_states_reachable: "reachable demo_running" "reachable demo_switched" "reachable demo_committed"
  unfolding demo_running_def demo_switched_def demo_committed_def by (rule demo_reachable)+

lemma demo_running_eq:
  "demo_running = (initial_page None)\<lparr>userImage_st := Some demo_photo, showTryOn := True,
       canvas := Some \<lparr>props_image = demo_photo, props_product = hd products,
                 cstate = \<lparr>loading = True, canvas_error = None, resultImage = None\<rparr>, current_run = 0\<rparr>,
       runs := [\<lparr>run_id = 0, run_image = demo_photo, run_product = hd products, cancelled = False\<rparr>],
       next_run := 1\<rparr>"
  unfolding demo_running_def by (rule demo_session)

lemma demo_switched_eq:
  "demo_switched = (initial_page None)\<lparr>activeProduct := products ! 1, userImage_st := Some demo_photo,
       runs := [\<lparr>run_id = 0, run_image = demo_photo, run_product = hd products, cancelled = True\<rparr>],
       next_run := 1\<rparr>"
  using demo_product_1 unfolding demo_switched_def
  by (simp add: page_step_def handle_event_def reconcile_def canvas_wanted_def initial_page_def
      start_run_def initial_canvas_state_def cancel_run_def)

lemma demo_committed_eq:
  "demo_committed = (initial_page None)\<lparr>userImage_st := Some demo_photo, showTryOn := True, tryOnResult := Some demo_result,
       canvas := Some \<lparr>props_image = demo_photo, props_product = hd products,
                 cstate = \<lparr>loading = False, canvas_error = None, resultImage = Some demo_result\<rparr>, current_run = 0\<rparr>,
       next_run := 1, result_source := Some (demo_photo, hd products)\<rparr>"
  unfolding demo_committed_def
  by (simp add: page_step_def handle_event_def reconcile_def canvas_wanted_def initial_page_def
      start_run_def initial_canvas_state_def resolve_run_def settle_def demo_result_def map_cstate_def)

subsection \<open>Properties of the session\<close>

text \<open>C5: Every uncancelled in-flight call of the canvas was started for the photo and the product the page
  shows now, and the canvas is on screen (try-on shown, camera off).\<close>

theorem live_run_matches_selection:
  assumes "reachable s" and "r \<in> set (runs s)" and "\<not> cancelled r"
  shows "userImage_st s = Some (run_image r) \<and> activeProduct s = run_product r
         \<and> showTryOn s \<and> \<not> isCameraActive s"
  using live_run_selection [OF reachable_inv [OF assms(1)] assms(2,3)] by blast

theorem live_run_matches_selection_witness:
  "reachable demo_running \<and> demo_run False \<in> set (runs demo_running)
   \<and> userImage_st demo_running = Some demo_photo \<and> activeProduct demo_running = hd products"
  using live_run_matches_selection [of demo_running "demo_run False"] demo_states_reachable(1)
  by (simp add: demo_running_eq)

text \<open>C6: At most one call of the canvas is live at any time: every earlier one has been cancelled.\<close>

theorem at_most_one_live_run:
  assumes "reachable s"
  shows "length (filter (\<lambda>r. \<not> cancelled r) (runs s)) \<le> 1"
proof -
  have inv: "runs_inv s" using reachable_inv [OF assms] by (simp add: session_inv_def)
  show ?thesis
  proof (cases "canvas s")
    case None
    have "\<forall>r \<in> set (runs s). cancelled r" using runs_invD(2) [OF inv None] by blast
    then have "filter (\<lambda>r. \<not> cancelled r) (runs s) = []" by (simp add: filter_empty_conv)
    then show ?thesis by simp
  next
    case (Some c)
    have "\<forall>r \<in> set (runs s). \<not> cancelled r \<longrightarrow> run_id r = current_run c"
      using runs_invD(3) [OF inv Some] by blast
    with runs_invD(1) [OF inv] show ?thesis by (rule length_filter_le_one)
  qed
qed

theorem at_most_one_live_run_witness:
  "reachable demo_running \<and> length (filter (\<lambda>r. \<not> cancelled r) (runs demo_running)) \<le> 1"
  using at_most_one_live_run [of demo_running] demo_states_reachable(1) by simp

text \<open>C7: A try-on result held by the page was computed from the photo and the product selected now.\<close>

theorem result_matches_selection:
  assumes "reachable s" and "tryOnResult s = Some img"
  shows "\<exists>u. userImage_st s = Some u \<and> result_source s = Some (u, activeProduct s)"
  using reachable_inv [OF assms(1)] assms(2) unfolding session_inv_def provenance_inv_def by blast

theorem result_matches_selection_witness:
  "reachable demo_committed \<and> tryOnResult demo_committed = Some demo_result
   \<and> result_source demo_committed = Some (demo_photo, activeProduct demo_committed)"
  using result_matches_selection [of demo_committed demo_result] demo_states_reachable(3)
  by (simp add: demo_committed_eq)

text \<open>C4: The resolution of a cancelled call (the photo or product changed, or the canvas unmounted) changes
  nothing but the set of calls in flight: no result, no error, no toast, no loading change.\<close>

theorem cancelled_run_no_effect:
  assumes "reachable s" and "r \<in> set (runs s)" and "cancelled r"
  shows "page_step s (Resolve (run_id r) out) = s\<lparr>runs := filter (\<lambda>r'. run_id r' \<noteq> run_id r) (runs s)\<rparr>"
proof -
  have inv: "session_inv s" using assms(1) by (rule reachable_inv)
  have "render_inv (s\<lparr>runs := filter (\<lambda>r'. run_id r' \<noteq> run_id r) (runs s)\<rparr>)"
    using inv by (simp add: session_inv_def)
  then show ?thesis using resolve_run_found [OF inv assms(2)] assms(3)
    by (simp add: page_step_def handle_event_def resolve_run_def reconcile_stable)
qed

theorem cancelled_run_no_effect_witness:
  "reachable demo_switched \<and> demo_run True \<in> set (runs demo_switched)
   \<and> page_step demo_switched (Resolve 0 (InvokeData (SuccessBody demo_result))) = demo_switched\<lparr>runs := []\<rparr>"
  using cancelled_run_no_effect [of demo_switched "demo_run True" "InvokeData (SuccessBody demo_result)"]
    demo_states_reachable(2)
  by (simp add: demo_switched_eq)

text \<open>C18: The resolution of the live call with an image commits it: the page holds the result, the canvas
  shows it and stops loading, its error is unchanged and no toast is raised.\<close>

theorem live_run_commits:
  assumes "reachable s" and "r \<in> set (runs s)" and "\<not> cancelled r" and "settle out = (Inr img, t)"
  shows "tryOnResult (page_step s (Resolve (run_id r) out)) = Some img
       \<and> map_option (\<lambda>c. (resultImage (cstate c), loading (cstate c), canvas_error (cstate c)))
           (canvas (page_step s (Resolve (run_id r) out)))
         = map_option (\<lambda>c. (Some img, False, canvas_error (cstate c))) (canvas s)
       \<and> canvas s \<noteq> None \<and> toasts (page_step s (Resolve (run_id r) out)) = toasts s"
proof -
  have inv: "session_inv s" using assms(1) by (rule reachable_inv)
  have c: "canvas s \<noteq> None" using live_run_selection [OF inv assms(2,3)] by auto
  show ?thesis using c page_step_resolve [OF inv] resolve_live_run [OF inv assms(2,3)] assms(4)
    by (cases "canvas s") (simp_all add: map_cstate_def)
qed

theorem live_run_commits_witness:
  "reachable demo_running \<and> settle (InvokeData (SuccessBody demo_result)) = (Inr demo_result, None)
   \<and> tryOnResult (page_step demo_running (Resolve 0 (InvokeData (SuccessBody demo_result)))) = Some demo_result"
  using live_run_commits [of demo_running "demo_run False" "InvokeData (SuccessBody demo_result)" demo_result None]
    demo_states_reachable(1)
  by (simp add: demo_running_eq settle_def demo_result_def)

text \<open>C19: The resolution of the live call with an error shows the message (or the generic one when it is
  empty) on the canvas, stops loading, toasts the rate-limit notice if any and then the message,
  and leaves the result as it was.\<close>

theorem live_run_reports_error:
  assumes "reachable s" and "r \<in> set (runs s)" and "\<not> cancelled r" and "settle out = (Inl m, toast)"
  shows "tryOnResult (page_step s (Resolve (run_id r) out)) = tryOnResult s
       \<and> map_option (\<lambda>c. (canvas_error (cstate c), loading (cstate c)))
           (canvas (page_step s (Resolve (run_id r) out)))
         = Some (Some (if m = [] then ''Failed to generate try-on image'' else m), False)
       \<and> toasts (page_step s (Resolve (run_id r) out))
         = toasts s @ (case toast of None \<Rightarrow> [] | Some t \<Rightarrow> [t])
             @ [if m = [] then ''Failed to generate try-on image'' else m]"
  using live_run_error_step [OF reachable_inv [OF assms(1)] assms(2-4)] .

theorem live_run_reports_error_witness:
  "reachable demo_running
   \<and> settle (InvokeFailed ''Edge Function returned a non-2xx status code'')
       = (Inl ''Edge Function returned a non-2xx status code'', None)
   \<and> toasts (page_step demo_running (Resolve 0 (InvokeFailed ''Edge Function returned a non-2xx status code'')))
       = [''Edge Function returned a non-2xx status code'']"
  using live_run_reports_error [of demo_running "demo_run False"
      "InvokeFailed ''Edge Function returned a non-2xx status code''"
      "''Edge Function returned a non-2xx status code''" None]
    demo_states_reachable(1)
  by (simp add: demo_running_eq settle_def initial_page_def)

text \<open>C20: Clicking Try On with a photo and the camera off mounts a loading canvas for that photo and the
  active product, with exactly one live call, for them.\<close>

theorem try_on_starts_run:
  assumes "reachable s" and "userImage_st s = Some u" and "\<not> isCameraActive s" and "\<not> showTryOn s"
  shows "canvas (page_step s TryOnClicked) =
           Some \<lparr>props_image = u, props_product = activeProduct s,
                 cstate = \<lparr>loading = True, canvas_error = None, resultImage = None\<rparr>,
                 current_run = next_run s\<rparr>
       \<and> filter (\<lambda>r. \<not> cancelled r) (runs (page_step s TryOnClicked))
           = [\<lparr>run_id = next_run s, run_image = u, run_product = activeProduct s, cancelled = False\<rparr>]"
proof -
  have inv: "session_inv s" using assms(1) by (rule reachable_inv)
  have "canvas_wanted s = None" using assms(4) by (simp add: canvas_wanted_def)
  then have none: "canvas s = None" using inv by (simp add: session_inv_def render_inv_def)
  then have dead: "filter (\<lambda>r. \<not> cancelled r) (runs s) = []"
    using inv runs_invD(2) by (auto simp: session_inv_def filter_empty_conv)
  have "canvas_wanted (handle_event s TryOnClicked) = Some (u, activeProduct s)"
    using assms(2,3) by (simp add: handle_event_def canvas_wanted_def)
  then show ?thesis using none dead assms(2)
    by (simp add: page_step_def handle_event_def reconcile_def start_run_def initial_canvas_state_def)
qed

theorem try_on_starts_run_witness:
  "reachable (run_events (initial_page None) [FileSelected 1000 demo_photo, ReaderLoaded 0])
   \<and> canvas (page_step (run_events (initial_page None) [FileSelected 1000 demo_photo, ReaderLoaded 0]) TryOnClicked)
       = Some \<lparr>props_image = demo_photo, props_product = hd products,
               cstate = \<lparr>loading = True, canvas_error = None, resultImage = None\<rparr>, current_run = 0\<rparr>"
  using try_on_starts_run [of "run_events (initial_page None) [FileSelected 1000 demo_photo, ReaderLoaded 0]" demo_photo]
    demo_reachable [of "[FileSelected 1000 demo_photo, ReaderLoaded 0]"]
  by (simp add: page_step_def handle_event_def reconcile_def canvas_wanted_def initial_page_def)

end
