(* ===== verification/TryOnView.thy ===== *)
theory TryOnView
  imports TryOnSession
begin

text \<open>
  What the try-on page renders for a state: the render function of
  \<^verbatim>\<open>src/src/components/TryOnCanvas.tsx\<close> (lines 69-100) and the preview area, the
  action bar and the product panels of \<^verbatim>\<open>src/src/pages/TryOn.tsx\<close> (lines 155-293).
  Markup and styling are dropped; what is kept is which element is shown, with the data it
  shows, and which buttons are offered.
\<close>

datatype canvas_view = CanvasLoading | CanvasFailed string | CanvasResult string | CanvasNothing

text \<open>Lines 69-100; an empty string is falsy, as \<open>null\<close> is.\<close>

definition canvas_view :: "canvas_state \<Rightarrow> canvas_view" where
  "canvas_view cs =
     (if loading cs then CanvasLoading
      else if canvas_error cs \<noteq> None \<and> canvas_error cs \<noteq> Some [] then CanvasFailed (the (canvas_error cs))
      else if resultImage cs \<noteq> None \<and> resultImage cs \<noteq> Some [] then CanvasResult (the (resultImage cs))
      else CanvasNothing)"

text \<open>
  The preview area (lines 155-210): the live video (mirrored when facing the user), the
  mounted canvas with what it renders, the photo with the product badge, or the upload prompt.
\<close>

datatype preview =
    LiveVideo bool
  | CanvasPreview "canvas_view option"
  | PhotoPreview string string string
  | UploadPrompt

datatype control =
    CaptureButton | FlipButton | CancelButton | UseCameraButton | UploadButton | TryOnButton | ResetButton

record page_view =
  view_preview :: preview
  view_controls :: "control list"
  view_selected :: "string \<times> string \<times> string \<times> nat"
  view_others :: "product list"

definition page_view :: "page_state \<Rightarrow> page_view" where
  "page_view s =
     \<lparr>view_preview =
        (if isCameraActive s then LiveVideo (facingMode s = FacingUser)
         else (case userImage_st s of
                 Some img \<Rightarrow>
                   (if showTryOn s then CanvasPreview (map_option (\<lambda>c. canvas_view (cstate c)) (canvas s))
                    else PhotoPreview img (image (activeProduct s)) (prod_name (activeProduct s)))
               | None \<Rightarrow> UploadPrompt)),
      view_controls =
        (if isCameraActive s then [CaptureButton, FlipButton, CancelButton] else [UseCameraButton, UploadButton])
        @ (if userImage_st s \<noteq> None \<and> \<not> isCameraActive s then [TryOnButton, ResetButton] else []),
      view_selected = (image (activeProduct s), subcategory (activeProduct s), prod_name (activeProduct s),
                       price (activeProduct s)),
      view_others = filter (\<lambda>p. prod_id p \<noteq> prod_id (activeProduct s)) products\<rparr>"

text \<open>The event each visible control raises (lines 166-177, 218-239 and 276-280).\<close>

definition offered :: "page_view \<Rightarrow> page_event \<Rightarrow> bool" where
  "offered v e =
     (case e of
        SelectProduct p \<Rightarrow> p \<in> set (view_others v)
      | CapturePhoto _ \<Rightarrow> CaptureButton \<in> set (view_controls v)
      | StopCamera \<Rightarrow> CancelButton \<in> set (view_controls v)
      | TryOnClicked \<Rightarrow> TryOnButton \<in> set (view_controls v)
      | ResetTryOn \<Rightarrow> ResetButton \<in> set (view_controls v)
      | FileSelected _ _ \<Rightarrow> UploadButton \<in> set (view_controls v)
      | _ \<Rightarrow> True)"

subsection \<open>Properties of the view\<close>

text \<open>C21: In every reachable session, whenever the page shows the try-on canvas, it shows a
  mounted canvas whose props are the current photo and product, rendering its own state.\<close>

theorem view_shows_current_canvas:
  assumes "reachable s" and "view_preview (page_view s) = CanvasPreview cv"
  shows "\<exists>c u. canvas s = Some c \<and> userImage_st s = Some u \<and> props_image c = u
           \<and> props_product c = activeProduct s \<and> cv = Some (canvas_view (cstate c))"
proof -
  have r: "render_inv s" using reachable_inv [OF assms(1)] by (simp add: session_inv_def)
  obtain u where u: "userImage_st s = Some u" "showTryOn s" "\<not> isCameraActive s"
    using assms(2) by (auto simp: page_view_def split: if_splits option.splits)
  then have "canvas_wanted s = Some (u, activeProduct s)" by (simp add: canvas_wanted_def)
  then obtain c where c: "canvas s = Some c" "props_image c = u" "props_product c = activeProduct s"
    using r by (cases "canvas s") (auto simp: render_inv_def)
  then show ?thesis using u assms(2) by (simp add: page_view_def)
qed

text \<open>The products the list offers are the catalogue minus the active product: exactly those
  for which \<open>SelectProduct\<close> changes the product.\<close>

theorem select_offered_products:
  "offered (page_view s) (SelectProduct p) \<longleftrightarrow> p \<in> set products \<and> prod_id p \<noteq> prod_id (activeProduct s)"
  by (auto simp: offered_def page_view_def)

lemma demo_running_view:
  "view_preview (page_view demo_running) = CanvasPreview (Some CanvasLoading)"
  by (simp add: demo_running_eq page_view_def canvas_view_def initial_page_def)

theorem view_shows_current_canvas_witness:
  "reachable demo_running \<and> view_preview (page_view demo_running) = CanvasPreview (Some CanvasLoading)
   \<and> canvas demo_running \<noteq> None"
  using view_shows_current_canvas [OF demo_states_reachable(1) demo_running_view] demo_states_reachable(1)
    demo_running_view by auto

end
