(* ===== verification/Compositor.thy ===== *)
theory Compositor
  imports Placement
begin

text \<open>
  The local compositor of \<^verbatim>\<open>src/src/lib/tryOnEngine.ts\<close>: \<open>removeBackground\<close>
  (lines 109-165), which throws when \<open>getImageData\<close> is asked for an empty image and
  otherwise works on the RGBA bytes of the canvas \<open>ImageData\<close> (\<open>clean_image_data\<close>), and
  \<open>compositeImage\<close> (lines 169-218) as a sequence of calls on a 2D context.
\<close>

section \<open>Background removal\<close>

text \<open>
  An \<open>ImageData\<close> buffer is a \<open>Uint8ClampedArray\<close>: a list of bytes, four per pixel
  (R, G, B, A), row by row. Writing an integer to it stores it clamped to \<open>[0, 255]\<close>.
\<close>

definition clamp_u8 :: "int \<Rightarrow> u8" where
  "clamp_u8 x = word_of_int (max 0 (min 255 x))"

text \<open>The four corner offsets (lines 123-128), in JavaScript numbers: negative when a side is 0.\<close>

definition samplePositions :: "nat \<Rightarrow> nat \<Rightarrow> int list" where
  "samplePositions w h =
     [0, (int w - 1) * 4, (int h - 1) * int w * 4, ((int h - 1) * int w + (int w - 1)) * 4]"

text \<open>
  The sampling loop (lines 130-138): the channel sums and the count of in-range samples.
\<close>

definition sample_step :: "u8 list \<Rightarrow> int \<times> int \<times> int \<times> nat \<Rightarrow> int \<Rightarrow> int \<times> int \<times> int \<times> nat" where
  "sample_step data acc idx =
     (case acc of (bgR, bgG, bgB, count) \<Rightarrow>
        if 0 \<le> idx \<and> idx + 2 < int (length data)
        then (bgR + uint (data ! nat idx), bgG + uint (data ! nat (idx + 1)),
              bgB + uint (data ! nat (idx + 2)), Suc count)
        else acc)"

definition sample_corners :: "u8 list \<Rightarrow> int list \<Rightarrow> int \<times> int \<times> int \<times> nat" where
  "sample_corners data idxs = foldl (sample_step data) (0, 0, 0, 0) idxs"

text \<open>
  Lines 139-141. With no sample in range the divisions are \<open>0 / 0 = NaN\<close>; every later
  comparison with \<open>NaN\<close> is false, so the pixel loop changes nothing: \<open>None\<close>. A
  buffer that \<open>getImageData\<close> returns for a positive size has every corner in range.
\<close>

definition background_colour :: "u8 list \<Rightarrow> nat \<Rightarrow> nat \<Rightarrow> (int \<times> int \<times> int) option" where
  "background_colour data w h =
     (case sample_corners data (samplePositions w h) of
        (bgR, bgG, bgB, count) \<Rightarrow>
          if count = 0 then None
          else Some (round (real_of_int bgR / real count), round (real_of_int bgG / real count),
                     round (real_of_int bgB / real count)))"

definition threshold :: real where "threshold = 60"

definition edgeFade :: real where "edgeFade = 30"

text \<open>The squared colour distance under the square root of lines 148-150.\<close>

definition dist2 :: "int \<times> int \<times> int \<Rightarrow> u8 \<Rightarrow> u8 \<Rightarrow> u8 \<Rightarrow> int" where
  "dist2 bg r g b = (case bg of (bgR, bgG, bgB) \<Rightarrow> (uint r - bgR)\<^sup>2 + (uint g - bgG)\<^sup>2 + (uint b - bgB)\<^sup>2)"

text \<open>The body of the pixel loop (lines 147-158): the new alpha of one pixel.\<close>

definition pixel_alpha :: "int \<times> int \<times> int \<Rightarrow> u8 \<Rightarrow> u8 \<Rightarrow> u8 \<Rightarrow> u8 \<Rightarrow> u8" where
  "pixel_alpha bg r g b a =
     (let dist = sqrt (real_of_int (dist2 bg r g b))
      in if dist < threshold then 0
         else if dist < threshold + edgeFade then
           (let alpha = ((dist - threshold) / edgeFade) * 255
            in clamp_u8 (min (uint a) (round alpha)))
         else a)"

text \<open>
  The pixel loop (lines 146-159), index \<open>i\<close> stepping by 4. A trailing incomplete pixel
  reads \<open>undefined\<close>, so its distance is \<open>NaN\<close>, or writes past the end, which a typed
  array ignores: it is left as it is.
\<close>

function bg_pass :: "int \<times> int \<times> int \<Rightarrow> nat \<Rightarrow> u8 list \<Rightarrow> u8 list" where
  "bg_pass bg i data =
     (if i < length data then
        bg_pass bg (i + 4)
          (if i + 3 < length data
           then data[i + 3 := pixel_alpha bg (data ! i) (data ! (i + 1)) (data ! (i + 2)) (data ! (i + 3))]
           else data)
      else data)"
  by pat_completeness auto
termination
  by (relation "measure (\<lambda>(bg, i, data). length data - i)") auto

declare bg_pass.simps [simp del]

text \<open>
  What \<open>removeBackground\<close> does with \<open>imageData.data\<close>, the buffer of the \<open>w \<times> h\<close>
  drawing of the product image, once \<open>getImageData\<close> has returned it (lines 119-162).
\<close>

definition clean_image_data :: "u8 list \<Rightarrow> nat \<Rightarrow> nat \<Rightarrow> u8 list" where
  "clean_image_data data w h =
     (case background_colour data w h of
        None \<Rightarrow> data
      | Some bg \<Rightarrow> bg_pass bg 0 data)"

text \<open>The reference: the alpha function applied to each whole pixel.\<close>

fun map_pixels :: "(u8 \<Rightarrow> u8 \<Rightarrow> u8 \<Rightarrow> u8 \<Rightarrow> u8) \<Rightarrow> u8 list \<Rightarrow> u8 list" where
  "map_pixels f (r # g # b # a # rest) = r # g # b # f r g b a # map_pixels f rest"
| "map_pixels f xs = xs"

section \<open>The 2D context of the compositing canvas\<close>

text \<open>
  The part of the HTML canvas 2D context that \<open>compositeImage\<close> uses: the current
  transformation matrix, the drawing state (global alpha, compositing operation, shadow) with
  the stack of \<open>save\<close>/\<open>restore\<close>, the bitmap size, and the bitmap as the list of
  the layers drawn on it in order. The semantics of each call is that of the HTML standard:
  setting \<open>width\<close> or \<open>height\<close> resets the bitmap and the drawing state,
  \<open>restore\<close> on an empty stack does nothing, and the setters ignore invalid values
  (a negative blur, an alpha outside \<open>[0, 1]\<close>, an unknown operation).
\<close>

record affine =
  m_a :: real
  m_b :: real
  m_c :: real
  m_d :: real
  m_e :: real
  m_f :: real

definition identity_affine :: affine where
  "identity_affine = \<lparr>m_a = 1, m_b = 0, m_c = 0, m_d = 1, m_e = 0, m_f = 0\<rparr>"

definition apply_affine :: "affine \<Rightarrow> real \<times> real \<Rightarrow> real \<times> real" where
  "apply_affine m p = (case p of (x, y) \<Rightarrow> (m_a m * x + m_c m * y + m_e m, m_b m * x + m_d m * y + m_f m))"

definition translate_affine :: "real \<Rightarrow> real \<Rightarrow> affine \<Rightarrow> affine" where
  "translate_affine tx ty m =
     m\<lparr>m_e := m_a m * tx + m_c m * ty + m_e m, m_f := m_b m * tx + m_d m * ty + m_f m\<rparr>"

definition rotate_affine :: "real \<Rightarrow> affine \<Rightarrow> affine" where
  "rotate_affine t m =
     m\<lparr>m_a := m_a m * cos t + m_c m * sin t, m_b := m_b m * cos t + m_d m * sin t,
       m_c := m_c m * cos t - m_a m * sin t, m_d := m_d m * cos t - m_b m * sin t\<rparr>"

record draw_state =
  ds_transform :: affine
  ds_globalAlpha :: real
  ds_compositeOp :: string
  ds_shadowColor :: string
  ds_shadowBlur :: real
  ds_shadowOffsetX :: real
  ds_shadowOffsetY :: real

definition default_draw_state :: draw_state where
  "default_draw_state =
     \<lparr>ds_transform = identity_affine, ds_globalAlpha = 1, ds_compositeOp = ''source-over'',
      ds_shadowColor = ''rgba(0, 0, 0, 0)'', ds_shadowBlur = 0, ds_shadowOffsetX = 0, ds_shadowOffsetY = 0\<rparr>"

datatype image_source = UserPhoto | CleanOverlay "u8 list"

record draw_call =
  dc_source :: image_source
  dc_rect :: "real \<times> real \<times> real \<times> real"
  dc_state :: draw_state

datatype layer = Cleared "real \<times> real \<times> real \<times> real" | Drawn draw_call

record canvas2d =
  cv_width :: nat
  cv_height :: nat
  cv_state :: draw_state
  cv_stack :: "draw_state list"
  cv_log :: "layer list"

datatype canvas_op =
    SetWidth nat | SetHeight nat
  | ClearRect real real real real
  | DrawImage image_source real real real real
  | Save | Restore
  | Translate real real | Rotate real
  | SetShadowColor string | SetShadowBlur real | SetShadowOffsetX real | SetShadowOffsetY real
  | SetGlobalAlpha real | SetGlobalCompositeOperation string

definition composite_operations :: "string list" where
  "composite_operations =
     [''source-over'', ''source-in'', ''source-out'', ''source-atop'', ''destination-over'',
      ''destination-in'', ''destination-out'', ''destination-atop'', ''lighter'', ''copy'', ''xor'',
      ''multiply'', ''screen'', ''overlay'', ''darken'', ''lighten'', ''color-dodge'', ''color-burn'',
      ''hard-light'', ''soft-light'', ''difference'', ''exclusion'', ''hue'', ''saturation'', ''color'',
      ''luminosity'']"

definition map_state :: "(draw_state \<Rightarrow> draw_state) \<Rightarrow> canvas2d \<Rightarrow> canvas2d" where
  "map_state f c = c\<lparr>cv_state := f (cv_state c)\<rparr>"

fun exec_op :: "canvas2d \<Rightarrow> canvas_op \<Rightarrow> canvas2d" where
  "exec_op c (SetWidth n) = c\<lparr>cv_width := n, cv_state := default_draw_state, cv_stack := [], cv_log := []\<rparr>"
| "exec_op c (SetHeight n) = c\<lparr>cv_height := n, cv_state := default_draw_state, cv_stack := [], cv_log := []\<rparr>"
| "exec_op c (ClearRect x y w h) = c\<lparr>cv_log := cv_log c @ [Cleared (x, y, w, h)]\<rparr>"
| "exec_op c (DrawImage src x y w h) =
     c\<lparr>cv_log := cv_log c @ [Drawn \<lparr>dc_source = src, dc_rect = (x, y, w, h), dc_state = cv_state c\<rparr>]\<rparr>"
| "exec_op c Save = c\<lparr>cv_stack := cv_state c # cv_stack c\<rparr>"
| "exec_op c Restore = (case cv_stack c of [] \<Rightarrow> c | st # sts \<Rightarrow> c\<lparr>cv_state := st, cv_stack := sts\<rparr>)"
| "exec_op c (Translate tx ty) = map_state (\<lambda>st. st\<lparr>ds_transform := translate_affine tx ty (ds_transform st)\<rparr>) c"
| "exec_op c (Rotate t) = map_state (\<lambda>st. st\<lparr>ds_transform := rotate_affine t (ds_transform st)\<rparr>) c"
| "exec_op c (SetShadowColor col) = map_state (\<lambda>st. st\<lparr>ds_shadowColor := col\<rparr>) c"
| "exec_op c (SetShadowBlur v) = (if 0 \<le> v then map_state (\<lambda>st. st\<lparr>ds_shadowBlur := v\<rparr>) c else c)"
| "exec_op c (SetShadowOffsetX v) = map_state (\<lambda>st. st\<lparr>ds_shadowOffsetX := v\<rparr>) c"
| "exec_op c (SetShadowOffsetY v) = map_state (\<lambda>st. st\<lparr>ds_shadowOffsetY := v\<rparr>) c"
| "exec_op c (SetGlobalAlpha v) = (if 0 \<le> v \<and> v \<le> 1 then map_state (\<lambda>st. st\<lparr>ds_globalAlpha := v\<rparr>) c else c)"
| "exec_op c (SetGlobalCompositeOperation op) =
     (if op \<in> set composite_operations then map_state (\<lambda>st. st\<lparr>ds_compositeOp := op\<rparr>) c else c)"

section \<open>compositeImage\<close>

text \<open>\<open>img.naturalWidth || img.width\<close> for the dimensions of an image element.\<close>

definition js_or_nat :: "nat \<Rightarrow> nat \<Rightarrow> nat" where
  "js_or_nat a b = (if a \<noteq> 0 then a else b)"

record image_input =
  naturalWidth :: nat
  img_width :: nat
  naturalHeight :: nat
  img_height :: nat

text \<open>
  \<open>removeBackground(img)\<close> (lines 109-165): a canvas of the image's size, the image drawn
  on it, its pixels read back with \<open>getImageData\<close>, cleaned and written back. The bytes
  read back are the argument \<open>data\<close>. \<open>getImageData\<close> throws an
  \<open>IndexSizeError\<close> when the width or the height is 0 (HTML standard).
\<close>

definition removeBackground :: "image_input \<Rightarrow> u8 list \<Rightarrow> string + u8 list" where
  "removeBackground img data =
     (let w = js_or_nat (naturalWidth img) (img_width img);
          h = js_or_nat (naturalHeight img) (img_height img)
      in if w = 0 \<or> h = 0 then Inl ''IndexSizeError'' else Inr (clean_image_data data w h))"

text \<open>The calls of lines 176-180 on the context: size, clear, draw the photo.\<close>

definition photo_ops :: "nat \<Rightarrow> nat \<Rightarrow> canvas_op list" where
  "photo_ops W H =
     [SetWidth W, SetHeight H,
      ClearRect 0 0 (real W) (real H),
      DrawImage UserPhoto 0 0 (real W) (real H)]"

text \<open>The calls of lines 186-215: the two overlay passes between \<open>save\<close> and \<open>restore\<close>.\<close>

definition overlay_ops :: "u8 list \<Rightarrow> overlay_position \<Rightarrow> canvas_op list" where
  "overlay_ops clean position =
     [Save,
      Translate (pos_x position + pos_width position / 2) (pos_y position + pos_height position / 2),
      Rotate (pos_angle position),
      SetShadowColor ''rgba(0,0,0,0.3)'',
      SetShadowBlur (pos_width position * 0.05),
      SetShadowOffsetX (pos_width position * 0.01),
      SetShadowOffsetY (pos_width position * 0.02),
      SetGlobalAlpha 0.92,
      DrawImage (CleanOverlay clean) (- pos_width position / 2) (- pos_height position / 2)
        (pos_width position) (pos_height position),
      SetGlobalCompositeOperation ''multiply'',
      SetGlobalAlpha 0.08,
      DrawImage (CleanOverlay clean) (- pos_width position / 2) (- pos_height position / 2)
        (pos_width position) (pos_height position),
      Restore]"

definition composite_ops :: "nat \<Rightarrow> nat \<Rightarrow> u8 list \<Rightarrow> overlay_position \<Rightarrow> canvas_op list" where
  "composite_ops W H clean position = photo_ops W H @ overlay_ops clean position"

text \<open>
  The state of the canvas afterwards and the outcome: the exception thrown, or the arguments
  of \<open>canvas.toDataURL("image/jpeg", 0.92)\<close> (line 217), whose result is returned.
\<close>

record encoded_image =
  enc_canvas :: canvas2d
  enc_outcome :: "string + string \<times> real"

text \<open>
  Lines 169-218. The canvas has been sized, cleared and drawn with the photo when
  \<open>removeBackground\<close> is called (line 183); when it throws, the overlay is never drawn
  and the exception leaves \<open>compositeImage\<close>.
\<close>

definition compositeImage ::
  "canvas2d \<Rightarrow> image_input \<Rightarrow> image_input \<Rightarrow> u8 list \<Rightarrow> overlay_position \<Rightarrow> encoded_image" where
  "compositeImage canvas userImg overlayImg overlayData position =
     (let W = js_or_nat (naturalWidth userImg) (img_width userImg);
          H = js_or_nat (naturalHeight userImg) (img_height userImg)
      in case removeBackground overlayImg overlayData of
           Inl err \<Rightarrow> \<lparr>enc_canvas = foldl exec_op canvas (photo_ops W H), enc_outcome = Inl err\<rparr>
         | Inr cleanOverlay \<Rightarrow>
             \<lparr>enc_canvas = foldl exec_op canvas (composite_ops W H cleanOverlay position),
              enc_outcome = Inr (''image/jpeg'', 0.92)\<rparr>)"

text \<open>The transform and the drawing state of the two overlay passes.\<close>

definition overlay_transform :: "overlay_position \<Rightarrow> affine" where
  "overlay_transform p =
     rotate_affine (pos_angle p)
       (translate_affine (pos_x p + pos_width p / 2) (pos_y p + pos_height p / 2) identity_affine)"

definition shadow_state :: "overlay_position \<Rightarrow> draw_state" where
  "shadow_state p =
     default_draw_state\<lparr>ds_transform := overlay_transform p, ds_shadowColor := ''rgba(0,0,0,0.3)'',
       ds_shadowBlur := pos_width p * 0.05, ds_shadowOffsetX := pos_width p * 0.01,
       ds_shadowOffsetY := pos_width p * 0.02\<rparr>"

subsection \<open>Inputs for the witnesses\<close>

text \<open>A 3 by 3 product image: white corners, near-white edges, a black centre.\<close>

definition white_px :: "u8 list" where "white_px = [255, 255, 255, 255]"

definition near_white_px :: "u8 list" where "near_white_px = [250, 250, 250, 255]"

definition black_px :: "u8 list" where "black_px = [0, 0, 0, 255]"

definition demo_overlay :: "u8 list" where
  "demo_overlay = concat [white_px, near_white_px, white_px, near_white_px, black_px, near_white_px,
                          white_px, near_white_px, white_px]"

definition demo_position :: overlay_position where
  "demo_position = \<lparr>pos_x = 58, pos_y = 167.6, pos_width = 144, pos_height = 64.8, pos_angle = 0\<rparr>"

definition demo_image :: image_input where
  "demo_image = \<lparr>naturalWidth = 3, img_width = 3, naturalHeight = 3, img_height = 3\<rparr>"

definition demo_canvas :: canvas2d where
  "demo_canvas = \<lparr>cv_width = 300, cv_height = 150, cv_state = default_draw_state, cv_stack = [], cv_log = []\<rparr>"

subsection \<open>Lemmas\<close>

lemma uint_clamp_u8: "uint (clamp_u8 x) = max 0 (min 255 x)"
  unfolding clamp_u8_def by (rule uint_word_of_int_u8) auto

lemma map_pixels_length [simp]: "length (map_pixels f xs) = length xs"
  by (induction f xs rule: map_pixels.induct) simp_all

lemma map_pixels_short: "length xs < 4 \<Longrightarrow> map_pixels f xs = xs"
  by (cases "(f, xs)" rule: map_pixels.cases) auto

lemma bg_pass_eq_map_pixels:
  "bg_pass bg i data = take i data @ map_pixels (pixel_alpha bg) (drop i data)"
proof (induction bg i data rule: bg_pass.induct)
  case (1 bg i data)
  show ?case
  proof (cases "i < length data")
    case False then show ?thesis by (simp add: bg_pass.simps)
  next
    case True
    show ?thesis
    proof (cases "i + 3 < length data")
      case full: True
      let ?v = "pixel_alpha bg (data ! i) (data ! (i + 1)) (data ! (i + 2)) (data ! (i + 3))"
      have drop: "drop i data = data ! i # data ! (i + 1) # data ! (i + 2) # data ! (i + 3) # drop (i + 4) data"
        using full by (simp add: Cons_nth_drop_Suc numeral_eq_Suc add.commute)
      have "bg_pass bg i data = take (i + 4) (data[i + 3 := ?v]) @ map_pixels (pixel_alpha bg) (drop (i + 4) (data[i + 3 := ?v]))"
        using "1.IH" True full by (simp add: bg_pass.simps)
      also have "take (i + 4) (data[i + 3 := ?v]) = take i data @ [data ! i, data ! (i + 1), data ! (i + 2), ?v]"
        using full by (simp add: take_Suc_conv_app_nth numeral_eq_Suc take_update_swap list_update_append)
      also have "drop (i + 4) (data[i + 3 := ?v]) = drop (i + 4) data" by simp
      finally show ?thesis using drop by simp
    next
      case part: False
      have "bg_pass bg i data = data" using True part "1.IH" by (simp add: bg_pass.simps [of bg i])
      moreover have "map_pixels (pixel_alpha bg) (drop i data) = drop i data"
        using part by (intro map_pixels_short) simp
      ultimately show ?thesis by simp
    qed
  qed
qed

lemma map_pixels_pixel:
  "4 * p + 3 < length xs \<Longrightarrow> j < 4 \<Longrightarrow> map_pixels f xs ! (4 * p + j) =
     (if j = 3 then f (xs ! (4 * p)) (xs ! (4 * p + 1)) (xs ! (4 * p + 2)) (xs ! (4 * p + 3))
      else xs ! (4 * p + j))"
proof (induction p arbitrary: xs)
  case 0
  obtain r g b a rest where xs: "xs = r # g # b # a # rest" using four_cons [of xs] "0.prems"(1) by auto
  have "j = 0 \<or> j = 1 \<or> j = 2 \<or> j = 3" using "0.prems"(2) by auto
  then show ?case using xs by auto
next
  case (Suc p)
  obtain r g b a rest where xs: "xs = r # g # b # a # rest" using four_cons [of xs] Suc.prems(1) by auto
  have "4 * p + 3 < length rest" using Suc.prems(1) xs by simp
  note ih = Suc.IH [OF this Suc.prems(2)]
  have i: "4 * Suc p + j = Suc (Suc (Suc (Suc (4 * p + j))))" for j by simp
  show ?case using ih xs by (simp only: i) (simp add: add.commute)
qed

lemma map_pixels_tail:
  "4 * (length xs div 4) \<le> k \<Longrightarrow> map_pixels f xs ! k = xs ! k"
proof (induction f xs arbitrary: k rule: map_pixels.induct)
  case (1 f r g b a rest)
  have l: "4 * (length (r # g # b # a # rest) div 4) = 4 + 4 * (length rest div 4)" by simp
  define n where "n = k - 4"
  have "k = Suc (Suc (Suc (Suc n)))" "4 * (length rest div 4) \<le> n" using "1.prems" l by (simp_all add: n_def)
  then show ?case using "1.IH" by simp
qed simp_all

lemma dist2_nonneg: "0 \<le> dist2 bg r g b"
  by (cases bg) (simp add: dist2_def)

lemma sqrt_dist_less:
  "0 \<le> t \<Longrightarrow> sqrt (real_of_int (dist2 bg r g b)) < t \<longleftrightarrow> real_of_int (dist2 bg r g b) < t\<^sup>2"
  by (rule sqrt_less_iff_sq) (simp_all add: dist2_nonneg)

lemma pixel_alpha_near: "dist2 bg r g b < 3600 \<Longrightarrow> pixel_alpha bg r g b a = 0"
  using sqrt_dist_less [of 60 bg r g b] by (simp add: pixel_alpha_def Let_def threshold_def)

lemma pixel_alpha_far: "8100 \<le> dist2 bg r g b \<Longrightarrow> pixel_alpha bg r g b a = a"
  using sqrt_dist_less [of 60 bg r g b] sqrt_dist_less [of 90 bg r g b]
  by (simp add: pixel_alpha_def Let_def threshold_def edgeFade_def)

lemma feather_nonneg:
  "60 \<le> sqrt (real_of_int (dist2 bg r g b)) \<Longrightarrow> 0 \<le> round ((sqrt (real_of_int (dist2 bg r g b)) - 60) / 30 * 255)"
  by (rule round_nonneg) simp

lemma feather_le:
  "sqrt (real_of_int (dist2 bg r g b)) < 90 \<Longrightarrow> round ((sqrt (real_of_int (dist2 bg r g b)) - 60) / 30 * 255) \<le> 255"
  by (rule round_le_of_int) simp

lemma pixel_alpha_le: "uint (pixel_alpha bg r g b a) \<le> uint a"
proof -
  have a: "0 \<le> uint a \<and> uint a \<le> 255" by (rule uint_u8_bound)
  then have "uint (clamp_u8 (min (uint a) x)) \<le> uint a" for x by (simp add: uint_clamp_u8)
  then show ?thesis using a by (simp add: pixel_alpha_def Let_def Let_def)
qed

lemma pixel_alpha_own_colour: "pixel_alpha (uint r, uint g, uint b) r g b a = 0"
  by (rule pixel_alpha_near) (simp add: dist2_def)

lemma sample_uniform:
  assumes "\<forall>idx \<in> set idxs. 0 \<le> idx \<and> idx + 2 < int (length data)
             \<and> uint (data ! nat idx) = R \<and> uint (data ! nat (idx + 1)) = G \<and> uint (data ! nat (idx + 2)) = B"
  shows "foldl (sample_step data) (x, y, z, n) idxs
           = (x + int (length idxs) * R, y + int (length idxs) * G, z + int (length idxs) * B, n + length idxs)"
  using assms
proof (induction idxs arbitrary: x y z n)
  case Nil then show ?case by simp
next
  case (Cons idx idxs)
  then show ?case by (simp add: sample_step_def algebra_simps)
qed

lemma nth_concat_replicate4:
  "k < n \<Longrightarrow> j < 4 \<Longrightarrow> concat (replicate n [r, g, b, a]) ! (4 * k + j) = [r, g, b, a] ! j"
proof (induction n arbitrary: k)
  case 0 then show ?case by simp
next
  case (Suc n)
  show ?case
  proof (cases k)
    case 0
    have "j = 0 \<or> j = 1 \<or> j = 2 \<or> j = 3" using Suc.prems(2) by auto
    then show ?thesis using 0 by auto
  next
    case (Suc k')
    then have "4 * k + j = 4 + (4 * k' + j)" by simp
    then show ?thesis using Suc.IH [of k'] Suc.prems \<open>k = Suc k'\<close> by (simp add: nth_append)
  qed
qed

lemma samplePositions_pixels:
  assumes "0 < w" and "0 < h"
  shows "samplePositions w h = map (\<lambda>k. 4 * int k) [0, w - 1, (h - 1) * w, (h - 1) * w + (w - 1)]
         \<and> (\<forall>k \<in> set [0, w - 1, (h - 1) * w, (h - 1) * w + (w - 1)]. k < w * h)"
proof
  show "samplePositions w h = map (\<lambda>k. 4 * int k) [0, w - 1, (h - 1) * w, (h - 1) * w + (w - 1)]"
    using assms by (simp add: samplePositions_def of_nat_diff algebra_simps)
  have "(h - 1) * w + (w - 1) < w * h"
  proof -
    have "(h - 1) * w + w = h * w" using assms(2) by (cases h) simp_all
    moreover have "0 < h * w" using assms by simp
    ultimately show ?thesis using assms(1) by (simp add: mult.commute)
  qed
  then show "\<forall>k \<in> set [0, w - 1, (h - 1) * w, (h - 1) * w + (w - 1)]. k < w * h"
    using assms by auto
qed

lemma background_uniform:
  assumes "0 < w" and "0 < h"
  shows "background_colour (concat (replicate (w * h) [r, g, b, a])) w h = Some (uint r, uint g, uint b)"
proof -
  let ?d = "concat (replicate (w * h) [r, g, b, a])"
  define ks where "ks = [0, w - 1, (h - 1) * w, (h - 1) * w + (w - 1)]"
  have ks: "samplePositions w h = map (\<lambda>k. 4 * int k) ks" "length ks = 4" "\<forall>k \<in> set ks. k < w * h"
    using samplePositions_pixels [OF assms] unfolding ks_def by (blast, simp, blast)
  have len: "length ?d = 4 * (w * h)" by (simp add: length_concat sum_list_replicate)
  have px: "uint (?d ! (4 * k + j)) = uint ([r, g, b, a] ! j)" if "k < w * h" "j < 4" for k j
    using nth_concat_replicate4 [OF that, where r=r and g=g and b=b and a=a] by simp
  have "\<forall>idx \<in> set (samplePositions w h). 0 \<le> idx \<and> idx + 2 < int (length ?d)
          \<and> uint (?d ! nat idx) = uint r \<and> uint (?d ! nat (idx + 1)) = uint g \<and> uint (?d ! nat (idx + 2)) = uint b"
  proof
    fix idx assume "idx \<in> set (samplePositions w h)"
    then obtain k where k: "k < w * h" "idx = 4 * int k" using ks by auto
    have "int k < int (w * h)" using k(1) by (simp only: of_nat_less_iff)
    then have "4 * int k + 2 < 4 * int (w * h)" by linarith
    then have bound: "idx + 2 < int (length ?d)" using k(2) len by simp
    have "nat (idx + 1) = 4 * k + 1" "nat (idx + 2) = 4 * k + 2" "nat idx = 4 * k + 0" using k(2) by simp_all
    then show "0 \<le> idx \<and> idx + 2 < int (length ?d)
          \<and> uint (?d ! nat idx) = uint r \<and> uint (?d ! nat (idx + 1)) = uint g \<and> uint (?d ! nat (idx + 2)) = uint b"
      using k(2) bound px [OF k(1), of 0] px [OF k(1), of 1] px [OF k(1), of 2] by simp
  qed
  then have "sample_corners ?d (samplePositions w h) = (4 * uint r, 4 * uint g, 4 * uint b, 4)"
    using sample_uniform [of "samplePositions w h" ?d "uint r" "uint g" "uint b" 0 0 0 0] ks(1,2)
    by (simp add: sample_corners_def)
  then show ?thesis by (simp add: background_colour_def del: of_int_uint)
qed

lemma map_pixels_replicate:
  "map_pixels f (concat (replicate n [r, g, b, a])) = concat (replicate n [r, g, b, f r g b a])"
  by (induction n) simp_all

lemma map_pixels_alpha_only:
  assumes "\<And>r g b a. uint (f r g b a) \<le> uint a" and "k < length xs"
  shows "(k mod 4 \<noteq> 3 \<longrightarrow> map_pixels f xs ! k = xs ! k) \<and> uint (map_pixels f xs ! k) \<le> uint (xs ! k)"
proof (cases "k < 4 * (length xs div 4)")
  case False then show ?thesis using map_pixels_tail [of xs k f] by simp
next
  case True
  define p j where "p = k div 4" and "j = k mod 4"
  have k: "k = 4 * p + j" and j: "j < 4" by (simp_all add: p_def j_def)
  have "4 * p < 4 * (length xs div 4)" using True k by linarith
  then have "4 * p + 4 \<le> 4 * (length xs div 4)" by simp
  moreover have "4 * (length xs div 4) \<le> length xs" by simp
  ultimately have "4 * p + 3 < length xs" by linarith
  then have eq: "map_pixels f xs ! k =
      (if j = 3 then f (xs ! (4 * p)) (xs ! (4 * p + 1)) (xs ! (4 * p + 2)) (xs ! k) else xs ! k)"
    using map_pixels_pixel [OF _ j, of p xs f] k by simp
  show ?thesis
  proof (cases "j = 3")
    case True
    then have "k mod 4 = 3" by (simp add: j_def)
    moreover have "uint (map_pixels f xs ! k) \<le> uint (xs ! k)" using eq True assms(1) by simp
    ultimately show ?thesis by simp
  next
    case False
    then have "k mod 4 \<noteq> 3" by (simp add: j_def)
    then show ?thesis using eq False by simp
  qed
qed

lemma clean_image_data_map_pixels:
  "clean_image_data data w h =
     (case background_colour data w h of None \<Rightarrow> data | Some bg \<Rightarrow> map_pixels (pixel_alpha bg) data)"
  using bg_pass_eq_map_pixels [of _ 0 data] by (simp add: clean_image_data_def split: option.split)

lemma composite_ops_run:
  assumes "0 \<le> pos_width p"
  shows "foldl exec_op c (composite_ops W H clean p) =
    c\<lparr>cv_width := W, cv_height := H, cv_state := default_draw_state, cv_stack := [],
      cv_log := [Cleared (0, 0, real W, real H),
                 Drawn \<lparr>dc_source = UserPhoto, dc_rect = (0, 0, real W, real H), dc_state = default_draw_state\<rparr>,
                 Drawn \<lparr>dc_source = CleanOverlay clean,
                        dc_rect = (- pos_width p / 2, - pos_height p / 2, pos_width p, pos_height p),
                        dc_state = (shadow_state p)\<lparr>ds_globalAlpha := 0.92\<rparr>\<rparr>,
                 Drawn \<lparr>dc_source = CleanOverlay clean,
                        dc_rect = (- pos_width p / 2, - pos_height p / 2, pos_width p, pos_height p),
                        dc_state = (shadow_state p)\<lparr>ds_globalAlpha := 0.08, ds_compositeOp := ''multiply''\<rparr>\<rparr>]\<rparr>"
  using assms
  by (simp add: composite_ops_def photo_ops_def overlay_ops_def map_state_def shadow_state_def
      overlay_transform_def default_draw_state_def composite_operations_def)

lemma photo_ops_run:
  "foldl exec_op c (photo_ops W H) =
    c\<lparr>cv_width := W, cv_height := H, cv_state := default_draw_state, cv_stack := [],
      cv_log := [Cleared (0, 0, real W, real H),
                 Drawn \<lparr>dc_source = UserPhoto, dc_rect = (0, 0, real W, real H), dc_state = default_draw_state\<rparr>]\<rparr>"
  by (simp add: photo_ops_def)

lemma overlay_transform_apply:
  "apply_affine (overlay_transform p) (u, v) =
     (pos_x p + pos_width p / 2 + u * cos (pos_angle p) - v * sin (pos_angle p),
      pos_y p + pos_height p / 2 + u * sin (pos_angle p) + v * cos (pos_angle p))"
  by (simp add: overlay_transform_def apply_affine_def rotate_affine_def translate_affine_def
      identity_affine_def algebra_simps)

lemma demo_overlay_background: "background_colour demo_overlay 3 3 = Some (255, 255, 255)"
  by (simp add: background_colour_def sample_corners_def sample_step_def samplePositions_def demo_overlay_def
      white_px_def near_white_px_def black_px_def)

lemma demo_overlay_facts: "length demo_overlay = 36" "demo_overlay ! 16 = 0" "demo_overlay ! 0 = 255"
  "demo_overlay ! 17 = 0" "demo_overlay ! 18 = 0" "demo_overlay ! 19 = 255"
  by (simp_all add: demo_overlay_def white_px_def near_white_px_def black_px_def)

lemma sqrt_5625: "sqrt 5625 = (75::real)"
  by (rule real_sqrt_unique) simp_all

subsection \<open>Properties of the compositor\<close>

text \<open>C11: The in-place pixel loop of removeBackground, stepping by four bytes and writing the alpha byte, computes the same buffer as the reference that maps the alpha function over the whole pixels.\<close>

theorem remove_background_loop_is_per_pixel:
  "bg_pass bg 0 data = map_pixels (pixel_alpha bg) data"
  using bg_pass_eq_map_pixels [of bg 0 data] by simp

text \<open>C14: The pixel work of removeBackground keeps the length of the buffer and every red, green and blue byte, and never raises an alpha byte.\<close>

theorem remove_background_only_lowers_alpha:
  "length (clean_image_data data w h) = length data
   \<and> (\<forall>k < length data. (k mod 4 \<noteq> 3 \<longrightarrow> clean_image_data data w h ! k = data ! k)
                       \<and> uint (clean_image_data data w h ! k) \<le> uint (data ! k))"
proof (cases "background_colour data w h")
  case None then show ?thesis by (simp add: clean_image_data_map_pixels)
next
  case (Some bg)
  then show ?thesis
    using map_pixels_alpha_only [of "pixel_alpha bg", OF pixel_alpha_le]
    by (simp add: clean_image_data_map_pixels)
qed

theorem remove_background_only_lowers_alpha_witness:
  "length (clean_image_data demo_overlay 3 3) = 36
   \<and> clean_image_data demo_overlay 3 3 ! 16 = 0 \<and> clean_image_data demo_overlay 3 3 ! 0 = 255"
proof -
  note c = remove_background_only_lowers_alpha [of demo_overlay 3 3]
  have "clean_image_data demo_overlay 3 3 ! 16 = demo_overlay ! 16"
    using c [THEN conjunct2, rule_format, of 16] demo_overlay_facts(1) by simp
  moreover have "clean_image_data demo_overlay 3 3 ! 0 = demo_overlay ! 0"
    using c [THEN conjunct2, rule_format, of 0] demo_overlay_facts(1) by simp
  ultimately show ?thesis using c demo_overlay_facts by simp
qed

text \<open>C12: A product image of one solid colour (with its corners of that colour) becomes fully transparent: every alpha byte is 0 and every colour byte is kept.\<close>

theorem solid_colour_becomes_transparent:
  assumes "0 < w" and "0 < h"
  shows "removeBackground \<lparr>naturalWidth = w, img_width = iw, naturalHeight = h, img_height = ih\<rparr>
           (concat (replicate (w * h) [r, g, b, a]))
         = Inr (concat (replicate (w * h) [r, g, b, 0]))"
  using background_uniform [OF assms, of r g b a] assms
  by (simp add: removeBackground_def js_or_nat_def clean_image_data_map_pixels map_pixels_replicate
      pixel_alpha_own_colour)

theorem solid_colour_becomes_transparent_witness:
  "0 < (2::nat) \<and> 0 < (1::nat)
   \<and> removeBackground \<lparr>naturalWidth = 2, img_width = 0, naturalHeight = 1, img_height = 0\<rparr>
        (concat (replicate 2 [10, 20, 30, 255])) = Inr (concat (replicate 2 [10, 20, 30, 0]))"
  using solid_colour_becomes_transparent [of 2 1 0 0 10 20 30 255] by simp

text \<open>A pixel whose colour is at distance at least threshold + edgeFade = 90 from the sampled background keeps its alpha.\<close>

theorem distant_subject_keeps_alpha:
  assumes "background_colour data w h = Some bg" and "4 * p + 3 < length data"
    and "8100 \<le> dist2 bg (data ! (4 * p)) (data ! (4 * p + 1)) (data ! (4 * p + 2))"
  shows "clean_image_data data w h ! (4 * p + 3) = data ! (4 * p + 3)"
  using map_pixels_pixel [OF assms(2), of 3 "pixel_alpha bg"] pixel_alpha_far [OF assms(3)] assms(1)
  by (simp add: clean_image_data_map_pixels)

theorem distant_subject_keeps_alpha_witness:
  "background_colour demo_overlay 3 3 = Some (255, 255, 255) \<and> 4 * 4 + 3 < length demo_overlay
   \<and> 8100 \<le> dist2 (255, 255, 255) (demo_overlay ! 16) (demo_overlay ! 17) (demo_overlay ! 18)
   \<and> clean_image_data demo_overlay 3 3 ! 19 = 255"
  using distant_subject_keeps_alpha [OF demo_overlay_background, of 4]
  by (simp add: demo_overlay_background demo_overlay_facts dist2_def)

text \<open>C32: In the feather band, a pixel at distance d from the background with 60 <= d < 90 gets alpha min(a, round(255 (d - 60) / 30)); the clamped write never changes that value.\<close>

theorem feather_band:
  assumes "3600 \<le> dist2 bg r g b" and "dist2 bg r g b < 8100"
  shows "uint (pixel_alpha bg r g b a) = min (uint a) (round (255 * (sqrt (real_of_int (dist2 bg r g b)) - 60) / 30))"
proof -
  let ?d = "sqrt (real_of_int (dist2 bg r g b))"
  have lo: "\<not> ?d < 60" using sqrt_dist_less [of 60 bg r g b] assms(1) by simp
  have hi: "?d < 90" using sqrt_dist_less [of 90 bg r g b] assms(2) by simp
  have "0 \<le> round ((?d - 60) / 30 * 255)" using lo by (intro feather_nonneg) simp
  moreover have "round ((?d - 60) / 30 * 255) \<le> 255" using hi by (rule feather_le)
  moreover have eq: "255 * (?d - 60) / 30 = (?d - 60) / 30 * 255" by simp
  ultimately show ?thesis unfolding eq using lo hi uint_u8_bound [of a]
    by (simp add: pixel_alpha_def Let_def threshold_def edgeFade_def uint_clamp_u8 del: times_divide_eq_left)
qed

theorem feather_band_witness:
  "3600 \<le> dist2 (255, 255, 255) 180 255 255 \<and> dist2 (255, 255, 255) 180 255 255 < 8100
   \<and> uint (pixel_alpha (255, 255, 255) 180 255 255 255) = 128"
  using feather_band [of "(255, 255, 255)" 180 255 255 255]
  by (simp add: dist2_def sqrt_5625 round_def)

text \<open>C15: compositeImage sizes the canvas to the photo, clears it, draws the photo over the whole canvas with the default state, and then draws the background-stripped overlay twice in the rectangle of the position about the origin: at alpha 0.92 with the shadow, and at alpha 0.08 with multiply blending and the same shadow.\<close>

theorem composite_draw_sequence:
  assumes "0 \<le> pos_width p"
  shows "cv_log (enc_canvas (compositeImage canvas userImg overlayImg overlayData p)) =
     [Cleared (0, 0, real (js_or_nat (naturalWidth userImg) (img_width userImg)),
                     real (js_or_nat (naturalHeight userImg) (img_height userImg))),
      Drawn \<lparr>dc_source = UserPhoto,
             dc_rect = (0, 0, real (js_or_nat (naturalWidth userImg) (img_width userImg)),
                              real (js_or_nat (naturalHeight userImg) (img_height userImg))),
             dc_state = default_draw_state\<rparr>]
     @ (if js_or_nat (naturalWidth overlayImg) (img_width overlayImg) = 0
           \<or> js_or_nat (naturalHeight overlayImg) (img_height overlayImg) = 0 then []
        else
     [Drawn \<lparr>dc_source = CleanOverlay (clean_image_data overlayData
                (js_or_nat (naturalWidth overlayImg) (img_width overlayImg))
                (js_or_nat (naturalHeight overlayImg) (img_height overlayImg))),
             dc_rect = (- pos_width p / 2, - pos_height p / 2, pos_width p, pos_height p),
             dc_state = (shadow_state p)\<lparr>ds_globalAlpha := 0.92\<rparr>\<rparr>,
      Drawn \<lparr>dc_source = CleanOverlay (clean_image_data overlayData
                (js_or_nat (naturalWidth overlayImg) (img_width overlayImg))
                (js_or_nat (naturalHeight overlayImg) (img_height overlayImg))),
             dc_rect = (- pos_width p / 2, - pos_height p / 2, pos_width p, pos_height p),
             dc_state = (shadow_state p)\<lparr>ds_globalAlpha := 0.08, ds_compositeOp := ''multiply''\<rparr>\<rparr>])
   \<and> enc_outcome (compositeImage canvas userImg overlayImg overlayData p)
       = (if js_or_nat (naturalWidth overlayImg) (img_width overlayImg) = 0
             \<or> js_or_nat (naturalHeight overlayImg) (img_height overlayImg) = 0
          then Inl ''IndexSizeError'' else Inr (''image/jpeg'', 0.92))"
  using composite_ops_run [OF assms]
  by (simp add: compositeImage_def Let_def removeBackground_def photo_ops_run)

theorem composite_draw_sequence_witness:
  "0 \<le> pos_width demo_position
   \<and> length (cv_log (enc_canvas (compositeImage demo_canvas demo_image demo_image demo_overlay demo_position))) = 4"
  using composite_draw_sequence [of demo_position demo_canvas demo_image demo_image demo_overlay]
  by (simp add: demo_position_def demo_image_def js_or_nat_def)

text \<open>C16: Each overlay pass maps the point (u, v) of its destination rectangle, measured from the rectangle's corner, to the centre of the position plus (u - w/2, v - h/2) rotated by the angle; at angle 0 the overlay covers exactly the position rectangle.\<close>

theorem overlay_drawn_at_position:
  assumes "0 \<le> pos_width p"
    and "Drawn c \<in> set (cv_log (enc_canvas (compositeImage canvas userImg overlayImg overlayData p)))"
    and "dc_source c \<noteq> UserPhoto"
  shows "apply_affine (ds_transform (dc_state c)) (fst (dc_rect c) + u, fst (snd (dc_rect c)) + v) =
           (pos_x p + pos_width p / 2 + (u - pos_width p / 2) * cos (pos_angle p) - (v - pos_height p / 2) * sin (pos_angle p),
            pos_y p + pos_height p / 2 + (u - pos_width p / 2) * sin (pos_angle p) + (v - pos_height p / 2) * cos (pos_angle p))
         \<and> snd (snd (dc_rect c)) = (pos_width p, pos_height p)"
proof -
  have "ds_transform (dc_state c) = overlay_transform p \<and>
        dc_rect c = (- pos_width p / 2, - pos_height p / 2, pos_width p, pos_height p)"
    using assms composite_ops_run [OF assms(1)]
    by (auto simp: compositeImage_def Let_def shadow_state_def photo_ops_run removeBackground_def
             split: if_splits)
  then show ?thesis by (simp add: overlay_transform_apply algebra_simps)
qed

theorem overlay_drawn_at_position_witness:
  "0 \<le> pos_width demo_position
   \<and> apply_affine (overlay_transform demo_position) (- 72, - 32.4) = (58, 167.6)"
proof -
  let ?c = "\<lparr>dc_source = CleanOverlay (clean_image_data demo_overlay 3 3),
             dc_rect = (- pos_width demo_position / 2, - pos_height demo_position / 2,
                        pos_width demo_position, pos_height demo_position),
             dc_state = (shadow_state demo_position)\<lparr>ds_globalAlpha := 0.92\<rparr>\<rparr>"
  have w: "0 \<le> pos_width demo_position" by (simp add: demo_position_def)
  have "Drawn ?c \<in> set (cv_log (enc_canvas (compositeImage demo_canvas demo_image demo_image demo_overlay demo_position)))"
    by (simp add: composite_ops_run [OF w] compositeImage_def demo_image_def js_or_nat_def Let_def
        removeBackground_def)
  from overlay_drawn_at_position [OF w this, of 0 0] show ?thesis
    by (simp add: demo_position_def shadow_state_def)
qed

text \<open>C17: After compositeImage the context is back in its default state, with an empty save stack, and the canvas has the photo's size: the save/restore pair is balanced, and no transform, alpha, shadow or blending leaks into later drawing.\<close>

theorem context_restored:
  "cv_state (enc_canvas (compositeImage canvas userImg overlayImg overlayData p)) = default_draw_state
   \<and> cv_stack (enc_canvas (compositeImage canvas userImg overlayImg overlayData p)) = []
   \<and> cv_width (enc_canvas (compositeImage canvas userImg overlayImg overlayData p))
       = js_or_nat (naturalWidth userImg) (img_width userImg)
   \<and> cv_height (enc_canvas (compositeImage canvas userImg overlayImg overlayData p))
       = js_or_nat (naturalHeight userImg) (img_height userImg)"
  by (cases "0 \<le> pos_width p")
     (simp_all add: compositeImage_def Let_def removeBackground_def composite_ops_def photo_ops_def
        overlay_ops_def map_state_def composite_operations_def)

end
