(* ===== verification/Preprocessor.thy ===== *)
theory Preprocessor
  imports TryOn_Prelude
begin

text \<open>
  The image preprocessor \<open>compressImage\<close> of \<^verbatim>\<open>src/src/lib/imageUtils.ts\<close>: the
  image element's load as an event (its decoded size, or an error), the scaling of lines
  13-20, and the canvas it encodes as a JPEG data URL. No page of the sources calls it.
\<close>

datatype image_load = ImageLoaded nat nat | ImageError

text \<open>
  The scale factor of line 17 in JavaScript numbers: \<open>maxDimension / 0\<close> is
  \<open>Infinity\<close>, which \<open>Math.min\<close> passes over. Both sides cannot be 0 here, as one of
  them exceeds \<open>maxDimension\<close>.
\<close>

definition scale_ratio :: "nat \<Rightarrow> nat \<Rightarrow> nat \<Rightarrow> real" where
  "scale_ratio maxDimension width height =
     (if width = 0 then real maxDimension / real height
      else if height = 0 then real maxDimension / real width
      else min (real maxDimension / real width) (real maxDimension / real height))"

text \<open>Lines 13-20: the size of the output canvas.\<close>

definition scaled_size :: "nat \<Rightarrow> nat \<Rightarrow> nat \<Rightarrow> nat \<times> nat" where
  "scaled_size maxDimension width height =
     (if maxDimension < width \<or> maxDimension < height then
        (let ratio = scale_ratio maxDimension width height
         in (nat (round (real width * ratio)), nat (round (real height * ratio))))
      else (width, height))"

text \<open>
  The encoded output: \<open>toDataURL\<close> of a canvas with a zero side is \<open>"data:,"\<close>;
  otherwise a JPEG of the canvas's size at the given quality.
\<close>

datatype data_url = EmptyDataUrl | JpegDataUrl nat nat real

definition compressImage :: "nat \<Rightarrow> real \<Rightarrow> image_load \<Rightarrow> string + data_url" where
  "compressImage maxDimension quality load =
     (case load of
        ImageError \<Rightarrow> Inl ''Failed to load image for compression''
      | ImageLoaded width height \<Rightarrow>
          (case scaled_size maxDimension width height of
             (w, h) \<Rightarrow> Inr (if w = 0 \<or> h = 0 then EmptyDataUrl else JpegDataUrl w h quality)))"

subsection \<open>Lemmas\<close>

lemma scale_ratio_longest:
  assumes "m < max w h"
  shows "scale_ratio m w h = real m / real (max w h)"
proof -
  consider "w = 0" | "h = 0" | "0 < w" "0 < h" by blast
  then show ?thesis
  proof cases
    case 1 then show ?thesis by (simp add: scale_ratio_def)
  next
    case 2 then show ?thesis using assms by (simp add: scale_ratio_def)
  next
    case 3
    show ?thesis
    proof (cases "w \<le> h")
      case True
      have "real m / real h \<le> real m / real w" using 3 True by (intro divide_left_mono) simp_all
      then show ?thesis using 3 True by (simp add: scale_ratio_def max_def min_def)
    next
      case False
      have "real m / real w \<le> real m / real h" using 3 False by (intro divide_left_mono) simp_all
      then show ?thesis using 3 False by (simp add: scale_ratio_def max_def min_def)
    qed
  qed
qed

lemma scaled_side_le:
  assumes "s \<le> M" and "0 < M"
  shows "nat (round (real s * (real m / real M))) \<le> m"
proof -
  have "real s * real m \<le> real M * real m" using assms(1) by (intro mult_right_mono) simp_all
  then have "real s * (real m / real M) \<le> real m"
    using assms(2) by (simp add: divide_le_eq mult.commute)
  then have "round (real s * (real m / real M)) \<le> int m" by (intro round_le_of_int) simp
  then show ?thesis by simp
qed

lemma compress_default_example:
  "compressImage 768 0.7 (ImageLoaded 4000 3000) = Inr (JpegDataUrl 768 576 0.7)"
  by (simp add: compressImage_def scaled_size_def scale_ratio_def round_def)

subsection \<open>Properties of the preprocessor\<close>

text \<open>C29: The longest side of the output is the longest side of the input capped at maxDimension: exactly maxDimension when the input exceeds it (the spec allows one pixel of rounding), unchanged otherwise.\<close>

theorem longest_side_capped:
  "max (fst (scaled_size m w h)) (snd (scaled_size m w h)) = min m (max w h)"
proof (cases "m < max w h")
  case False then show ?thesis by (auto simp: scaled_size_def)
next
  case True
  let ?M = "max w h"
  have M: "0 < ?M" using True by simp
  have r: "scale_ratio m w h = real m / real ?M" using scale_ratio_longest [OF True] .
  have M': "real ?M \<noteq> 0" using M by linarith
  have long: "real ?M * (real m / real ?M) = real m" using M' by (rule times_divide_eq_right [THEN trans, OF nonzero_mult_div_cancel_left])
  have "nat (round (real w * (real m / real ?M))) \<le> m" "nat (round (real h * (real m / real ?M))) \<le> m"
    using scaled_side_le [OF _ M] by simp_all
  moreover have "nat (round (real w * (real m / real ?M))) = m \<or> nat (round (real h * (real m / real ?M))) = m"
    using long M by (cases "w \<le> h") (auto simp: max_def)
  moreover have "\<not> (w = 0 \<and> h = 0)" using M by auto
  ultimately show ?thesis using True by (auto simp: scaled_size_def r Let_def max_def)
qed

text \<open>When the image is scaled, each output side is the input side times maxDimension / longest side, rounded to the nearest pixel: the aspect ratio is kept within half a pixel per side.\<close>

theorem aspect_ratio_kept:
  assumes "m < max w h"
  shows "\<bar>real (fst (scaled_size m w h)) - real w * real m / real (max w h)\<bar> \<le> 1 / 2
       \<and> \<bar>real (snd (scaled_size m w h)) - real h * real m / real (max w h)\<bar> \<le> 1 / 2"
proof -
  have r: "scale_ratio m w h = real m / real (max w h)" using scale_ratio_longest [OF assms] .
  have nn: "0 \<le> round (real w * (real m / real (max w h)))" "0 \<le> round (real h * (real m / real (max w h)))"
    by (simp_all add: round_nonneg)
  have c: "m < w \<or> m < h" using assms by (simp add: less_max_iff_disj)
  show ?thesis using c nn round_error [of "real w * (real m / real (max w h))"]
      round_error [of "real h * (real m / real (max w h))"]
    by (simp add: scaled_size_def r Let_def)
qed

theorem aspect_ratio_kept_witness:
  "768 < max (4000::nat) 3000 \<and> scaled_size 768 4000 3000 = (768, 576)
   \<and> \<bar>real (fst (scaled_size 768 4000 3000)) - real (4000::nat) * real (768::nat) / real (max (4000::nat) 3000)\<bar> \<le> 1 / 2"
  using aspect_ratio_kept [of 768 4000 3000] by (simp add: scaled_size_def scale_ratio_def round_def)

text \<open>An image whose longest side is within maxDimension passes through with its size unchanged.\<close>

theorem small_image_unchanged:
  "max w h \<le> m \<Longrightarrow> scaled_size m w h = (w, h)"
  by (simp add: scaled_size_def)

theorem small_image_unchanged_witness:
  "max (640::nat) 480 \<le> 768 \<and> scaled_size 768 640 480 = (640, 480)"
  using small_image_unchanged [of 640 480 768] by simp

text \<open>compressImage fails exactly when the image cannot be decoded, with the message "Failed to load image for compression"; a decoded image always gives a data URL.\<close>

theorem compress_fails_iff_undecodable:
  "compressImage m q load = Inl e \<longleftrightarrow> load = ImageError \<and> e = ''Failed to load image for compression''"
  by (cases load) (auto simp: compressImage_def split: prod.split)

end
