(* ===== verification/FaceModels.thy ===== *)
theory FaceModels
  imports TryOn_Prelude
begin

text \<open>
  \<open>loadFaceModels\<close> (\<^verbatim>\<open>src/src/lib/tryOnEngine.ts\<close>, lines 3-13): a module flag
  \<open>modelsLoaded\<close> and an asynchronous function that, when the flag is false, starts the
  two network loads of the face-api.js nets, awaits both, and sets the flag. Calls
  interleave at the \<open>await\<close>: a call is an event that starts it, and the settling of its
  \<open>Promise.all\<close> is another.
\<close>

record loader_state =
  modelsLoaded :: bool
  loads_started :: nat
  awaiting :: "nat list"
  resolved :: "nat list"
  rejected :: "nat list"

datatype loader_event = Call nat | LoadsResolved nat | LoadsRejected nat

text \<open>Lines 6-11 up to the \<open>await\<close>: a call returns at once, or starts both loads.\<close>

definition call_loadFaceModels :: "nat \<Rightarrow> loader_state \<Rightarrow> loader_state" where
  "call_loadFaceModels k s =
     (if modelsLoaded s then s\<lparr>resolved := resolved s @ [k]\<rparr>
      else s\<lparr>loads_started := loads_started s + 2, awaiting := awaiting s @ [k]\<rparr>)"

text \<open>Line 12 after the \<open>await\<close>, or the rejection of \<open>Promise.all\<close>.\<close>

definition loader_step :: "loader_state \<Rightarrow> loader_event \<Rightarrow> loader_state" where
  "loader_step s e =
     (case e of
        Call k \<Rightarrow> call_loadFaceModels k s
      | LoadsResolved k \<Rightarrow>
          (if k \<in> set (awaiting s)
           then s\<lparr>modelsLoaded := True, awaiting := removeAll k (awaiting s), resolved := resolved s @ [k]\<rparr>
           else s)
      | LoadsRejected k \<Rightarrow>
          (if k \<in> set (awaiting s)
           then s\<lparr>awaiting := removeAll k (awaiting s), rejected := rejected s @ [k]\<rparr>
           else s))"

definition initial_loader :: loader_state where
  "initial_loader = \<lparr>modelsLoaded = False, loads_started = 0, awaiting = [], resolved = [], rejected = []\<rparr>"

definition run_loader :: "loader_event list \<Rightarrow> loader_state" where
  "run_loader es = foldl loader_step initial_loader es"

subsection \<open>Lemmas\<close>

lemma loader_step_loaded:
  "modelsLoaded s \<Longrightarrow> modelsLoaded (loader_step s e) \<and> loads_started (loader_step s e) = loads_started s"
  by (simp add: loader_step_def call_loadFaceModels_def split: loader_event.split)

lemma run_loader_append: "run_loader (es @ later) = foldl loader_step (run_loader es) later"
  by (simp add: run_loader_def)

lemma calls_before_load:
  "\<not> modelsLoaded s \<Longrightarrow>
     foldl loader_step s (map Call ks) =
       s\<lparr>loads_started := loads_started s + 2 * length ks, awaiting := awaiting s @ ks\<rparr>"
  by (induction ks arbitrary: s) (simp_all add: loader_step_def call_loadFaceModels_def)

subsection \<open>Properties of the loader\<close>

text \<open>Once a load has completed, no later call of loadFaceModels, in any interleaving, starts another load, and the flag stays set.\<close>

theorem no_load_after_models_loaded:
  assumes "modelsLoaded (run_loader es)"
  shows "modelsLoaded (run_loader (es @ later)) \<and> loads_started (run_loader (es @ later)) = loads_started (run_loader es)"
  unfolding run_loader_append using assms
proof (induction later arbitrary: es rule: rev_induct)
  case Nil then show ?case by simp
next
  case (snoc e later)
  then show ?case using loader_step_loaded by simp
qed

theorem no_load_after_models_loaded_witness:
  "modelsLoaded (run_loader [Call 0, LoadsResolved 0])
   \<and> loads_started (run_loader ([Call 0, LoadsResolved 0] @ [Call 1, Call 2])) = 2"
  using no_load_after_models_loaded [of "[Call 0, LoadsResolved 0]" "[Call 1, Call 2]"]
  by (simp add: run_loader_def loader_step_def call_loadFaceModels_def initial_loader_def)

text \<open>C33: Calls made before any load completes each start both network loads: n concurrent callers start 2n loads and all wait; they do not share one load.\<close>

theorem concurrent_calls_each_load:
  "loads_started (run_loader (map Call ks)) = 2 * length ks
   \<and> awaiting (run_loader (map Call ks)) = ks \<and> \<not> modelsLoaded (run_loader (map Call ks))"
  using calls_before_load [of initial_loader ks] by (simp add: run_loader_def initial_loader_def)

text \<open>A rejected load leaves the flag unset, so the next call starts both loads again.\<close>

theorem rejected_load_retried:
  "\<not> modelsLoaded (run_loader es) \<Longrightarrow> k \<in> set (awaiting (run_loader es)) \<Longrightarrow>
     loads_started (run_loader (es @ [LoadsRejected k, Call j])) = loads_started (run_loader es) + 2"
  by (simp add: run_loader_append loader_step_def call_loadFaceModels_def)

theorem rejected_load_retried_witness:
  "\<not> modelsLoaded (run_loader [Call 0]) \<and> 0 \<in> set (awaiting (run_loader [Call 0]))
   \<and> loads_started (run_loader ([Call 0] @ [LoadsRejected 0, Call 1])) = 4"
  using rejected_load_retried [of "[Call 0]" 0 1]
  by (simp add: run_loader_def loader_step_def call_loadFaceModels_def initial_loader_def)

end
