(* ===== verification/Storefront.thy ===== *)
theory Storefront
  imports TryOnSession
begin

text \<open>
  The links between the pages and the way each page reads its product from the URL: the
  query of \<open>/try-on?product=<id>\<close> read by \<^verbatim>\<open>pages/TryOn.tsx\<close> with
  \<open>URLSearchParams.get\<close>, and the route parameter of \<open>/product/<id>\<close> read by
  \<^verbatim>\<open>pages/ProductDetail.tsx\<close> with \<open>useParams\<close>. Percent-decoding is modelled on
  8-bit characters: a \<open>%XX\<close> escape gives the character with that code.
\<close>

section \<open>URLs\<close>

definition hex_val :: "char \<Rightarrow> nat option" where
  "hex_val c =
     (let n = (of_char c :: nat)
      in if 48 \<le> n \<and> n \<le> 57 then Some (n - 48)
         else if 97 \<le> n \<and> n \<le> 102 then Some (n - 87)
         else if 65 \<le> n \<and> n \<le> 70 then Some (n - 55)
         else None)"

text \<open>Percent-decoding (the URL standard): an invalid escape is kept as it is.\<close>

fun pct_decode :: "string \<Rightarrow> string" where
  "pct_decode (c # a # b # rest) =
     (if c = CHR ''%'' then
        (case (hex_val a, hex_val b) of
           (Some x, Some y) \<Rightarrow> char_of (16 * x + y) # pct_decode rest
         | _ \<Rightarrow> c # pct_decode (a # b # rest))
      else c # pct_decode (a # b # rest))"
| "pct_decode cs = cs"

text \<open>\<open>application/x-www-form-urlencoded\<close> decoding: \<open>+\<close> is a space.\<close>

definition form_decode :: "string \<Rightarrow> string" where
  "form_decode s = pct_decode (map (\<lambda>c. if c = CHR ''+'' then CHR '' '' else c) s)"

fun split_on :: "char \<Rightarrow> string \<Rightarrow> string list" where
  "split_on d [] = [[]]"
| "split_on d (c # cs) = (if c = d then [] # split_on d cs else (case split_on d cs of w # ws \<Rightarrow> (c # w) # ws))"

definition query_pairs :: "string \<Rightarrow> (string \<times> string) list" where
  "query_pairs q =
     map (\<lambda>kv. (form_decode (takeWhile (\<lambda>c. c \<noteq> CHR ''='') kv),
                form_decode (drop 1 (dropWhile (\<lambda>c. c \<noteq> CHR ''='') kv))))
       (filter (\<lambda>kv. kv \<noteq> []) (split_on CHR ''&'' q))"

text \<open>
  \<open>new URLSearchParams(location.search).get(name)\<close>: \<open>location.search\<close> is the part of
  the URL from \<open>?\<close> to \<open>#\<close>; the leading \<open>?\<close> is dropped; the first pair with that
  name gives its value.
\<close>

definition location_search :: "string \<Rightarrow> string" where
  "location_search url = takeWhile (\<lambda>c. c \<noteq> CHR ''#'') (dropWhile (\<lambda>c. c \<noteq> CHR ''?'') url)"

definition search_param :: "string \<Rightarrow> string \<Rightarrow> string option" where
  "search_param url name =
     map_option snd (find (\<lambda>kv. fst kv = name) (query_pairs (drop 1 (location_search url))))"

text \<open>The route \<open>/product/:id\<close>: the segment after \<open>/product/\<close>, decoded.\<close>

definition product_route_id :: "string \<Rightarrow> string option" where
  "product_route_id path =
     (if take 9 path = ''/product/'' \<and> drop 9 path \<noteq> [] \<and> CHR ''/'' \<notin> set (drop 9 path)
      then Some (pct_decode (drop 9 path)) else None)"

text \<open>The links of the pages: \<open>`/try-on?product=${product.id}`\<close> and \<open>`/product/${p.id}`\<close>.\<close>

definition tryOnLink :: "product \<Rightarrow> string" where
  "tryOnLink p = ''/try-on?product='' @ prod_id p"

definition productLink :: "product \<Rightarrow> string" where
  "productLink p = ''/product/'' @ prod_id p"

text \<open>The try-on page opened at a URL: lines 22-26 of \<^verbatim>\<open>TryOn.tsx\<close>, then the first render.\<close>

definition open_tryon :: "string \<Rightarrow> page_state" where
  "open_tryon url = initial_page (search_param url ''product'')"

definition id_char :: "char \<Rightarrow> bool" where
  "id_char c \<longleftrightarrow> (97 \<le> (of_char c :: nat) \<and> (of_char c :: nat) \<le> 122) \<or> c = CHR ''-''"

section \<open>The products page\<close>

text \<open>The filter buttons (lines 9-14 of \<^verbatim>\<open>pages/Products.tsx\<close>): id and label.\<close>

definition categories :: "(string \<times> string) list" where
  "categories = [(''all'', ''All Products''), (''eyewear'', ''Eyewear''), (''watch'', ''Watches''),
                 (''clothing'', ''Clothing'')]"

text \<open>\<open>product.originalPrice && ...\<close>: shown when present and not 0.\<close>

definition shown_price :: "nat option \<Rightarrow> nat option" where
  "shown_price op = (case op of Some v \<Rightarrow> (if v \<noteq> 0 then Some v else None) | None \<Rightarrow> None)"

record product_card =
  card_detail_link :: string
  card_tryon_link :: string
  card_image :: string
  card_badge :: bool
  card_subcategory :: string
  card_name :: string
  card_price :: nat
  card_original :: "nat option"

text \<open>\<open>ProductCard\<close> (lines 72-139): its links, the try-on badge, name, category and prices.\<close>

definition product_card :: "product \<Rightarrow> product_card" where
  "product_card p =
     \<lparr>card_detail_link = productLink p, card_tryon_link = tryOnLink p, card_image = image p,
      card_badge = tryOnAvailable p, card_subcategory = subcategory p, card_name = prod_name p,
      card_price = price p, card_original = shown_price (originalPrice p)\<rparr>"

text \<open>The page for its state \<open>activeCategory\<close> (lines 16-70): the highlighted button and the grid.\<close>

definition products_page_view :: "string \<Rightarrow> (string \<times> bool) list \<times> product_card list" where
  "products_page_view activeCategory =
     (map (\<lambda>(cid, name). (name, activeCategory = cid)) categories,
      map product_card (filteredProducts activeCategory))"

text \<open>A click on a filter button; the first render has \<open>"all"\<close>.\<close>

definition select_category :: "string \<Rightarrow> string \<Rightarrow> string" where
  "select_category cid activeCategory = (if cid \<in> fst ` set categories then cid else activeCategory)"

section \<open>The product detail page\<close>

text \<open>
  \<^verbatim>\<open>pages/ProductDetail.tsx\<close>. Its state is the route's id and the two
  \<open>useState\<close> selections, initialised from the product when the component mounts. A
  link to another \<open>/product/:id\<close> keeps the same component mounted (the route element does
  not change), so only the id changes. The calls of \<open>addToCart\<close> and the toasts are
  recorded.
\<close>

record detail_state =
  route_id :: string
  selectedColor :: "string option"
  selectedSize :: "string option"
  cart_adds :: "(product \<times> string option \<times> string option) list"
  detail_toasts :: "string list"

text \<open>\<open>product?.colors?.[0]\<close>: \<open>undefined\<close> for a missing product, list or element.\<close>

definition first_option :: "string list option \<Rightarrow> string option" where
  "first_option xs = (case xs of Some (x # _) \<Rightarrow> Some x | _ \<Rightarrow> None)"

definition mount_detail :: "string \<Rightarrow> detail_state" where
  "mount_detail i =
     (let product = getProductById i
      in \<lparr>route_id = i,
          selectedColor = (case product of None \<Rightarrow> None | Some p \<Rightarrow> first_option (colors p)),
          selectedSize = (case product of None \<Rightarrow> None | Some p \<Rightarrow> first_option (sizes p)),
          cart_adds = [], detail_toasts = []\<rparr>)"

datatype detail_event = ChooseColor string | ChooseSize string | AddToCart | FollowProductLink string

text \<open>The handlers (lines 41-44, 138, 162) and the navigation to a related product.\<close>

definition detail_step :: "detail_state \<Rightarrow> detail_event \<Rightarrow> detail_state" where
  "detail_step s e =
     (case e of
        ChooseColor c \<Rightarrow> s\<lparr>selectedColor := Some c\<rparr>
      | ChooseSize z \<Rightarrow> s\<lparr>selectedSize := Some z\<rparr>
      | AddToCart \<Rightarrow>
          (case getProductById (route_id s) of
             None \<Rightarrow> s
           | Some product \<Rightarrow>
               s\<lparr>cart_adds := cart_adds s @ [(product, selectedColor s, selectedSize s)],
                 detail_toasts := detail_toasts s @ [prod_name product @ '' added to cart!'']\<rparr>)
      | FollowProductLink i \<Rightarrow> s\<lparr>route_id := i\<rparr>)"

text \<open>The buttons and links the page shows for a state (lines 22-39 and 129-248).\<close>

definition detail_offered :: "detail_state \<Rightarrow> detail_event \<Rightarrow> bool" where
  "detail_offered s e =
     (case getProductById (route_id s) of
        None \<Rightarrow> False
      | Some product \<Rightarrow>
          (case e of
             ChooseColor c \<Rightarrow> (case colors product of Some cs \<Rightarrow> c \<in> set cs | None \<Rightarrow> False)
           | ChooseSize z \<Rightarrow> (case sizes product of Some zs \<Rightarrow> z \<in> set zs | None \<Rightarrow> False)
           | AddToCart \<Rightarrow> True
           | FollowProductLink i \<Rightarrow> i \<in> set (map prod_id (relatedProducts product))))"

inductive detail_reachable :: "detail_state \<Rightarrow> bool" where
  mount: "detail_reachable (mount_detail i)"
| step: "detail_reachable s \<Longrightarrow> detail_offered s e \<Longrightarrow> detail_reachable (detail_step s e)"

text \<open>The sessions that stay on the product the page was opened with.\<close>

inductive detail_stays :: "detail_state \<Rightarrow> bool" where
  mount: "detail_stays (mount_detail i)"
| step: "detail_stays s \<Longrightarrow> detail_offered s e \<Longrightarrow> \<forall>i. e \<noteq> FollowProductLink i \<Longrightarrow> detail_stays (detail_step s e)"

text \<open>A selection is one of the product's options, or none when it has none.\<close>

definition option_valid :: "string option \<Rightarrow> string list option \<Rightarrow> bool" where
  "option_valid sel opts =
     (case sel of None \<Rightarrow> (case opts of None \<Rightarrow> True | Some xs \<Rightarrow> xs = []) | Some x \<Rightarrow>
        (case opts of None \<Rightarrow> False | Some xs \<Rightarrow> x \<in> set xs))"

definition selection_valid :: "detail_state \<Rightarrow> bool" where
  "selection_valid s =
     (case getProductById (route_id s) of
        None \<Rightarrow> True
      | Some p \<Rightarrow> option_valid (selectedColor s) (colors p) \<and> option_valid (selectedSize s) (sizes p))"

datatype detail_view =
    ProductNotFound
  | ProductShown product "nat option" "int option" "(string \<times> bool) list option" "(string \<times> bool) list option"
      "product_card list" string

text \<open>
  The page (lines 22-39 and 50-255): not found, or the product with its shown original price,
  the saving \<open>originalPrice - price\<close>, the colour and size buttons with the selected one
  highlighted, the related products and the try-on link.
\<close>

definition detail_view :: "detail_state \<Rightarrow> detail_view" where
  "detail_view s =
     (case getProductById (route_id s) of
        None \<Rightarrow> ProductNotFound
      | Some product \<Rightarrow>
          ProductShown product (shown_price (originalPrice product))
            (map_option (\<lambda>v. int v - int (price product)) (shown_price (originalPrice product)))
            (map_option (map (\<lambda>c. (c, selectedColor s = Some c))) (colors product))
            (map_option (map (\<lambda>z. (z, selectedSize s = Some z))) (sizes product))
            (map product_card (relatedProducts product))
            (tryOnLink product))"

subsection \<open>A session on the detail page\<close>

text \<open>
  The Classic Aviator page is opened, the related Round Vintage is followed, and Add to Cart
  is clicked.
\<close>

definition stale_session :: detail_state where
  "stale_session =
     detail_step (detail_step (mount_detail ''classic-aviator'') (FollowProductLink ''round-vintage'')) AddToCart"

subsection \<open>Lemmas\<close>

lemma products_id_chars: "\<forall>p \<in> set products. prod_id p \<noteq> [] \<and> list_all id_char (prod_id p)"
  by (simp add: products_def id_char_def)

lemma pct_decode_plain: "CHR ''%'' \<notin> set s \<Longrightarrow> pct_decode s = s"
  by (induction s rule: pct_decode.induct) auto

lemma split_on_no_sep: "d \<notin> set s \<Longrightarrow> split_on d s = [s]"
  by (induction s) auto

lemma id_char_plain:
  "list_all id_char s \<Longrightarrow> CHR ''%'' \<notin> set s \<and> CHR ''+'' \<notin> set s \<and> CHR ''&'' \<notin> set s
     \<and> CHR ''='' \<notin> set s \<and> CHR ''#'' \<notin> set s \<and> CHR ''/'' \<notin> set s \<and> CHR ''?'' \<notin> set s"
  by (auto simp: list_all_iff id_char_def)

lemma search_param_link:
  assumes "list_all id_char i"
  shows "search_param (''/try-on?product='' @ i) ''product'' = Some i"
proof -
  note c = id_char_plain [OF assms]
  have "location_search (''/try-on?product='' @ i) = ''?product='' @ i"
    using c by (auto simp: location_search_def)
  moreover have "split_on CHR ''&'' (''product='' @ i) = [''product='' @ i]"
    using c by (intro split_on_no_sep) simp
  moreover have "map (\<lambda>c. if c = CHR ''+'' then CHR '' '' else c) i = i"
    using c by (induction i) auto
  ultimately show ?thesis using c
    by (simp add: search_param_def query_pairs_def form_decode_def pct_decode_plain)
qed

lemma catalogue_lookup: "p \<in> set products \<Longrightarrow> getProductById (prod_id p) = Some p"
  unfolding getProductById_def using find_distinct_key [OF products_ids_distinct] by simp

lemma open_tryon_link: "p \<in> set products \<Longrightarrow> activeProduct (open_tryon (tryOnLink p)) = p"
proof -
  assume p: "p \<in> set products"
  then have "prod_id p \<noteq> [] \<and> list_all id_char (prod_id p)" using products_id_chars by blast
  then have "search_param (tryOnLink p) ''product'' = Some (prod_id p)"
    unfolding tryOnLink_def by (intro search_param_link) simp
  then show ?thesis using p \<open>prod_id p \<noteq> [] \<and> list_all id_char (prod_id p)\<close>
    by (simp add: open_tryon_def initial_page_def catalogue_lookup)
qed

lemma product_route_link:
  "p \<in> set products \<Longrightarrow> product_route_id (productLink p) = Some (prod_id p)"
proof -
  assume "p \<in> set products"
  then have "prod_id p \<noteq> [] \<and> list_all id_char (prod_id p)" using products_id_chars by blast
  then show ?thesis using id_char_plain [of "prod_id p"]
    by (simp add: product_route_id_def productLink_def pct_decode_plain)
qed

lemma first_option_valid: "option_valid (first_option xs) xs"
  by (cases xs rule: option.exhaust; case_tac "the xs") (auto simp: first_option_def option_valid_def)

text \<open>
  C28: every card of the products page links back to its product: the try-on link opens the
  try-on page on that product, and the detail link's route parameter looks that product up.
\<close>

theorem product_cards_link_back:
  assumes "c \<in> set (snd (products_page_view cat))"
  shows "\<exists>p \<in> set products. c = product_card p \<and> activeProduct (open_tryon (card_tryon_link c)) = p
           \<and> map_option getProductById (product_route_id (card_detail_link c)) = Some (Some p)"
proof -
  obtain p where p: "p \<in> set (filteredProducts cat)" "c = product_card p"
    using assms by (auto simp: products_page_view_def)
  then have "p \<in> set products" by (auto simp: filteredProducts_def split: if_splits)
  then show ?thesis using p(2) open_tryon_link product_route_link catalogue_lookup
    by (auto simp: product_card_def)
qed

text \<open>
  C23: while the detail page stays on the product it was opened with, the selected colour and
  size are always options of that product (none when it has none), whatever the user clicks.
\<close>

theorem selection_stays_valid: "detail_stays s \<Longrightarrow> selection_valid s"
proof (induction rule: detail_stays.induct)
  case (mount i)
  then show ?case
    by (cases "getProductById i") (simp_all add: mount_detail_def Let_def selection_valid_def first_option_valid)
next
  case (step s e)
  then show ?case
    by (cases e) (auto simp: detail_step_def detail_offered_def selection_valid_def option_valid_def
                   split: option.splits)
qed

lemma catalogue_prices: "\<forall>p \<in> set products. case originalPrice p of None \<Rightarrow> True | Some v \<Rightarrow> price p < v"
  by (simp add: products_def)

text \<open>
  The detail page of a catalogue product shows its price, the struck-through original price
  when there is one, and a saving that is always positive.
\<close>

theorem detail_savings_positive:
  assumes "p \<in> set products"
  shows "\<exists>save cs zs rel. detail_view (mount_detail (prod_id p))
            = ProductShown p (shown_price (originalPrice p)) save cs zs rel (tryOnLink p)
          \<and> (case save of None \<Rightarrow> True | Some d \<Rightarrow> 0 < d)"
proof -
  have "case originalPrice p of None \<Rightarrow> True | Some v \<Rightarrow> price p < v" using catalogue_prices assms by blast
  then show ?thesis using catalogue_lookup [OF assms]
    by (cases "originalPrice p") (auto simp: detail_view_def mount_detail_def shown_price_def Let_def)
qed

theorem detail_savings_positive_witness:
  "products ! 0 \<in> set products
   \<and> detail_view (mount_detail ''classic-aviator'') =
       ProductShown (products ! 0) (Some 199) (Some 50)
         (Some [(''Gold'', True), (''Silver'', False), (''Black'', False)]) None
         (map product_card (relatedProducts (products ! 0))) (tryOnLink (products ! 0))"
  using detail_savings_positive [of "products ! 0"]
  by (simp add: products_def getProductById_def detail_view_def mount_detail_def shown_price_def
      first_option_def Let_def)

lemma stale_session_steps:
  "getProductById ''classic-aviator'' = Some (products ! 0)"
  "getProductById ''round-vintage'' = Some (products ! 3)"
  "map prod_id (relatedProducts (products ! 0)) = [''round-vintage'', ''cat-eye-classic'', ''wayfarer-modern'']"
  "colors (products ! 0) = Some [''Gold'', ''Silver'', ''Black'']" "sizes (products ! 0) = None"
  by (simp_all add: products_def getProductById_def relatedProducts_def)

text \<open>
  C22: following a related-product link keeps the detail page mounted with the colour chosen
  for the previous product, so "Add to Cart" adds round-vintage in the colour Gold, which it
  does not come in.
\<close>

theorem stale_selection_after_related_link:
  "detail_reachable stale_session
   \<and> cart_adds stale_session = [(products ! 3, Some ''Gold'', None)]
   \<and> ''Gold'' \<notin> set (the (colors (products ! 3))) \<and> \<not> selection_valid stale_session"
proof -
  let ?s0 = "mount_detail ''classic-aviator''"
  let ?s1 = "detail_step ?s0 (FollowProductLink ''round-vintage'')"
  have c0: "selectedColor ?s0 = Some ''Gold''" "selectedSize ?s0 = None"
    by (simp add: mount_detail_def stale_session_steps Let_def, simp add: first_option_def)+
  have c0': "route_id ?s0 = ''classic-aviator''" "cart_adds ?s0 = []" by (simp_all add: mount_detail_def Let_def)
  have r1: "detail_reachable ?s1"
    using detail_reachable.step [OF detail_reachable.mount, of "''classic-aviator''" "FollowProductLink ''round-vintage''"]
    by (simp add: detail_offered_def c0 c0' stale_session_steps)
  have r2: "detail_reachable stale_session"
    unfolding stale_session_def
    by (rule detail_reachable.step [OF r1]) (simp add: detail_offered_def detail_step_def stale_session_steps c0 c0')
  have "cart_adds stale_session = [(products ! 3, Some ''Gold'', None)]"
    by (simp add: stale_session_def detail_step_def c0 c0' stale_session_steps)
  moreover have "''Gold'' \<notin> set (the (colors (products ! 3)))" by (simp add: products_def)
  moreover have "\<not> selection_valid stale_session"
    by (simp add: stale_session_def detail_step_def c0 c0' stale_session_steps selection_valid_def
        option_valid_def products_def)
  ultimately show ?thesis using r2 by simp
qed

lemma watch_page_second: "product_card (products ! 1) \<in> set (snd (products_page_view ''watch''))"
  by (simp add: products_page_view_def filteredProducts_def products_def category_name_def)

theorem product_cards_link_back_witness:
  "product_card (products ! 1) \<in> set (snd (products_page_view ''watch''))
   \<and> (\<exists>p \<in> set products. product_card (products ! 1) = product_card p
        \<and> activeProduct (open_tryon (card_tryon_link (product_card (products ! 1)))) = p)"
  using product_cards_link_back [OF watch_page_second] watch_page_second by blast

theorem selection_stays_valid_witness:
  "detail_stays (mount_detail ''classic-aviator'') \<and> selection_valid (mount_detail ''classic-aviator'')"
  using selection_stays_valid [OF detail_stays.mount] detail_stays.mount by blast

end
