(* ===== verification/CartPage.thy ===== *)
theory CartPage
  imports Catalog
begin

text \<open>
  The cart page \<^verbatim>\<open>src/src/pages/Cart.tsx\<close>: what it shows for the items of the cart and
  which cart operation each of its buttons requests. The cart itself lives in
  \<open>CartContext\<close>, which is not part of the sources; its item type and its
  \<open>totalItems\<close>/\<open>totalPrice\<close> are modelled as the page uses them. Amounts are printed by
  \<open>Number.prototype.toFixed(2)\<close>, modelled after the ECMAScript definition for values
  below \<open>10\<^sup>2\<^sup>1\<close>.
\<close>

record cart_item =
  item_product :: product
  quantity :: int
  selectedColor :: "string option"
  selectedSize :: "string option"

datatype cart_action = RemoveFromCart string | UpdateQuantity string int | ClearCart

definition totalItems :: "cart_item list \<Rightarrow> int" where
  "totalItems items = sum_list (map quantity items)"

definition totalPrice :: "cart_item list \<Rightarrow> real" where
  "totalPrice items = sum_list (map (\<lambda>it. real (price (item_product it)) * of_int (quantity it)) items)"

text \<open>
  \<open>x.toFixed(2)\<close>: the integer \<open>n\<close> with \<open>n / 100\<close> nearest to \<open>x\<close>, the larger
  one on a tie, printed with at least three digits and a point before the last two; a
  negative \<open>x\<close> is printed as \<open>-\<close> and the digits of \<open>-x\<close>.
\<close>

definition render_cents :: "nat \<Rightarrow> string" where
  "render_cents n =
     (let s = string_of_nat n; s' = replicate (3 - length s) CHR ''0'' @ s
      in take (length s' - 2) s' @ ''.'' @ drop (length s' - 2) s')"

definition toFixed2 :: "real \<Rightarrow> string" where
  "toFixed2 x =
     (if x < 0 then ''-'' @ render_cents (nat \<lfloor>- x * 100 + 1 / 2\<rfloor>)
      else render_cents (nat \<lfloor>x * 100 + 1 / 2\<rfloor>))"

text \<open>The amount in cents a printed price denotes.\<close>

fun amount_cents :: "string \<Rightarrow> int" where
  "amount_cents (c # cs) =
     (if c = CHR ''-'' then - int (digits_value (filter (\<lambda>d. d \<noteq> CHR ''.'') cs))
      else int (digits_value (filter (\<lambda>d. d \<noteq> CHR ''.'') (c # cs))))"
| "amount_cents [] = 0"

text \<open>A number in a JSX text node.\<close>

definition string_of_int :: "int \<Rightarrow> string" where
  "string_of_int i = (if i < 0 then ''-'' @ string_of_nat (nat (- i)) else string_of_nat (nat i))"

text \<open>A string in \<open>&&\<close>: truthy when present and not empty.\<close>

definition truthy :: "string option \<Rightarrow> bool" where
  "truthy v = (case v of Some s \<Rightarrow> s \<noteq> [] | None \<Rightarrow> False)"

definition option_text :: "string option \<Rightarrow> string" where
  "option_text v = (case v of Some s \<Rightarrow> s | None \<Rightarrow> [])"

text \<open>The colour and size line of an item (lines 84-90); the separator's middle dot is its UTF-8 bytes.\<close>

definition options_line :: "cart_item \<Rightarrow> string option" where
  "options_line it =
     (if truthy (selectedColor it) \<or> truthy (selectedSize it)
      then Some ((if truthy (selectedColor it) then ''Color: '' @ option_text (selectedColor it) else [])
                 @ (if truthy (selectedColor it) \<and> truthy (selectedSize it) then '' '' @ [char_of (194 :: nat), char_of (183 :: nat)] @ '' '' else [])
                 @ (if truthy (selectedSize it) then ''Size: '' @ option_text (selectedSize it) else []))
      else None)"

record cart_line =
  line_link :: string
  line_subcategory :: string
  line_name :: string
  line_options :: "string option"
  line_quantity :: string
  line_total :: string
  on_remove :: cart_action
  on_minus :: cart_action
  on_plus :: cart_action

text \<open>One item of the list (lines 58-124).\<close>

definition cart_line :: "cart_item \<Rightarrow> cart_line" where
  "cart_line it =
     (let p = item_product it
      in \<lparr>line_link = ''/product/'' @ prod_id p, line_subcategory = subcategory p,
          line_name = prod_name p, line_options = options_line it,
          line_quantity = string_of_int (quantity it),
          line_total = ''$'' @ toFixed2 (real (price p) * of_int (quantity it)),
          on_remove = RemoveFromCart (prod_id p),
          on_minus = UpdateQuantity (prod_id p) (quantity it - 1),
          on_plus = UpdateQuantity (prod_id p) (quantity it + 1)\<rparr>)"

datatype cart_view =
    EmptyCart
  | CartShown string "cart_line list" string string string

text \<open>The page (lines 8-171): the empty state, or the heading, the lines and the summary.\<close>

definition cart_view :: "cart_item list \<Rightarrow> cart_view" where
  "cart_view items =
     (if items = [] then EmptyCart
      else CartShown (''Shopping Cart ('' @ string_of_int (totalItems items) @ '' items)'')
             (map cart_line items)
             (''$'' @ toFixed2 (totalPrice items))
             (''$'' @ toFixed2 (totalPrice items * 0.08))
             (''$'' @ toFixed2 (totalPrice items * 1.08)))"

subsection \<open>Lemmas\<close>

lemma render_cents_split:
  obtains t where "render_cents n = take (length t - 2) t @ ''.'' @ drop (length t - 2) t"
    and "set t \<subseteq> set ''0123456789''" and "digits_value t = n"
proof
  let ?t = "replicate (3 - length (string_of_nat n)) CHR ''0'' @ string_of_nat n"
  show "render_cents n = take (length ?t - 2) ?t @ ''.'' @ drop (length ?t - 2) ?t"
    by (simp add: render_cents_def Let_def)
  show "set ?t \<subseteq> set ''0123456789''" using string_of_nat_digits [of n] by auto
  show "digits_value ?t = n" by simp
qed

lemma render_cents_value: "digits_value (filter (\<lambda>d. d \<noteq> CHR ''.'') (render_cents n)) = n"
proof -
  obtain t where r: "render_cents n = take (length t - 2) t @ ''.'' @ drop (length t - 2) t"
    and d: "set t \<subseteq> set ''0123456789''" and v: "digits_value t = n"
    by (rule render_cents_split)
  have "filter (\<lambda>d. d \<noteq> CHR ''.'') (render_cents n)
        = filter (\<lambda>d. d \<noteq> CHR ''.'') (take (length t - 2) t)
          @ filter (\<lambda>d. d \<noteq> CHR ''.'') (drop (length t - 2) t)"
    by (simp add: r)
  also have "\<dots> = filter (\<lambda>d. d \<noteq> CHR ''.'') t"
    by (simp only: filter_append [symmetric] append_take_drop_id)
  also have "\<dots> = t" using d by (auto simp: filter_id_conv)
  finally show ?thesis using v by simp
qed

lemma render_cents_head: "render_cents n = c # cs \<Longrightarrow> c \<noteq> CHR ''-''"
proof -
  assume h: "render_cents n = c # cs"
  obtain t where r: "render_cents n = take (length t - 2) t @ ''.'' @ drop (length t - 2) t"
    and d: "set t \<subseteq> set ''0123456789''"
    by (rule render_cents_split)
  have "set (render_cents n) \<subseteq> insert CHR ''.'' (set t)"
    by (auto simp: r dest: in_set_takeD in_set_dropD)
  then have "CHR ''-'' \<notin> set (render_cents n)" using d by auto
  then show ?thesis using h by auto
qed

lemma amount_cents_render: "amount_cents (render_cents n) = int n"
proof (cases "render_cents n")
  case Nil
  obtain t where "render_cents n = take (length t - 2) t @ ''.'' @ drop (length t - 2) t"
    by (rule render_cents_split)
  with Nil show ?thesis by simp
next
  case (Cons c cs)
  then have "c \<noteq> CHR ''-''" by (rule render_cents_head)
  then show ?thesis using render_cents_value [of n] Cons by simp
qed

lemma toFixed2_cents:
  "toFixed2 (of_int c / 100) =
     (if c < 0 then ''-'' @ render_cents (nat (- c)) else render_cents (nat c))"
proof -
  have "\<lfloor>of_int c / 100 * 100 + 1 / 2 :: real\<rfloor> = c" by linarith
  moreover have "\<lfloor>- (of_int c / 100) * 100 + 1 / 2 :: real\<rfloor> = - c" by linarith
  ultimately show ?thesis by (simp add: toFixed2_def)
qed

lemma amount_cents_toFixed2:
  assumes "x * 100 = of_int c"
  shows "amount_cents (toFixed2 x) = c"
proof -
  have x: "x = of_int c / 100" using assms by (simp add: field_simps)
  show ?thesis unfolding x using render_cents_value [of "nat (- c)"]
    by (simp add: toFixed2_cents amount_cents_render)
qed

lemma totalPrice_cents:
  "totalPrice items * 100 = of_int (100 * (\<Sum>it\<leftarrow>items. int (price (item_product it)) * quantity it))"
  by (induction items) (simp_all add: totalPrice_def algebra_simps)

lemma line_total_cents:
  "amount_cents (tl (line_total (cart_line it))) = 100 * int (price (item_product it)) * quantity it"
  by (simp add: cart_line_def Let_def amount_cents_toFixed2)

text \<open>
  C26: the amounts of a non-empty cart page add up when read as printed: the line totals sum
  to the subtotal, and the subtotal and the tax sum to the total, to the cent.
\<close>

theorem cart_amounts_add_up:
  "case cart_view items of
     EmptyCart \<Rightarrow> items = []
   | CartShown heading ls sub tx tot \<Rightarrow>
       amount_cents (tl sub) = (\<Sum>l\<leftarrow>ls. amount_cents (tl (line_total l)))
       \<and> amount_cents (tl sub) + amount_cents (tl tx) = amount_cents (tl tot)"
proof -
  define n where "n = (\<Sum>it\<leftarrow>items. int (price (item_product it)) * quantity it)"
  have sub: "totalPrice items * 100 = of_int (100 * n)" by (simp add: totalPrice_cents n_def)
  have tax: "totalPrice items * 0.08 * 100 = of_int (8 * n)" using sub by simp
  have tot: "totalPrice items * 1.08 * 100 = of_int (108 * n)" using sub by simp
  have lines: "(\<Sum>l\<leftarrow>map cart_line items. amount_cents (tl (line_total l))) = 100 * n"
    by (simp add: n_def line_total_cents comp_def sum_list_const_mult mult.assoc)
  show ?thesis
  proof (cases "items = []")
    case True
    then show ?thesis by (simp add: cart_view_def)
  next
    case False
    then show ?thesis
      using amount_cents_toFixed2 [OF sub] amount_cents_toFixed2 [OF tax] amount_cents_toFixed2 [OF tot] lines
      by (simp only: cart_view_def if_False cart_view.case list.sel(3) append_Cons append_Nil) simp
  qed
qed

end
