(* ===== verification/SiteHeader.thy ===== *)
theory SiteHeader
  imports CartPage
begin

text \<open>
  The site header \<^verbatim>\<open>src/src/components/layout/Header.tsx\<close>: the state of the mobile
  menu, the navigation its links and buttons cause, the pending \<open>signOut\<close> calls, and what
  it shows for the cart (\<open>totalItems\<close> of \<open>CartContext\<close>) and the signed-in user
  (\<open>user.email\<close> of \<open>AuthContext\<close>, \<open>None\<close> when signed out).
\<close>

definition navLinks :: "(string \<times> string) list" where
  "navLinks = [(''Features'', ''/features''), (''Products'', ''/products''), (''Try-On'', ''/try-on''),
               (''FAQs'', ''/faqs'')]"

record header_state =
  isMenuOpen :: bool
  location :: string
  signouts_pending :: nat

datatype header_event =
    ToggleMenu
  | DesktopLink string
  | MobileLink string
  | DesktopSignOut
  | MobileSignOut
  | SignOutResolved

text \<open>
  Every page renders its own \<open>Header\<close>, so a navigation to another path mounts a new one,
  with the menu closed; a navigation to the current path keeps it.
\<close>

definition navigate_to :: "string \<Rightarrow> header_state \<Rightarrow> header_state" where
  "navigate_to href s = s\<lparr>location := href, isMenuOpen := (href = location s \<and> isMenuOpen s)\<rparr>"

text \<open>
  The handlers (lines 22-25, 43-51, 93, 107-149). \<open>handleSignOut\<close> awaits \<open>signOut\<close> and
  then navigates to \<open>/\<close>; the mobile button closes the menu at once, before the call settles.
\<close>

definition header_step :: "header_state \<Rightarrow> header_event \<Rightarrow> header_state" where
  "header_step s e =
     (case e of
        ToggleMenu \<Rightarrow> s\<lparr>isMenuOpen := \<not> isMenuOpen s\<rparr>
      | DesktopLink href \<Rightarrow> navigate_to href s
      | MobileLink href \<Rightarrow> navigate_to href (s\<lparr>isMenuOpen := False\<rparr>)
      | DesktopSignOut \<Rightarrow> s\<lparr>signouts_pending := Suc (signouts_pending s)\<rparr>
      | MobileSignOut \<Rightarrow> s\<lparr>signouts_pending := Suc (signouts_pending s), isMenuOpen := False\<rparr>
      | SignOutResolved \<Rightarrow>
          (if signouts_pending s = 0 then s
           else navigate_to ''/'' (s\<lparr>signouts_pending := signouts_pending s - 1\<rparr>)))"

datatype account_area = SignedInAs string | SignInLink

record header_view =
  nav_items :: "(string \<times> string) list"
  cart_badge :: "string option"
  account :: account_area
  mobile_menu :: "(string \<times> string) list option"
  mobile_cart_label :: "string option"

text \<open>What the header renders (lines 27-155) for the cart's \<open>totalItems\<close> and the user.\<close>

definition header_view :: "int \<Rightarrow> string option \<Rightarrow> header_state \<Rightarrow> header_view" where
  "header_view total_items user s =
     \<lparr>nav_items = navLinks,
      cart_badge = (if 0 < total_items then Some (string_of_int total_items) else None),
      account = (case user of Some em \<Rightarrow> SignedInAs em | None \<Rightarrow> SignInLink),
      mobile_menu = (if isMenuOpen s then Some navLinks else None),
      mobile_cart_label =
        (if isMenuOpen s then Some (''Cart ('' @ string_of_int total_items @ '')'') else None)\<rparr>"

definition header_offered :: "string option \<Rightarrow> header_state \<Rightarrow> header_event \<Rightarrow> bool" where
  "header_offered user s e =
     (case e of
        ToggleMenu \<Rightarrow> True
      | DesktopLink href \<Rightarrow> href \<in> set (map snd navLinks) \<or> href = ''/cart'' \<or> href = ''/''
                          \<or> (user = None \<and> href = ''/auth'')
      | MobileLink href \<Rightarrow> isMenuOpen s \<and> (href \<in> set (map snd navLinks) \<or> href = ''/cart''
                          \<or> (user = None \<and> href = ''/auth''))
      | DesktopSignOut \<Rightarrow> user \<noteq> None
      | MobileSignOut \<Rightarrow> isMenuOpen s \<and> user \<noteq> None
      | SignOutResolved \<Rightarrow> 0 < signouts_pending s)"

definition initial_header :: header_state where
  "initial_header = \<lparr>isMenuOpen = False, location = ''/'', signouts_pending = 0\<rparr>"

text \<open>Concrete input: two Classic Aviators in Gold.\<close>

definition demo_cart :: "cart_item list" where
  "demo_cart = [\<lparr>item_product = products ! 0, quantity = 2, selectedColor = Some ''Gold'', selectedSize = None\<rparr>]"

subsection \<open>Lemmas\<close>

lemma totalItems_pos:
  "\<forall>it \<in> set items. 0 < quantity it \<Longrightarrow> items \<noteq> [] \<Longrightarrow> 0 < totalItems items"
proof (induction items)
  case Nil
  then show ?case by simp
next
  case (Cons it items)
  then show ?case by (cases "items = []") (auto simp: totalItems_def intro: add_pos_pos)
qed

text \<open>
  C27: the header's cart badge and the cart page's heading count the same items: with every
  quantity positive, an empty cart has no badge, and a non-empty one has the badge whose number
  is the one in "Shopping Cart (n items)".
\<close>

theorem header_badge_matches_cart:
  assumes "\<forall>it \<in> set items. 0 < quantity it"
  shows "case cart_view items of
           EmptyCart \<Rightarrow> cart_badge (header_view (totalItems items) user s) = None
         | CartShown heading ls sub tx tot \<Rightarrow>
             (\<exists>n. cart_badge (header_view (totalItems items) user s) = Some n
                  \<and> heading = ''Shopping Cart ('' @ n @ '' items)'')"
proof (cases "items = []")
  case True
  then show ?thesis by (simp add: cart_view_def header_view_def totalItems_def)
next
  case False
  then show ?thesis using totalItems_pos [OF assms False] by (simp add: cart_view_def header_view_def)
qed

theorem header_badge_matches_cart_witness:
  "quantity (hd demo_cart) = 2 \<and> length demo_cart = 1
   \<and> cart_badge (header_view (totalItems demo_cart) None initial_header) = Some ''2''
   \<and> (case cart_view demo_cart of
         EmptyCart \<Rightarrow> cart_badge (header_view (totalItems demo_cart) None initial_header) = None
       | CartShown heading ls sub tx tot \<Rightarrow>
           (\<exists>n. cart_badge (header_view (totalItems demo_cart) None initial_header) = Some n
                \<and> heading = ''Shopping Cart ('' @ n @ '' items)''))"
proof -
  have q: "\<forall>it \<in> set demo_cart. 0 < quantity it" by (simp add: demo_cart_def)
  have b: "cart_badge (header_view (totalItems demo_cart) None initial_header) = Some ''2''"
    by (simp add: demo_cart_def header_view_def totalItems_def string_of_int_def)
  have l: "quantity (hd demo_cart) = 2 \<and> length demo_cart = 1" by (simp add: demo_cart_def)
  show ?thesis using l b header_badge_matches_cart [OF q, of None initial_header] by blast
qed

end
