(* ===== verification/AuthPage.thy ===== *)
theory AuthPage
  imports TryOn_Prelude
begin

text \<open>
  The sign-in page \<^verbatim>\<open>src/src/pages/Auth.tsx\<close>: its form state, the browser's constraint
  validation of the \<open>required\<close> and \<open>type="email"\<close> inputs, the zod checks of
  \<open>handleSubmit\<close>, and the asynchronous \<open>signIn\<close>/\<open>signUp\<close> call, whose settling is
  a separate event. The two e-mail syntax checks (the browser's and zod's) are library
  behaviour and are parameters of the model. Strings are lists of 8-bit characters; their
  length is the JavaScript length for such text.
\<close>

record email_checks =
  browser_email :: "string \<Rightarrow> bool"
  zod_email :: "string \<Rightarrow> bool"

text \<open>The characters \<open>String.prototype.trim\<close> removes, among the 8-bit ones.\<close>

definition js_space :: "char \<Rightarrow> bool" where
  "js_space c \<longleftrightarrow> of_char c \<in> {9, 10, 11, 12, 13, 32, 160 :: nat}"

definition js_trim :: "string \<Rightarrow> string" where
  "js_trim s = rev (dropWhile js_space (rev (dropWhile js_space s)))"

text \<open>
  The value sanitisation of an \<open>type="email"\<close> input (HTML standard): newlines removed,
  leading and trailing ASCII whitespace stripped.
\<close>

definition ascii_space :: "char \<Rightarrow> bool" where
  "ascii_space c \<longleftrightarrow> of_char c \<in> {9, 10, 12, 13, 32 :: nat}"

definition sanitize_email :: "string \<Rightarrow> string" where
  "sanitize_email s =
     (let t = filter (\<lambda>c. of_char c \<notin> {10, 13 :: nat}) s
      in rev (dropWhile ascii_space (rev (dropWhile ascii_space t))))"

record auth_page =
  isLogin :: bool
  email :: string
  password :: string
  showPassword :: bool
  submitting :: bool
  auth_toasts :: "string list"
  in_flight :: "(bool \<times> string \<times> string) option"
  auth_calls :: "(bool \<times> string \<times> string) list"

definition initial_auth :: auth_page where
  "initial_auth =
     \<lparr>isLogin = True, email = [], password = [], showPassword = False, submitting = False,
      auth_toasts = [], in_flight = None, auth_calls = []\<rparr>"

datatype auth_event =
    EditEmail string | EditPassword string | ToggleShowPassword | ToggleMode
  | SubmitForm | AuthSettled "string option"

text \<open>
  The zod checks of lines 11-12 and 36-45: the schema's first failing check gives the message;
  \<open>Inr\<close> the parsed e-mail.
\<close>

definition validate_credentials :: "email_checks \<Rightarrow> string \<Rightarrow> string \<Rightarrow> string + string" where
  "validate_credentials V em pw =
     (let e = js_trim em
      in if \<not> zod_email V e then Inl ''Please enter a valid email''
         else if 255 < length e then Inl ''String must contain at most 255 character(s)''
         else if length pw < 6 then Inl ''Password must be at least 6 characters''
         else if 72 < length pw then Inl ''String must contain at most 72 character(s)''
         else Inr e)"

text \<open>
  \<open>handleSubmit\<close> (lines 33-58) up to the \<open>await\<close>. The form is submitted only when
  the submit button is enabled and the browser's validation passes (both fields
  \<open>required\<close>, the e-mail well-formed); otherwise no submit event reaches the handler.
\<close>

definition submit_form :: "email_checks \<Rightarrow> auth_page \<Rightarrow> auth_page" where
  "submit_form V s =
     (if submitting s \<or> email s = [] \<or> \<not> browser_email V (email s) \<or> password s = [] then s
      else (case validate_credentials V (email s) (password s) of
              Inl msg \<Rightarrow> s\<lparr>auth_toasts := auth_toasts s @ [msg]\<rparr>
            | Inr e \<Rightarrow> s\<lparr>submitting := True, in_flight := Some (isLogin s, e, password s),
                         auth_calls := auth_calls s @ [(isLogin s, e, password s)]\<rparr>))"

text \<open>
  The rest of \<open>handleSubmit\<close> when the call settles (lines 52-57): the mode is the one
  captured when the form was submitted.
\<close>

definition auth_settled :: "string option \<Rightarrow> auth_page \<Rightarrow> auth_page" where
  "auth_settled err s =
     (case in_flight s of
        None \<Rightarrow> s
      | Some (login, _, _) \<Rightarrow>
          s\<lparr>auth_toasts := auth_toasts s @
               (case err of Some m \<Rightarrow> [m]
                | None \<Rightarrow> (if \<not> login then [''Account created! You're now signed in.''] else [])),
            submitting := False, in_flight := None\<rparr>)"

definition auth_step :: "email_checks \<Rightarrow> auth_page \<Rightarrow> auth_event \<Rightarrow> auth_page" where
  "auth_step V s e =
     (case e of
        EditEmail v \<Rightarrow> s\<lparr>email := sanitize_email v\<rparr>
      | EditPassword v \<Rightarrow> s\<lparr>password := v\<rparr>
      | ToggleShowPassword \<Rightarrow> s\<lparr>showPassword := \<not> showPassword s\<rparr>
      | ToggleMode \<Rightarrow> s\<lparr>isLogin := \<not> isLogin s\<rparr>
      | SubmitForm \<Rightarrow> submit_form V s
      | AuthSettled err \<Rightarrow> auth_settled err s)"

inductive auth_reachable :: "email_checks \<Rightarrow> auth_page \<Rightarrow> bool" for V where
  init: "auth_reachable V initial_auth"
| step: "auth_reachable V s \<Longrightarrow> auth_reachable V (auth_step V s e)"

record auth_view =
  auth_title :: string
  auth_subtitle :: string
  password_input_type :: string
  password_autocomplete :: string
  auth_button :: string
  button_disabled :: bool
  button_spinner :: bool
  toggle_label :: string

text \<open>The texts and attributes of the form that depend on the state (lines 60-141).\<close>

definition auth_view :: "auth_page \<Rightarrow> auth_view" where
  "auth_view s =
     \<lparr>auth_title = (if isLogin s then ''Welcome back'' else ''Create account''),
      auth_subtitle = (if isLogin s then ''Sign in to your VirtuWear account''
                       else ''Sign up to start your virtual try-on experience''),
      password_input_type = (if showPassword s then ''text'' else ''password''),
      password_autocomplete = (if isLogin s then ''current-password'' else ''new-password''),
      auth_button = (if isLogin s then ''Sign In'' else ''Create Account''),
      button_disabled = submitting s,
      button_spinner = submitting s,
      toggle_label = (if isLogin s then ''Sign up'' else ''Sign in'')\<rparr>"

datatype auth_screen = AuthLoading | RedirectHome | AuthForm auth_view

text \<open>
  The early returns of lines 23-31: a spinner while the session is being restored, a redirect
  to \<open>/\<close> once a user is signed in, the form otherwise.
\<close>

definition auth_screen :: "bool \<Rightarrow> bool \<Rightarrow> auth_page \<Rightarrow> auth_screen" where
  "auth_screen loading signed_in s =
     (if loading then AuthLoading else if signed_in then RedirectHome else AuthForm (auth_view s))"

definition auth_inv :: "email_checks \<Rightarrow> auth_page \<Rightarrow> bool" where
  "auth_inv V s \<longleftrightarrow> (submitting s \<longleftrightarrow> in_flight s \<noteq> None)
     \<and> (\<forall>(l, e, p) \<in> set (auth_calls s). zod_email V e \<and> length e \<le> 255 \<and> 6 \<le> length p \<and> length p \<le> 72)"

definition auth_run :: "email_checks \<Rightarrow> auth_page \<Rightarrow> auth_event list \<Rightarrow> auth_page" where
  "auth_run V s es = fold (\<lambda>e s. auth_step V s e) es s"

text \<open>Concrete inputs: syntax checks that look for an \<open>@\<close> (and, for zod, a dot).\<close>

definition demo_checks :: email_checks where
  "demo_checks =
     \<lparr>browser_email = (\<lambda>s. CHR ''@'' \<in> set s),
      zod_email = (\<lambda>s. CHR ''@'' \<in> set s \<and> CHR ''.'' \<in> set s)\<rparr>"

definition demo_signin :: "auth_event list" where
  "demo_signin = [EditEmail '' ann@shop.io '', EditPassword ''secret1'', SubmitForm]"

subsection \<open>Lemmas\<close>

lemma auth_run_reachable: "auth_reachable V s \<Longrightarrow> auth_reachable V (auth_run V s es)"
  by (induction es arbitrary: s) (simp_all add: auth_run_def auth_reachable.step)

lemma demo_signin_state:
  "auth_run demo_checks initial_auth demo_signin =
     \<lparr>isLogin = True, email = ''ann@shop.io'', password = ''secret1'', showPassword = False,
      submitting = True, auth_toasts = [], in_flight = Some (True, ''ann@shop.io'', ''secret1''),
      auth_calls = [(True, ''ann@shop.io'', ''secret1'')]\<rparr>"
  by (simp add: auth_run_def demo_signin_def initial_auth_def auth_step_def submit_form_def
      sanitize_email_def ascii_space_def validate_credentials_def js_trim_def js_space_def
      demo_checks_def)

lemma validate_credentials_Inr:
  "validate_credentials V em pw = Inr e \<Longrightarrow>
     e = js_trim em \<and> zod_email V e \<and> length e \<le> 255 \<and> 6 \<le> length pw \<and> length pw \<le> 72"
  by (auto simp: validate_credentials_def Let_def split: if_splits)

lemma submit_form_inv: "auth_inv V s \<Longrightarrow> auth_inv V (submit_form V s)"
  by (auto simp: submit_form_def auth_inv_def dest: validate_credentials_Inr
           split: sum.splits)

lemma auth_settled_inv: "auth_inv V s \<Longrightarrow> auth_inv V (auth_settled err s)"
  by (auto simp: auth_settled_def auth_inv_def split: option.splits)

lemma auth_step_inv: "auth_inv V s \<Longrightarrow> auth_inv V (auth_step V s e)"
  by (cases e) (simp_all add: auth_step_def submit_form_inv auth_settled_inv,
                simp_all add: auth_inv_def)

lemma auth_reachable_inv: "auth_reachable V s \<Longrightarrow> auth_inv V s"
proof (induction rule: auth_reachable.induct)
  case init
  show ?case by (simp add: auth_inv_def initial_auth_def)
next
  case (step s e)
  show ?case by (rule auth_step_inv [OF step.IH])
qed

subsection \<open>Properties\<close>

text \<open>
  C24: every credential pair the page hands to \<open>signIn\<close> or \<open>signUp\<close> passed the zod
  schemas: the e-mail is accepted by the e-mail check and has at most 255 characters, the
  password has between 6 and 72 characters.
\<close>

theorem auth_calls_validated:
  assumes "auth_reachable V s" and "(l, e, p) \<in> set (auth_calls s)"
  shows "zod_email V e \<and> length e \<le> 255 \<and> 6 \<le> length p \<and> length p \<le> 72"
  using auth_reachable_inv [OF assms(1)] assms(2) by (auto simp: auth_inv_def)

theorem auth_calls_validated_witness:
  "zod_email demo_checks ''ann@shop.io'' \<and> length ''ann@shop.io'' \<le> 255
   \<and> 6 \<le> length ''secret1'' \<and> length ''secret1'' \<le> (72::nat)"
  using auth_calls_validated [of demo_checks "auth_run demo_checks initial_auth demo_signin"
          True "''ann@shop.io''" "''secret1''"]
        auth_run_reachable [OF auth_reachable.init, of demo_checks demo_signin]
  by (simp add: demo_signin_state)

text \<open>
  C25: the page has at most one authentication call in flight: \<open>submitting\<close> is set exactly
  while a call is pending, and submitting the form again in that time changes nothing (the
  submit button is disabled).
\<close>

theorem auth_single_flight:
  assumes "auth_reachable V s"
  shows "(submitting s \<longleftrightarrow> in_flight s \<noteq> None)
         \<and> (in_flight s \<noteq> None \<longrightarrow> auth_step V s SubmitForm = s)"
  using auth_reachable_inv [OF assms] by (auto simp: auth_inv_def auth_step_def submit_form_def)

theorem auth_single_flight_witness:
  "let s = auth_run demo_checks initial_auth demo_signin
   in submitting s \<and> in_flight s = Some (True, ''ann@shop.io'', ''secret1'')
      \<and> auth_step demo_checks s SubmitForm = s"
  using auth_single_flight [of demo_checks "auth_run demo_checks initial_auth demo_signin"]
        auth_run_reachable [OF auth_reachable.init, of demo_checks demo_signin]
  by (simp add: demo_signin_state)

text \<open>
  When the browser lets the form through but zod rejects the trimmed e-mail, the page
  shows the e-mail message, whatever is wrong with the password, and calls nothing.
\<close>

theorem invalid_email_reported_first:
  assumes "\<not> submitting s" and "email s \<noteq> []" and "browser_email V (email s)"
    and "password s \<noteq> []" and "\<not> zod_email V (js_trim (email s))"
  shows "auth_step V s SubmitForm = s\<lparr>auth_toasts := auth_toasts s @ [''Please enter a valid email'']\<rparr>"
  using assms by (simp add: auth_step_def submit_form_def validate_credentials_def)

theorem invalid_email_reported_first_witness:
  "auth_step demo_checks (initial_auth\<lparr>email := ''ann@shop'', password := ''x''\<rparr>) SubmitForm
     = initial_auth\<lparr>email := ''ann@shop'', password := ''x'',
                    auth_toasts := [''Please enter a valid email'']\<rparr>"
  using invalid_email_reported_first [of "initial_auth\<lparr>email := ''ann@shop'', password := ''x''\<rparr>" demo_checks]
  by (simp add: initial_auth_def demo_checks_def js_trim_def js_space_def)

end
