(* ===== verification/SitePages.thy ===== *)
theory SitePages
  imports Storefront SiteHeader
begin

text \<open>
  The pages without state of their own: the home page \<^verbatim>\<open>src/src/pages/Index.tsx\<close> and
  its sections (\<^verbatim>\<open>components/sections/\<close>: HeroSection, CategoriesSection,
  FeaturedProducts, HowItWorks, CTASection), the Features page and the FAQs page. A page is
  the list of what it shows, in order: headings, texts, lists, router links (\<open>Link\<close> and
  \<open>navigate\<close>), plain anchors (a full page load) with their content, pictures by their
  \<open>alt\<close> text, and buttons. Styling, icons and animation are not modelled. Text is the
  UTF-8 bytes of the source, JSX whitespace collapsed as React does; a line break is
  \<open>\<newline>\<close>.
\<close>

definition utf8 :: "nat list \<Rightarrow> string" where
  "utf8 bs = map char_of bs"

definition line_break :: string where
  "line_break = [char_of (10 :: nat)]"

datatype content =
    Heading string
  | Text string
  | Items "string list"
  | RouterLink string string
  | PageLink string "content list"
  | Picture string
  | Button string

text \<open>The link targets of a piece of content.\<close>

primrec content_links :: "content \<Rightarrow> string list" where
  "content_links (Heading s) = []"
| "content_links (Text s) = []"
| "content_links (Items xs) = []"
| "content_links (RouterLink l to) = [to]"
| "content_links (PageLink href cs) = href # concat (map content_links cs)"
| "content_links (Picture alt) = []"
| "content_links (Button l) = []"

definition page_links :: "content list \<Rightarrow> string list" where
  "page_links cs = concat (map content_links cs)"

text \<open>
  The paths the pages link to and the router serves, as the header lists them: its navigation
  links, the home page, the cart and the sign-in page. The query of a link is not part of
  its path.
\<close>

definition site_paths :: "string list" where
  "site_paths = ''/'' # map snd navLinks @ [''/cart'', ''/auth'']"

definition known_route :: "string \<Rightarrow> bool" where
  "known_route href \<longleftrightarrow> takeWhile (\<lambda>c. c \<noteq> CHR ''?'') href \<in> set site_paths"

section \<open>HeroSection\<close>

definition hero_features :: "string list" where
  "hero_features = [''Glasses'', ''Watches'', ''Clothing'', ''AI-Powered'', ''Real-time Preview'']"

text \<open>\<open>[1, 2, 3, 4, 5].map((i) => String.fromCharCode(64 + i))\<close>.\<close>

definition hero_avatars :: "string list" where
  "hero_avatars = map (\<lambda>i. [char_of (64 + i)]) [1 :: nat, 2, 3, 4, 5]"

text \<open>The left column (lines 27-146): label, headline, description, social proof, CTA, features, testimonial.\<close>

definition hero_content :: "content list" where
  "hero_content =
     [Text ''Virtual Try-On Technology'',
      Heading (''Try before'' @ line_break @ ''you buy''),
      Text ''Your shopping experience should be more than browsing. VirtuWear gives you the tools to shop with confidence.'',
      Items hero_avatars,
      Text (''Join 10,000+ shoppers using'' @ line_break @ ''VirtuWear to find their perfect fit.''),
      RouterLink ''Start Try-On Free'' ''/try-on'',
      Items hero_features,
      Text ''SK'', Text ''Sarah Kim'', Text ''@sarahkim_style'',
      Text (''I can't believe how simple it is to try on glasses with VirtuWear. So many features out of the box and an amazing experience behind it. No more returns! ''
            @ utf8 [240, 159, 142, 137])]"

text \<open>The right column (lines 148-242): the mock-up card and the two floating badges.\<close>

definition hero_visual :: "content list" where
  "hero_visual =
     [Text ''VIRTUWEAR'', Text ''WELCOME, JANE'', Text ''Explore your new look.'',
      Picture ''Virtual Try-On Preview'',
      Text ''Classic Aviator'', Text ''$149'',
      Text ''Live Camera'', Text ''Real-time preview'',
      Text ''AI'', Text ''AI Powered'', Text ''98% accuracy'']"

definition hero_section :: "content list" where
  "hero_section = hero_content @ hero_visual"

section \<open>CategoriesSection\<close>

record home_category =
  hc_name :: string
  hc_description :: string
  hc_count :: string

definition home_categories :: "home_category list" where
  "home_categories =
     [\<lparr>hc_name = ''Eyewear'', hc_description = ''Sunglasses & Prescription'', hc_count = ''2,500+ styles''\<rparr>,
      \<lparr>hc_name = ''Watches'', hc_description = ''Luxury & Smart Watches'', hc_count = ''1,800+ styles''\<rparr>,
      \<lparr>hc_name = ''Clothing'', hc_description = ''Fashion & Apparel'', hc_count = ''15,000+ styles''\<rparr>]"

text \<open>Each category is a card that is an anchor to \<open>#\<close> (lines 50-82).\<close>

definition categories_section :: "content list" where
  "categories_section =
     [Heading ''Shop by Category'',
      Text ''Explore our collection and try on any product virtually before you buy'']
     @ map (\<lambda>c. PageLink ''#'' [Heading (hc_name c), Text (hc_description c), Text (hc_count c), Text ''Explore''])
           home_categories"

section \<open>FeaturedProducts\<close>

text \<open>A product card (lines 50-120): the try-on button navigates to the try-on link.\<close>

definition featured_card :: "product \<Rightarrow> content list" where
  "featured_card p =
     [Picture (prod_name p), RouterLink ''Try On'' (tryOnLink p)]
     @ (if tryOnAvailable p then [Text ''Try-On Ready''] else [])
     @ [Text (subcategory p), Heading (prod_name p), Text (''$'' @ string_of_nat (price p)),
        Button ''Add to Cart'']"

definition featured_section :: "content list" where
  "featured_section =
     [Heading ''Featured Products'',
      Text ''Discover our most popular items with virtual try-on capability'',
      RouterLink ''View All Products'' ''/products'']
     @ concat (map featured_card featuredProducts)"

text \<open>
  The Add to Cart button of a card (lines 111-114): \<open>addToCart(product)\<close>, no colour and no
  size, and its toast.
\<close>

definition featured_add :: "product \<Rightarrow> (product \<times> string option \<times> string option) \<times> string" where
  "featured_add p = ((p, None, None), prod_name p @ '' added to cart!'')"

section \<open>HowItWorks\<close>

record step =
  step_title :: string
  step_description :: string
  step_accent :: string

definition steps :: "step list" where
  "steps =
     [\<lparr>step_title = ''Capture Your Look'',
       step_description = ''Enable your camera or upload a photo. Our seamless interface makes it easy to get started in seconds.'',
       step_accent = ''01''\<rparr>,
      \<lparr>step_title = ''AI Does The Magic'',
       step_description = ''Advanced AI instantly detects your face and body measurements for pixel-perfect product placement.'',
       step_accent = ''02''\<rparr>,
      \<lparr>step_title = ''Try Before You Buy'',
       step_description = ''Browse and virtually try on glasses, watches, or clothing. See exactly how they look on you in real-time.'',
       step_accent = ''03''\<rparr>,
      \<lparr>step_title = ''Shop With Confidence'',
       step_description = ''Find your perfect fit and checkout. No more returns, no more guessing'' @ utf8 [226, 128, 148] @ ''just perfect purchases.'',
       step_accent = ''04''\<rparr>]"

text \<open>The section (lines 31-143); its bottom link is a plain anchor to \<open>/try-on\<close>.\<close>

definition how_it_works :: "content list" where
  "how_it_works =
     [Text ''Simple Process'', Heading ''How It Works'',
      Text ''Four simple steps to transform your online shopping experience forever'']
     @ concat (map (\<lambda>s. [Text (step_accent s), Heading (step_title s), Text (step_description s)]) steps)
     @ [PageLink ''/try-on'' [Text ''Start Your Experience'']]"

section \<open>CTASection and the home page\<close>

definition cta_section :: "content list" where
  "cta_section =
     [Text ''Start Your Virtual Experience'',
      Heading ''Ready to Try Before You Buy?'',
      Text ''Join thousands of shoppers who love our virtual try-on experience. Find your perfect fit today.'',
      RouterLink ''Start Try-On Now'' ''/try-on'',
      RouterLink ''Browse Products'' ''/products'',
      Items [''Free Returns'', ''Secure Payment'', ''24/7 Support'']]"

text \<open>\<open>Index\<close>: the header, then the five sections in order.\<close>

definition index_page :: "content list" where
  "index_page = hero_section @ categories_section @ featured_section @ how_it_works @ cta_section"

section \<open>The Features page\<close>

record feature =
  feature_title :: string
  feature_description :: string

definition features :: "feature list" where
  "features =
     [\<lparr>feature_title = ''Virtual Try-On'',
       feature_description = ''Use your camera to see how products look on you in real-time. No downloads or apps required '' @ utf8 [195, 162, 226, 130, 172, 226, 128, 157] @ '' it works right in your browser.''\<rparr>,
      \<lparr>feature_title = ''AI-Powered Fitting'',
       feature_description = ''Our advanced AI analyzes your photo and overlays products with realistic scaling and positioning for an accurate preview.''\<rparr>,
      \<lparr>feature_title = ''Works on Any Device'',
       feature_description = ''Whether you're on desktop, tablet, or phone, VirtuWear delivers a seamless try-on experience across all devices.''\<rparr>,
      \<lparr>feature_title = ''Shop with Confidence'',
       feature_description = ''See it before you buy it. Reduce returns and make better purchasing decisions with our virtual preview technology.''\<rparr>,
      \<lparr>feature_title = ''Privacy First'',
       feature_description = ''Your photos are processed locally and never stored on our servers. Your privacy is our top priority.''\<rparr>,
      \<lparr>feature_title = ''Instant Results'',
       feature_description = ''Get real-time try-on results with zero wait time. Our optimized pipeline delivers instant visual feedback.''\<rparr>]"

text \<open>\<open>String(n).padStart(2, "0")\<close>.\<close>

definition pad2 :: "nat \<Rightarrow> string" where
  "pad2 n = (let s = string_of_nat n in replicate (2 - length s) CHR ''0'' @ s)"

text \<open>A card of the grid (lines 81-136); the first and fourth are large and show the social proof.\<close>

definition feature_card :: "nat \<Rightarrow> feature \<Rightarrow> content list" where
  "feature_card index f =
     [Text (pad2 (index + 1)), Heading (feature_title f), Text (feature_description f)]
     @ (if index = 0 \<or> index = 3 then [Text ''Loved by 10,000+ shoppers''] else [])"

definition features_page :: "content list" where
  "features_page =
     [Text ''Why VirtuWear'',
      Heading (''The Future of '' @ line_break @ ''Online Shopping''),
      Text ''Experience cutting-edge technology that bridges the gap between online browsing and in-store trying.'']
     @ concat (map (\<lambda>(i, f). feature_card i f) (enumerate 0 features))
     @ [RouterLink ''Try It Now'' ''/try-on'']"

section \<open>The FAQs page\<close>

definition faqs :: "(string \<times> string) list" where
  "faqs =
     [(''How does the virtual try-on work?'',
       ''Our virtual try-on uses your device's camera to capture your image and overlays selected products in real-time, giving you a realistic preview of how items look on you before purchasing.''),
      (''Is the virtual try-on free to use?'',
       ''Yes! The virtual try-on feature is completely free for all users. Simply browse our products, select one, and click 'Try On' to get started.''),
      (''What devices are supported?'',
       ''VirtuWear works on any modern browser with camera access '' @ utf8 [195, 162, 226, 130, 172, 226, 128, 157] @ '' desktops, laptops, tablets, and smartphones. For the best experience, we recommend using Chrome or Safari.''),
      (''How accurate is the virtual try-on?'',
       ''Our AI-powered technology provides a highly realistic representation. While results may vary slightly from real life, it gives you an excellent idea of fit, style, and color.''),
      (''Can I save or share my try-on results?'',
       ''Yes! After capturing your try-on photo, you can download the image to share with friends or save for later reference.''),
      (''What products are available for try-on?'',
       ''We currently support sunglasses, watches, jackets, and blazers for virtual try-on. We're constantly adding new categories and products.''),
      (''Do you ship internationally?'',
       ''Yes, we ship to most countries worldwide. Shipping times and costs vary by location. Check our shipping page for more details.''),
      (''What is your return policy?'',
       ''We offer a 30-day hassle-free return policy. If you're not satisfied with your purchase, you can return it for a full refund or exchange.'')]"

text \<open>
  The accordion's value \<open>item-${index}\<close> and its \<open>type="single" collapsible\<close> behaviour
  (Radix UI): a trigger opens its item and closes the other, or closes its own item when open.
\<close>

definition faq_value :: "nat \<Rightarrow> string" where
  "faq_value index = ''item-'' @ string_of_nat index"

definition accordion_toggle :: "string option \<Rightarrow> string \<Rightarrow> string option" where
  "accordion_toggle opened v = (if opened = Some v then None else Some v)"

definition faqs_page :: "string option \<Rightarrow> content list" where
  "faqs_page opened =
     [Heading ''Frequently Asked Questions'',
      Text ''Everything you need to know about VirtuWear and our virtual try-on experience.'']
     @ concat (map (\<lambda>(i, q, a). Button q # (if opened = Some (faq_value i) then [Text a] else []))
                   (enumerate 0 faqs))"

subsection \<open>Lemmas\<close>

lemma featured_in_catalogue: "p \<in> set featuredProducts \<Longrightarrow> p \<in> set products"
  by (simp add: featuredProducts_def)

lemma faq_value_inj: "faq_value i = faq_value j \<Longrightarrow> i = j"
proof -
  assume "faq_value i = faq_value j"
  then have "string_of_nat i = string_of_nat j" by (simp add: faq_value_def)
  then have "digits_value (string_of_nat i) = digits_value (string_of_nat j)" by simp
  then show "i = j" by simp
qed

text \<open>
  The accordion shows at most one answer, whatever item is open: the values
  \<open>item-${index}\<close> of the items are distinct.
\<close>

lemma faqs_one_answer:
  "length (filter (\<lambda>(i, q, a). opened = Some (faq_value i)) (enumerate n xs)) \<le> 1"
proof (rule length_filter_le_one [where f = "\<lambda>(i, q, a). faq_value i" and k = "the opened"])
  have "inj_on faq_value (set (map fst (enumerate n xs)))" by (auto intro: inj_onI faq_value_inj)
  then have "distinct (map faq_value (map fst (enumerate n xs)))"
    by (simp add: distinct_map distinct_enumerate [unfolded enumerate_eq_zip])
  moreover have "map (\<lambda>(i, q, a). faq_value i) (enumerate n xs) = map faq_value (map fst (enumerate n xs))"
    by (induction xs arbitrary: n) auto
  ultimately show "distinct (map (\<lambda>(i, q, a). faq_value i) (enumerate n xs))" by simp
qed auto

lemma page_links_append [simp]: "page_links (xs @ ys) = page_links xs @ page_links ys"
  by (simp add: page_links_def)

lemma page_links_Cons [simp]: "page_links (c # cs) = content_links c @ page_links cs"
  by (simp add: page_links_def)

lemma page_links_Nil [simp]: "page_links [] = []"
  by (simp add: page_links_def)

lemma featured_card_links: "page_links (featured_card p) = [tryOnLink p]"
  by (simp add: featured_card_def)

lemma feature_card_links: "page_links (feature_card i f) = []"
  by (simp add: feature_card_def)

lemma page_links_concat_map: "page_links (concat (map f xs)) = concat (map (\<lambda>x. page_links (f x)) xs)"
  by (induction xs) simp_all

lemma section_links:
  "page_links hero_section = [''/try-on'']"
  "page_links categories_section = [''#'', ''#'', ''#'']"
  "page_links featured_section = ''/products'' # map tryOnLink featuredProducts"
  "page_links how_it_works = [''/try-on'']"
  "page_links cta_section = [''/try-on'', ''/products'']"
  "page_links features_page = [''/try-on'']"
  by (simp_all add: hero_section_def hero_content_def hero_visual_def categories_section_def home_categories_def featured_section_def
      page_links_concat_map featured_card_links comp_def how_it_works_def steps_def cta_section_def
      features_page_def case_prod_beta feature_card_links)

lemma known_tryOnLink: "known_route (tryOnLink p)"
  by (simp add: known_route_def tryOnLink_def site_paths_def navLinks_def)

lemma known_paths: "known_route ''/try-on''" "known_route ''/products''" "\<not> known_route ''#''"
  by (simp_all add: known_route_def site_paths_def navLinks_def)

text \<open>
  C34: the links of the home page and of the Features page all lead to pages of the site, except
  the three category cards, whose anchors go to \<open>#\<close>; and every Try On button of the
  featured products opens the try-on page on that product.
\<close>

theorem home_links_resolve:
  "filter (\<lambda>h. \<not> known_route h) (page_links index_page @ page_links features_page) = [''#'', ''#'', ''#'']
   \<and> (\<forall>p \<in> set featuredProducts.
        RouterLink ''Try On'' (tryOnLink p) \<in> set featured_section
        \<and> activeProduct (open_tryon (tryOnLink p)) = p)"
proof -
  have "filter (\<lambda>h. \<not> known_route h) (map tryOnLink featuredProducts) = []"
    by (simp add: known_tryOnLink)
  then have "filter (\<lambda>h. \<not> known_route h) (page_links index_page @ page_links features_page) = [''#'', ''#'', ''#'']"
    by (simp add: index_page_def section_links known_paths)
  moreover have "RouterLink ''Try On'' (tryOnLink p) \<in> set featured_section
                 \<and> activeProduct (open_tryon (tryOnLink p)) = p" if "p \<in> set featuredProducts" for p
    using that featured_in_catalogue [OF that] open_tryon_link
    by (auto simp: featured_section_def featured_card_def)
  ultimately show ?thesis by blast
qed

theorem home_links_resolve_witness:
  "RouterLink ''Try On'' (tryOnLink (products ! 0)) \<in> set featured_section
   \<and> activeProduct (open_tryon (tryOnLink (products ! 0))) = products ! 0"
proof -
  have "products ! 0 \<in> set featuredProducts"
    by (simp add: featuredProducts_def featuredIds_def products_def)
  then show ?thesis using home_links_resolve by blast
qed

end
