(* ===== verification/Spec2Isabelle.thy ===== *)
theory Spec2Isabelle
  imports Placement RemoteClient TryOnView Compositor Preprocessor FaceModels Storefront SiteHeader AuthPage SitePages
begin

text \<open>
  \<^bold>\<open>A verification library for the virtual try-on of one-page-wonder.\<close>

  \<^medskip>
  \<^bold>\<open>The program.\<close> A shopper picks a product (eyewear, watch or clothing) and a photo
  and sees the product composited onto the photo. Two pipelines exist in the sources:
  \<^item> the remote path, which the page actually uses: \<^verbatim>\<open>src/src/pages/TryOn.tsx\<close>
    mounts \<^verbatim>\<open>src/src/components/TryOnCanvas.tsx\<close>, which invokes the edge function
    \<^verbatim>\<open>src/supabase/functions/virtual-try-on/index.ts\<close>; that function validates the
    request, builds a category prompt, parses the photo's data URL, calls the Gemini
    endpoint with a bounded retry on HTTP 429, classifies the reply and extracts the
    image;
  \<^item> the local path of \<^verbatim>\<open>src/src/lib/tryOnEngine.ts\<close> (face-geometry placement,
    heuristic placement, background removal, canvas compositing) and the preprocessor
    \<^verbatim>\<open>src/src/lib/imageUtils.ts\<close>, which no page calls.
  The product catalogue is \<^verbatim>\<open>src/src/lib/products.ts\<close>; the shop around it is the
  products page, the product detail page, the cart page, the sign-in page and the header
  (\<^verbatim>\<open>src/src/pages/\<close>, \<^verbatim>\<open>src/src/components/layout/Header.tsx\<close>), which link to each
  other and to the try-on page by URL.

  \<^medskip>
  \<^bold>\<open>Numbers.\<close> JavaScript numbers are modelled as \<open>real\<close> (exact arithmetic, no
  IEEE rounding, no NaN or infinities except where the code's behaviour depends on them and
  the model says so); \<open>Math.round\<close> is HOL's \<open>round\<close> (\<open>\<lfloor>x + 1/2\<rfloor>\<close>);
  the bytes of a canvas \<open>ImageData\<close> buffer are \<open>8 word\<close>s.

  \<^medskip>
  \<^bold>\<open>Theories.\<close>
  \<^item> \<open>TryOn_Prelude\<close>: the shared types (\<open>category\<close>, \<open>point\<close>, \<open>u8\<close>),
    the \<open>model_defs\<close> collection, decimal printing \<open>string_of_nat\<close> with its reading
    \<open>digits_value\<close>, and generic lemmas on \<open>round\<close>, \<open>sqrt\<close>, summing folds,
    bytes and the decimal round trip.
  \<^item> \<open>Placement\<close>: \<open>OverlayPosition\<close> as the record \<open>overlay_position\<close>;
    \<open>detectEyewearPosition\<close> (from the face-api.js landmark list, \<open>None\<close> when no
    face is found) with its helpers \<open>getLeftEye\<close>, \<open>getRightEye\<close> (face-api.js),
    \<open>eye_center\<close>, \<open>hypot\<close>, \<open>atan2\<close> (\<open>Math\<close>); and
    \<open>getDefaultOverlayPosition\<close>. Its lemmas show that the eyewear rectangle is centred on the
    eyes with the code's proportions and an angle in \<open>(-\<pi>, \<pi>]\<close>, that it follows
    translations and scalings of the face, that it has positive size exactly when the eye
    centres differ (zero size otherwise, against the spec's invariant), and that the
    heuristic rectangles lie inside the photo, the clothing one horizontally centred.

  \<^item> \<open>RemoteClient\<close>: the edge function. Its request body is the record
    \<open>try_on_request\<close> (an absent field is \<open>None\<close>), the Gemini reply the records
    \<open>gemini_reply\<close>, \<open>candidate\<close>, \<open>part\<close>, \<open>inline_data\<close>; the network is
    an oracle \<open>gemini_request \<Rightarrow> nat \<Rightarrow> fetch_outcome\<close> answering the \<open>n\<close>-th
    attempt. \<open>buildTryOnPrompt\<close> (with \<open>categoryPrompts\<close> and the templates),
    \<open>match_data_url\<close> (the regular expression), \<open>retry_loop\<close> (the \<open>for\<close> loop,
    with \<open>maxRetries\<close> and \<open>backoff_delay\<close>), \<open>handle_response\<close> and
    \<open>extract_image\<close> (lines 91-136), \<open>caught_reply\<close> (the \<open>catch\<close> block) and
    \<open>virtual_try_on\<close> (the whole handler, returning the reply, the number of requests
    sent and the delays slept). The loop is a \<open>function\<close> whose termination measure is
    \<open>maxRetries + 1 - attempt\<close>: no fuel is needed. Its lemmas characterise the retry
    loop for every network behaviour (at most four requests, back-off 2/4/8 s, retry only on
    429, the post-loop \<open>response!\<close> never null), the replies to a rate-limited run and
    to the spec's 429-429-429-200 example, the absence of retries otherwise, validation before
    any network call, the data-URL round trip, the extraction of the first inline image,
    and two departures from the spec (a quota message becomes 429; a category naming an
    \<open>Object.prototype\<close> member sends no instruction).

  \<^item> \<open>Catalog\<close>: the \<open>Product\<close> interface as the record \<open>product\<close>, the
    fourteen \<open>products\<close>, \<open>getProductById\<close>, \<open>getProductsByCategory\<close>, and the
    catalogue views of \<^verbatim>\<open>pages/Products.tsx\<close> (\<open>filteredProducts\<close>),
    \<^verbatim>\<open>pages/ProductDetail.tsx\<close> (\<open>relatedProducts\<close>) and
    \<^verbatim>\<open>sections/FeaturedProducts.tsx\<close>. Its lemmas show that lookup by id inverts the
    id (the ids are distinct), that the category views partition the catalogue, and that the
    related products are at most three others of the same category.
  \<^item> \<open>TryOnSession\<close>: the try-on page and its canvas. The page's React state is the
    record \<open>page_state\<close>; the mounted \<open>TryOnCanvas\<close> (props and state) is its field
    \<open>canvas\<close>; each run of the canvas's effect is an \<open>effect_run\<close> carrying the
    \<open>cancelled\<close> variable its cleanup sets. Each handler of \<^verbatim>\<open>TryOn.tsx\<close> and the
    resolution of a run's invoke is a \<open>page_event\<close>; \<open>handle_event\<close> is the handler,
    \<open>reconcile\<close> the re-render (mount, unmount, effect re-run on the dependencies
    \<open>[userImage, product, onResult]\<close>), \<open>page_step\<close> their composition and
    \<open>reachable\<close> the inductive set of sessions from a first render. The invoke of
    \<open>supabase.functions.invoke\<close> is modelled by its documented contract
    (\<open>supabase_invoke\<close>: a non-2xx reply becomes the generic error), and
    \<open>settle\<close> is the canvas code after the \<open>await\<close>. The field
    \<open>result_source\<close> is ghost state recording the inputs of the run that produced the
    result. The invariant \<open>session_inv\<close> (ids of runs distinct; with no canvas every run
    cancelled, with one every live run its current one; the mounted canvas the one the render
    asks for; a result computed from the current photo and product) is proved for every
    reachable session by rule induction, and gives: a cancelled run's resolution changes
    nothing but the runs in flight; at most one run is live and it matches the selection; a
    result on the page matches the selection; the live run commits its image or reports its
    error; Try On starts exactly one live run.
  \<^item> \<open>TryOnView\<close>: what the page renders for a state: \<open>canvas_view\<close> (the canvas's
    loading, error or result), \<open>page_view\<close> (the preview area, the buttons of the action
    bar, the selected product and the list of other products) and \<open>offered\<close> (the event
    each visible control raises). Its lemma shows that in every reachable session a visible
    try-on canvas is the mounted one, for the current photo and product.
  \<^item> \<open>Compositor\<close>: \<open>removeBackground\<close>, which returns \<open>Inl IndexSizeError\<close> when
    \<open>getImageData\<close> is asked for a zero width or height, and otherwise cleans the
    \<open>ImageData\<close> bytes (\<open>clean_image_data\<close>: the corner sampling \<open>sample_corners\<close>,
    the estimate \<open>background_colour\<close> with the NaN case as \<open>None\<close>, the alpha rule
    \<open>pixel_alpha\<close>, the in-place loop \<open>bg_pass\<close>, a \<open>function\<close> with the measure
    \<open>length data - i\<close>); and \<open>compositeImage\<close> as its canvas calls (\<open>photo_ops\<close>,
    then \<open>overlay_ops\<close> unless \<open>removeBackground\<close> threw) run by \<open>exec_op\<close> on a
    model of the 2D context (transform, drawing state, save stack, the layers drawn), with the
    canvas left behind and the outcome (the exception or the data URL's type and quality).
    Its lemmas show that the loop equals the per-pixel reference \<open>map_pixels\<close>, that only
    alpha bytes change and only downwards, the spec's solid-colour test, the feather formula,
    the draw sequence with the states of both overlay passes (and the photo alone when the
    overlay is empty), that each pass lands on the position's rectangle rotated about its
    centre, and that the context is restored.
  \<^item> \<open>Preprocessor\<close>: \<open>compressImage\<close> with \<open>scaled_size\<close>
    (\<open>maxDimension / 0 = Infinity\<close> handled explicitly in \<open>scale_ratio\<close>): the longest
    side is capped exactly at \<open>maxDimension\<close>, each side is within half a pixel of the
    exact scaling, small images pass unchanged, and it fails exactly on a load error.
  \<^item> \<open>FaceModels\<close>: \<open>loadFaceModels\<close> split at its \<open>await\<close>, with interleaved
    calls as \<open>loader_event\<close>s: once loaded no call loads again, but calls made while a
    load is in flight each start their own loads.
  \<^item> \<open>Storefront\<close>: the products page (\<open>categories\<close>, \<open>product_card\<close>,
    \<open>products_page_view\<close>), the product detail page as a state machine (\<open>detail_state\<close>:
    the route id and the two \<open>useState\<close> selections; \<open>mount_detail\<close>,
    \<open>detail_step\<close>, \<open>detail_offered\<close> the buttons shown, \<open>detail_view\<close>), and
    the links between pages read back by the URL model (\<open>search_param\<close> is
    \<open>URLSearchParams.get\<close>, \<open>product_route_id\<close> the route parameter, after the URL
    standard). A related-product link keeps the detail component mounted and changes only the
    id. Its lemmas show that every product card links back to its product, that the selection
    stays one of the product's options while the page stays on it, the prices and saving shown,
    and that after a related-product link the old colour is added to the cart.
  \<^item> \<open>AuthPage\<close>: the sign-in form (\<open>auth_page\<close>), its events (\<open>auth_event\<close>),
    \<open>submit_form\<close> (the browser's constraint validation, then \<open>handleSubmit\<close> up to
    the \<open>await\<close> with the zod checks \<open>validate_credentials\<close>) and
    \<open>auth_settled\<close> (the rest of \<open>handleSubmit\<close>), with the e-mail syntax checks as
    parameters; \<open>auth_reachable\<close> is the inductive set of states. Its lemmas show that
    every call to \<open>signIn\<close>/\<open>signUp\<close> carries validated credentials, that one call at
    most is in flight, and that an invalid e-mail is reported before the password.
  \<^item> \<open>CartPage\<close>: the cart page's view (\<open>cart_view\<close>, \<open>cart_line\<close>) of the
    items of \<open>CartContext\<close>, with \<open>toFixed2\<close> after ECMAScript's
    \<open>Number.prototype.toFixed\<close> and the reading \<open>amount_cents\<close> of a printed amount.
    Its lemmas show the round trip of a whole number of cents through \<open>toFixed(2)\<close> and
    that the printed line totals, subtotal, tax and total add up to the cent.
  \<^item> \<open>SiteHeader\<close>: the header's menu state, its navigation and sign-out events
    (\<open>header_step\<close>; a navigation to another page mounts a new header, \<open>navigate_to\<close>)
    and its view; its lemma shows that the cart badge and the cart page's heading count the
    same items.
  \<^item> \<open>SitePages\<close>: the pages without state of their own (the home page and its sections
    HeroSection, CategoriesSection, FeaturedProducts, HowItWorks, CTASection; the Features and
    FAQs pages), each as the list of what it renders (\<open>content\<close>: texts as UTF-8 bytes,
    headings, router links, plain anchors, pictures, buttons), with the parts the code
    computes (avatars, card numbers, the featured products and their links, the FAQ
    accordion's open item). Its lemma shows that the links of the home and Features pages all
    lead to pages of the site except the category cards (\<open>#\<close>), that the featured
    Try On buttons open their products, and that the FAQ accordion shows at most one answer
    (its item values \<open>item-${index}\<close> are distinct, by the decimal round trip).
  \<^item> This theory: the properties that span the edge function, the invoke contract and the
    page: a run rate-limited on every attempt never shows the rate-limit notice; and a live
    run sends the page's photo to Gemini (against the Features page's "processed locally").

  \<^medskip>
  \<^bold>\<open>Concrete inputs.\<close> Witnesses evaluate the definitions by \<open>simp\<close> on small
  inputs: an eyewear request with a 3-byte image, an all-429 network and the spec's
  429-429-429-200 network, a three-event session (file chosen, read, Try On) followed by a
  product switch or an image, a 3 by 3 product image with white corners and a black centre,
  the Classic Aviator detail page followed by its related Round Vintage, a sign-in with
  \<open>ann@shop.io\<close>, and a cart of two Classic Aviators.
  No fuel is used anywhere: every loop is structural recursion or a \<open>function\<close> with a
  measure.

  \<^medskip>
  \<^bold>\<open>Not modelled.\<close> The styling, icons and animations of the pages (Tailwind classes,
  lucide icons, framer-motion), and the Footer, which is not in the sources. The cart and authentication
  contexts (\<open>CartContext\<close>, \<open>AuthContext\<close>) and the Supabase client are not in the
  sources: the pages' calls into them are recorded, and the cart totals are modelled as the
  page uses them. The e-mail syntax of the browser and of zod are parameters, not regular
  expressions. The browser's pixel pipeline (resampling in \<open>drawImage\<close>, shadow blur,
  multiply blending, JPEG encoding), the camera stream and \<open>FileReader\<close> are modelled only
  by the calls made and the state changes they cause. Face-api.js detection is an input: the
  landmark list, or \<open>None\<close>.
\<close>

section \<open>Properties across components\<close>

text \<open>C8: When every Gemini attempt is rate-limited, the edge function answers 429 with
  \<open>retryAfterSeconds = 30\<close>, but the canvas that called it never sees that body: the
  invoke turns the non-2xx reply into the generic error, so the page shows and toasts
  "Edge Function returned a non-2xx status code" and no "Rate limited" notice.\<close>

theorem rate_limit_notice_lost:
  assumes "reachable s" and "r \<in> set (runs s)" and "\<not> cancelled r"
    and "request_valid (invoke_body (run_image r) (run_product r)) key"
    and "match_data_url (run_image r) = Some mb"
    and "\<forall>i. \<exists>resp. fetch (gemini_request_for (invoke_body (run_image r) (run_product r)) mb) i = Response resp
                    \<and> status resp = 429"
  shows "toasts (page_step s (Resolve (run_id r)
            (supabase_invoke (run_reply (virtual_try_on ''POST'' (Inr (invoke_body (run_image r) (run_product r))) key fetch)))))
         = toasts s @ [''Edge Function returned a non-2xx status code'']
       \<and> map_option (\<lambda>c. canvas_error (cstate c)) (canvas (page_step s (Resolve (run_id r)
            (supabase_invoke (run_reply (virtual_try_on ''POST'' (Inr (invoke_body (run_image r) (run_product r))) key fetch))))))
         = Some (Some ''Edge Function returned a non-2xx status code'')"
proof -
  let ?req = "invoke_body (run_image r) (run_product r)"
  have m: "match_data_url (the (userImage ?req)) = Some mb" using assms(5) by (simp add: invoke_body_def)
  have "run_reply (virtual_try_on ''POST'' (Inr ?req) key fetch) =
          \<lparr>reply_status = 429,
           reply_body = ErrorBody ''Rate limited after retries. Please try again shortly.'' (Some 30)\<rparr>"
    using all_rate_limited_reply [of "''POST''" ?req key mb fetch] assms(4,6) m by simp
  then have "settle (supabase_invoke (run_reply (virtual_try_on ''POST'' (Inr ?req) key fetch)))
               = (Inl ''Edge Function returned a non-2xx status code'', None)"
    by (simp add: supabase_invoke_def settle_def)
  note e = live_run_error_step [OF reachable_inv [OF assms(1)] assms(2,3) this]
  let ?s' = "page_step s (Resolve (run_id r) (supabase_invoke (run_reply (virtual_try_on ''POST'' (Inr ?req) key fetch))))"
  show ?thesis using e by (cases "canvas ?s'") simp_all
qed

theorem rate_limit_notice_lost_witness:
  "reachable demo_running \<and> demo_run False \<in> set (runs demo_running)
   \<and> request_valid (invoke_body demo_photo (hd products)) (Some ''key'')
   \<and> match_data_url demo_photo = Some (''image/png'', ''QUJD'')
   \<and> toasts (page_step demo_running (Resolve 0
        (supabase_invoke (run_reply (virtual_try_on ''POST'' (Inr (invoke_body demo_photo (hd products)))
           (Some ''key'') (\<lambda>g i. Response rate_limited_response))))))
     = [''Edge Function returned a non-2xx status code'']"
  using rate_limit_notice_lost [of demo_running "demo_run False" "Some ''key''" "(''image/png'', ''QUJD'')"
      "\<lambda>g i. Response rate_limited_response"] demo_states_reachable(1)
  by (simp add: demo_running_eq request_valid_def invoke_body_def js_truthy_def demo_photo_def
      match_data_url_def is_word_char_def is_line_terminator_def rate_limited_response_def
      initial_page_def products_def)

lemma match_data_url_shape:
  assumes "match_data_url s = Some (m, d)"
  shows "s = ''data:'' @ m @ '';base64,'' @ d"
proof -
  obtain rest where rest: "chop_prefix ''data:image/'' s = Some rest"
    using assms by (auto simp: match_data_url_def split: option.splits)
  let ?w = "takeWhile is_word_char rest" and ?after = "dropWhile is_word_char rest"
  obtain b64 where b64: "chop_prefix '';base64,'' ?after = Some b64"
    using assms rest by (auto simp: match_data_url_def Let_def split: option.splits)
  have c: "m = ''image/'' @ ?w \<and> d = b64"
    using assms rest b64 by (simp add: match_data_url_def Let_def split: if_splits)
  have "s = ''data:image/'' @ rest" and "?after = '';base64,'' @ b64"
    using rest b64 by (simp_all only: chop_prefix_Some)
  moreover have "rest = ?w @ ?after" by simp
  ultimately show ?thesis using c by simp
qed

lemma virtual_try_on_requests:
  assumes "request_valid req key" and "match_data_url (the (userImage req)) = Some mb"
  shows "1 \<le> run_requests (virtual_try_on ''POST'' (Inr req) key fetch)
         \<and> virtual_try_on ''POST'' (Inr req) key fetch
           = virtual_try_on ''POST'' (Inr req) key (\<lambda>q. if q = gemini_request_for req mb then fetch q else other q)"
proof -
  obtain n where "lr_requests (retry_loop (fetch (gemini_request_for req mb)) 0 None []) = Suc n"
    using retry_loop_start by blast
  then show ?thesis using assms by (simp add: virtual_try_on_valid)
qed

text \<open>
  C13: a live try-on run sends the shopper's photo off the device, against the Features page's
  "Privacy First: your photos are processed locally": the photo on the page is the data URL
  of the run, the edge function puts its base64 payload into the request to Gemini, sends that
  request at least once, and its answer depends on the network only through that request.
\<close>

theorem photo_leaves_device:
  assumes "reachable s" and "r \<in> set (runs s)" and "\<not> cancelled r"
    and "request_valid (invoke_body (run_image r) (run_product r)) key"
    and "match_data_url (run_image r) = Some (m, d)"
  shows "userImage_st s = Some (''data:'' @ m @ '';base64,'' @ d)
    \<and> gr_data (gemini_request_for (invoke_body (run_image r) (run_product r)) (m, d)) = d
    \<and> 1 \<le> run_requests (virtual_try_on ''POST'' (Inr (invoke_body (run_image r) (run_product r))) key fetch)
    \<and> virtual_try_on ''POST'' (Inr (invoke_body (run_image r) (run_product r))) key fetch
      = virtual_try_on ''POST'' (Inr (invoke_body (run_image r) (run_product r))) key
          (\<lambda>q. if q = gemini_request_for (invoke_body (run_image r) (run_product r)) (m, d)
               then fetch q else other q)"
proof -
  have "userImage_st s = Some (run_image r)"
    using live_run_selection [OF reachable_inv [OF assms(1)] assms(2,3)] by blast
  moreover have "run_image r = ''data:'' @ m @ '';base64,'' @ d" using assms(5) by (rule match_data_url_shape)
  ultimately have u: "userImage_st s = Some (''data:'' @ m @ '';base64,'' @ d)" by simp
  have mdu: "match_data_url (the (userImage (invoke_body (run_image r) (run_product r)))) = Some (m, d)"
    using assms(5) by (simp add: invoke_body_def)
  have g: "gr_data (gemini_request_for (invoke_body (run_image r) (run_product r)) (m, d)) = d"
    by (simp add: gemini_request_for_def)
  show ?thesis using u g virtual_try_on_requests [OF assms(4) mdu, of fetch other] by blast
qed

theorem photo_leaves_device_witness:
  "userImage_st demo_running = Some (''data:'' @ ''image/png'' @ '';base64,'' @ ''QUJD'')
   \<and> 1 \<le> run_requests (virtual_try_on ''POST'' (Inr (invoke_body demo_photo (hd products)))
           (Some ''key'') (\<lambda>g i. Response rate_limited_response))"
  using photo_leaves_device [of demo_running "demo_run False" "Some ''key''" "''image/png''" "''QUJD''"
      "\<lambda>g i. Response rate_limited_response"] demo_states_reachable(1)
  by (simp add: demo_running_eq request_valid_def invoke_body_def js_truthy_def demo_photo_def
      match_data_url_def is_word_char_def is_line_terminator_def initial_page_def products_def)

end
